theory Spec2Isabelle
  imports Complex_Main "HOL-Library.AList" "HOL-Library.Multiset"
begin

section \<open>Python values shared by the two scripts\<close>

text \<open>
  The development embeds \<^verbatim>\<open>formal/run_verification_suite.py\<close> (the runner) and
  \<^verbatim>\<open>formal/generate_instruction_tests.py\<close> (the generator).  Everything the scripts
  obtain from outside (the file system, the clock, the \<^verbatim>\<open>sby\<close> child process, the
  order in which worker threads finish) is an explicit argument of the model.
  A Python float is the rational number it stands for; the rounding of every
  floating-point operation is taken from the outside, like the clock.
\<close>

subsection \<open>Strings and format specifications\<close>

definition newline :: char where
  "newline = CHR 0x0A"

text \<open>\<^verbatim>\<open>"\n".join(lines)\<close>\<close>

fun join_lines :: "string list \<Rightarrow> string" where
  "join_lines [] = []"
| "join_lines [l] = l"
| "join_lines (l # m # ls) = l @ newline # join_lines (m # ls)"

text \<open>A triple-quoted literal whose every line, the last included, ends in a newline.\<close>

definition text_block :: "string list \<Rightarrow> string" where
  "text_block ls = concat (map (\<lambda>l. l @ [newline]) ls)"

text \<open>\<^verbatim>\<open>str.upper()\<close>, on the ASCII letters (every catalog identifier is ASCII).\<close>

definition upper_char :: "char \<Rightarrow> char" where
  "upper_char c =
     (let n = (of_char c :: nat)
      in if 97 \<le> n \<and> n \<le> 122 then char_of (n - 32) else c)"

definition upper :: "string \<Rightarrow> string" where
  "upper s = map upper_char s"

text \<open>Format specs \<^verbatim>\<open>{s:12}\<close>, \<^verbatim>\<open>{s:<8}\<close> (strings pad on the right) and
  \<^verbatim>\<open>{n:3}\<close> (numbers pad on the left); neither truncates.\<close>

definition ljust :: "nat \<Rightarrow> string \<Rightarrow> string" where
  "ljust w s = s @ replicate (w - length s) CHR '' ''"

definition rjust :: "nat \<Rightarrow> string \<Rightarrow> string" where
  "rjust w s = replicate (w - length s) CHR '' '' @ s"

definition digit_char :: "nat \<Rightarrow> char" where
  "digit_char d = char_of (48 + d)"

function str_nat :: "nat \<Rightarrow> string" where
  "str_nat n = (if n < 10 then [digit_char n] else str_nat (n div 10) @ [digit_char (n mod 10)])"
  by pat_completeness auto
termination
  by (relation "measure id") auto

declare str_nat.simps [simp del]

definition str_int :: "int \<Rightarrow> string" where
  "str_int i = (if i < 0 then CHR ''-'' # str_nat (nat (- i)) else str_nat (nat i))"

text \<open>Rounding to the nearest integer, ties to even, as \<^verbatim>\<open>format\<close> does on the exact
  value of a float.\<close>

definition round_half_even :: "rat \<Rightarrow> nat" where
  "round_half_even y =
     (let n = nat \<lfloor>y\<rfloor>; r = y - of_int \<lfloor>y\<rfloor>
      in if 1 / 2 < r \<or> (r = 1 / 2 \<and> odd n) then Suc n else n)"

text \<open>Format spec \<^verbatim>\<open>.<d>f\<close> with \<open>d > 0\<close>: fixed point with \<open>d\<close> decimals.\<close>

definition format_f :: "nat \<Rightarrow> rat \<Rightarrow> string" where
  "format_f d x =
     (let n = round_half_even (\<bar>x\<bar> * 10 ^ d);
          frac = str_nat (n mod 10 ^ d)
      in (if x < 0 then ''-'' else '''') @ str_nat (n div 10 ^ d) @ ''.''
           @ replicate (d - length frac) CHR ''0'' @ frac)"

subsection \<open>Paths\<close>

text \<open>A \<^verbatim>\<open>pathlib.Path\<close> is the list of its components; \<^verbatim>\<open>p / name\<close> appends one.\<close>

type_synonym path = "string list"

definition parent :: "path \<Rightarrow> path" where
  "parent p = butlast p"

definition name :: "path \<Rightarrow> string" where
  "name p = (if p = [] then '''' else last p)"

text \<open>\<^verbatim>\<open>Path.stem\<close>: the final component without its last suffix; a dot that leads or
  ends the name does not start a suffix.\<close>

definition rfind_dot :: "string \<Rightarrow> nat option" where
  "rfind_dot s =
     (if CHR ''.'' \<in> set s
      then Some (length s - Suc (length (takeWhile (\<lambda>c. c \<noteq> CHR ''.'') (rev s))))
      else None)"

definition stem :: "path \<Rightarrow> string" where
  "stem p =
     (case rfind_dot (name p) of
        None \<Rightarrow> name p
      | Some i \<Rightarrow> if 0 < i \<and> Suc i < length (name p) then take i (name p) else name p)"

fun str_path :: "path \<Rightarrow> string" where
  "str_path [] = ''.''"
| "str_path [c] = c"
| "str_path (c # d # cs) = c @ CHR ''/'' # str_path (d # cs)"

subsection \<open>Exceptions\<close>

text \<open>Every exception below is a subclass of \<^verbatim>\<open>Exception\<close>; \<open>str_exn\<close> is \<^verbatim>\<open>str(e)\<close>, a
  text that the library or the operating system makes and that the model takes from
  the outside.\<close>

datatype exn_class = TimeoutExpired | ImportError | KeyError | ValueError | OSError | OtherException

datatype exn = Exn (exn_class: exn_class) (str_exn: string)

text \<open>\<^verbatim>\<open>subprocess.CompletedProcess\<close> with \<^verbatim>\<open>capture_output=True, text=True\<close>.\<close>

record completed_process =
  returncode :: int
  stdout :: string
  stderr :: string

subsection \<open>The command line\<close>

text \<open>The namespace that \<^verbatim>\<open>parser.parse_args()\<close> returns.\<close>

record args =
  args_formal_dir :: path
  args_categories :: "string list option"
  args_workers :: "int option"
  args_timeout :: int
  args_generate_only :: bool

subsection \<open>Child processes\<close>

text \<open>
  What the backend does when it is started on an artifact: the start fails (with the
  text of the exception); or the child runs for some seconds and exits with a status
  and its two captured streams; or it never exits by itself; or it starts and the
  reading of its streams fails (with the text of the exception).  A child is in one
  of four states.
\<close>

datatype child_behaviour =
  FailsToStart string | Exits rat int string string | Hangs | MonitorFails string

datatype child_state = NotStarted | Running | Exited int | Killed

subsection \<open>The outside world\<close>

text \<open>The conditions of the file system under which \<^verbatim>\<open>open\<close> and \<^verbatim>\<open>mkdir\<close> fail
  whatever the operating system would allow.\<close>

datatype os_failure = ParentMissing | TargetIsDirectory | TargetIsFile

text \<open>
  What the scripts observe of the outside:
  \<^item> \<open>parse_args argv\<close>: the namespace that \<^verbatim>\<open>argparse\<close> makes of the command line, or the
    status with which it ends the process (a rejected command line, \<^verbatim>\<open>--help\<close>);
  \<^item> \<open>child cmd cwd\<close>: what the command does when it is started in the directory;
  \<^item> \<open>timeout_text cmd t\<close>: \<^verbatim>\<open>str(e)\<close> of the \<^verbatim>\<open>TimeoutExpired\<close> for that command and timeout;
  \<^item> \<open>elapsed f\<close>: the difference of the two \<^verbatim>\<open>time.time()\<close> readings around the job on \<open>f\<close>;
  \<^item> \<open>log_glob d\<close>: \<open>None\<close> when the directory \<open>d\<close> does not exist after the job, else
    \<^verbatim>\<open>list(d.glob("**/*.log"))\<close>;
  \<^item> \<open>finish_key i\<close>: the moment at which the \<open>i\<close>-th submitted job finishes;
  \<^item> \<open>mkdir_error p\<close>, \<open>write_error p\<close>: \<^verbatim>\<open>str(e)\<close> of the \<^verbatim>\<open>OSError\<close> with which the
    operating system refuses to create the directory \<open>p\<close>, or to open the file \<open>p\<close> for
    writing, if it does;
  \<^item> \<open>write_fault p\<close>: when writing to the opened file \<open>p\<close> fails, the number of
    characters that have reached the file and \<^verbatim>\<open>str(e)\<close> of the \<^verbatim>\<open>OSError\<close>;
  \<^item> \<open>os_error_text k p\<close>: \<^verbatim>\<open>str(e)\<close> of the \<^verbatim>\<open>OSError\<close> for a failure of kind \<open>k\<close> on \<open>p\<close>;
  \<^item> \<open>import_generator\<close>: the directory of the module that
    \<^verbatim>\<open>from generate_instruction_tests import main\<close> finds, \<open>None\<close> for \<^verbatim>\<open>ImportError\<close>;
  \<^item> \<open>time_start\<close>, \<open>time_summary\<close>, \<open>time_report\<close>: the readings of \<^verbatim>\<open>time.time()\<close> at the
    start of the suite, in the summary and in the saved report; \<open>strftime\<close>: the timestamp;
  \<^item> \<open>cpu_count\<close>: \<^verbatim>\<open>multiprocessing.cpu_count()\<close>;
  \<^item> \<open>float_round x\<close>: the float that one floating-point operation returns when its exact
    result is \<open>x\<close>; \<open>float_sum ds\<close>: the float that \<^verbatim>\<open>sum\<close> returns for the floats \<open>ds\<close>,
    taken in that order.
  A float is the rational number it stands for; nothing is assumed of the two
  rounding functions.
\<close>

record world =
  parse_args :: "string list \<Rightarrow> int + args"
  child :: "string list \<Rightarrow> path \<Rightarrow> child_behaviour"
  timeout_text :: "string list \<Rightarrow> int \<Rightarrow> string"
  elapsed :: "path \<Rightarrow> rat"
  log_glob :: "path \<Rightarrow> path list option"
  finish_key :: "nat \<Rightarrow> nat"
  mkdir_error :: "path \<Rightarrow> string option"
  write_error :: "path \<Rightarrow> string option"
  write_fault :: "path \<Rightarrow> (nat \<times> string) option"
  os_error_text :: "os_failure \<Rightarrow> path \<Rightarrow> string"
  import_generator :: "path option"
  time_start :: rat
  time_summary :: rat
  time_report :: rat
  strftime :: string
  cpu_count :: int
  float_round :: "rat \<Rightarrow> rat"
  float_sum :: "rat list \<Rightarrow> rat"

text \<open>
  \<^verbatim>\<open>subprocess.run(cmd, cwd=cwd, capture_output=True, text=True, timeout=t)\<close>, as the
  library documents it: the child is started; when it exits within the timeout the
  completed process is returned; when the timeout expires the child is killed and
  waited for, and \<^verbatim>\<open>TimeoutExpired\<close> is raised after it has terminated; when reading the
  streams raises, the child is killed too and the exception goes on.  The second
  component is the state in which the call leaves the child.
\<close>

definition subprocess_run ::
  "world \<Rightarrow> string list \<Rightarrow> path \<Rightarrow> int \<Rightarrow> (exn + completed_process) \<times> child_state" where
  "subprocess_run w cmd cwd t =
     (case child w cmd cwd of
        FailsToStart msg \<Rightarrow> (Inl (Exn OSError msg), NotStarted)
      | Exits seconds code out err \<Rightarrow>
          if seconds \<le> of_int t
          then (Inr \<lparr> returncode = code, stdout = out, stderr = err \<rparr>, Exited code)
          else (Inl (Exn TimeoutExpired (timeout_text w cmd t)), Killed)
      | Hangs \<Rightarrow> (Inl (Exn TimeoutExpired (timeout_text w cmd t)), Killed)
      | MonitorFails msg \<Rightarrow> (Inl (Exn OtherException msg), Killed))"

subsection \<open>The file system\<close>

text \<open>The directories that exist, and the regular files with their contents.  A file
  that is written anew is listed after the files already there.\<close>

record filesystem =
  dirs :: "path list"
  files :: "(path \<times> string) list"

text \<open>\<^verbatim>\<open>Path.exists()\<close>\<close>

definition path_exists :: "filesystem \<Rightarrow> path \<Rightarrow> bool" where
  "path_exists fs p = (p \<in> set (dirs fs) \<or> p \<in> fst ` set (files fs))"

definition endswith :: "string \<Rightarrow> string \<Rightarrow> bool" where
  "endswith s suf = (length suf \<le> length s \<and> drop (length s - length suf) s = suf)"

text \<open>\<^verbatim>\<open>list(d.glob("*" + suf))\<close>: the entries directly in the directory \<open>d\<close> whose name
  ends in \<open>suf\<close>.\<close>

definition glob :: "filesystem \<Rightarrow> path \<Rightarrow> string \<Rightarrow> path list" where
  "glob fs d suf =
     (if d \<in> set (dirs fs)
      then filter (\<lambda>p. p \<noteq> [] \<and> parent p = d \<and> endswith (name p) suf)
             (map fst (files fs) @ dirs fs)
      else [])"

text \<open>The exception, if any, of \<^verbatim>\<open>open(p, 'w')\<close>: the directory of \<open>p\<close> must exist, \<open>p\<close>
  must not be a directory, and the operating system must not refuse.  When \<^verbatim>\<open>open\<close>
  raises, the file is as it was.\<close>

definition open_w_error :: "world \<Rightarrow> filesystem \<Rightarrow> path \<Rightarrow> exn option" where
  "open_w_error w fs p =
     (if parent p \<notin> set (dirs fs) then Some (Exn OSError (os_error_text w ParentMissing p))
      else if p \<in> set (dirs fs) then Some (Exn OSError (os_error_text w TargetIsDirectory p))
      else map_option (Exn OSError) (write_error w p))"

text \<open>
  \<^verbatim>\<open>with open(p, 'w') as f: f.write(s)\<close>.  Opening truncates the file; when the writing
  fails after that, the file holds the characters that have reached it and the
  exception leaves the statement.  The result is the exception, if any, and the file
  system left behind.
\<close>

definition write_text :: "world \<Rightarrow> path \<Rightarrow> string \<Rightarrow> filesystem \<Rightarrow> exn option \<times> filesystem" where
  "write_text w p s fs =
     (case open_w_error w fs p of
        Some e \<Rightarrow> (Some e, fs)
      | None \<Rightarrow>
          (case write_fault w p of
             Some (n, msg) \<Rightarrow>
               (Some (Exn OSError msg), fs\<lparr>files := AList.update p (take n s) (files fs)\<rparr>)
           | None \<Rightarrow> (None, fs\<lparr>files := AList.update p s (files fs)\<rparr>)))"

text \<open>\<^verbatim>\<open>p.mkdir(exist_ok=True)\<close>\<close>

definition mkdir_exist_ok :: "world \<Rightarrow> path \<Rightarrow> filesystem \<Rightarrow> exn + filesystem" where
  "mkdir_exist_ok w p fs =
     (if p \<in> set (dirs fs) then Inr fs
      else if p \<in> fst ` set (files fs) then Inl (Exn OSError (os_error_text w TargetIsFile p))
      else if parent p \<notin> set (dirs fs) then Inl (Exn OSError (os_error_text w ParentMissing p))
      else (case mkdir_error w p of
              Some msg \<Rightarrow> Inl (Exn OSError msg)
            | None \<Rightarrow> Inr (fs\<lparr>dirs := dirs fs @ [p]\<rparr>)))"

section \<open>The generator: \<^verbatim>\<open>generate_instruction_tests.py\<close>\<close>

subsection \<open>The catalogs\<close>

text \<open>The three module-level dictionaries, in their insertion order.\<close>

definition RV32I_INSTRUCTIONS :: "(string \<times> string) list" where
  "RV32I_INSTRUCTIONS =
     [(''add'', ''R-type arithmetic''),
      (''sub'', ''R-type arithmetic''),
      (''addi'', ''I-type arithmetic''),
      (''lui'', ''U-type load upper immediate''),
      (''auipc'', ''U-type add upper immediate to PC''),
      (''and'', ''R-type logical''),
      (''or'', ''R-type logical''),
      (''xor'', ''R-type logical''),
      (''andi'', ''I-type logical''),
      (''ori'', ''I-type logical''),
      (''xori'', ''I-type logical''),
      (''sll'', ''R-type shift left logical''),
      (''srl'', ''R-type shift right logical''),
      (''sra'', ''R-type shift right arithmetic''),
      (''slli'', ''I-type shift left logical immediate''),
      (''srli'', ''I-type shift right logical immediate''),
      (''srai'', ''I-type shift right arithmetic immediate''),
      (''slt'', ''R-type set less than''),
      (''sltu'', ''R-type set less than unsigned''),
      (''slti'', ''I-type set less than immediate''),
      (''sltiu'', ''I-type set less than immediate unsigned''),
      (''lb'', ''I-type load byte''),
      (''lh'', ''I-type load halfword''),
      (''lw'', ''I-type load word''),
      (''lbu'', ''I-type load byte unsigned''),
      (''lhu'', ''I-type load halfword unsigned''),
      (''sb'', ''S-type store byte''),
      (''sh'', ''S-type store halfword''),
      (''sw'', ''S-type store word''),
      (''beq'', ''B-type branch equal''),
      (''bne'', ''B-type branch not equal''),
      (''blt'', ''B-type branch less than''),
      (''bge'', ''B-type branch greater equal''),
      (''bltu'', ''B-type branch less than unsigned''),
      (''bgeu'', ''B-type branch greater equal unsigned''),
      (''jal'', ''J-type jump and link''),
      (''jalr'', ''I-type jump and link register'')]"

definition SYSTEM_CHECKS :: "(string \<times> string) list" where
  "SYSTEM_CHECKS =
     [(''reg'', ''Register file verification''),
      (''pc_fwd'', ''PC forward progression verification''),
      (''pc_bwd'', ''PC backward verification''),
      (''dmem'', ''Data memory consistency''),
      (''imem'', ''Instruction memory consistency''),
      (''insn'', ''General instruction verification''),
      (''ill'', ''Illegal instruction handling''),
      (''hang'', ''Hang detection''),
      (''causal'', ''Causality verification''),
      (''unique'', ''Unique instruction verification''),
      (''liveness'', ''Liveness verification'')]"

definition INTEGRATION_CHECKS :: "(string \<times> string) list" where
  "INTEGRATION_CHECKS =
     [(''rv32i'', ''Complete RV32I ISA verification''),
      (''cover'', ''Coverage analysis''),
      (''fault'', ''Fault injection testing'')]"

subsection \<open>The artifact templates\<close>

text \<open>The three f-strings, line by line.\<close>

definition instruction_config_content :: "string \<Rightarrow> string" where
  "instruction_config_content instruction =
     text_block
     [''[options]'',
      ''mode prove'',
      ''expect pass'',
      ''depth 20'',
      ''wait on'',
      '''',
      ''[engines]'',
      ''smtbmc boolector'',
      '''',
      ''[script]'',
      ''# --- Design files with instruction-specific defines ---'',
      ''read_verilog -DFORMAL -DRISCV_FORMAL_NRET=1 -DRISCV_FORMAL_ILEN=32 -DRISCV_FORMAL_XLEN=32 -DRISCV_FORMAL_INSN_MODEL=rvfi_insn_'' @ instruction @ '' -DRISCV_FORMAL_CHANNEL_IDX=0 /Users/lazybanana/github/synapse32/rtl/top.v'',
      ''read_verilog -DFORMAL -DRISCV_FORMAL_NRET=1 -DRISCV_FORMAL_ILEN=32 -DRISCV_FORMAL_XLEN=32 -DRISCV_FORMAL_INSN_MODEL=rvfi_insn_'' @ instruction @ '' -DRISCV_FORMAL_CHANNEL_IDX=0 /Users/lazybanana/github/synapse32/rtl/riscv_cpu.v'',
      ''read_verilog -DFORMAL -DRISCV_FORMAL_NRET=1 -DRISCV_FORMAL_ILEN=32 -DRISCV_FORMAL_XLEN=32 -DRISCV_FORMAL_INSN_MODEL=rvfi_insn_'' @ instruction @ '' -DRISCV_FORMAL_CHANNEL_IDX=0 /Users/lazybanana/github/synapse32/rtl/data_mem.v'',
      ''read_verilog -DFORMAL -DRISCV_FORMAL_NRET=1 -DRISCV_FORMAL_ILEN=32 -DRISCV_FORMAL_XLEN=32 -DRISCV_FORMAL_INSN_MODEL=rvfi_insn_'' @ instruction @ '' -DRISCV_FORMAL_CHANNEL_IDX=0 /Users/lazybanana/github/synapse32/rtl/execution_unit.v'',
      ''read_verilog -DFORMAL -DRISCV_FORMAL_NRET=1 -DRISCV_FORMAL_ILEN=32 -DRISCV_FORMAL_XLEN=32 -DRISCV_FORMAL_INSN_MODEL=rvfi_insn_'' @ instruction @ '' -DRISCV_FORMAL_CHANNEL_IDX=0 /Users/lazybanana/github/synapse32/rtl/instr_mem.v'',
      ''read_verilog -DFORMAL -DRISCV_FORMAL_NRET=1 -DRISCV_FORMAL_ILEN=32 -DRISCV_FORMAL_XLEN=32 -DRISCV_FORMAL_INSN_MODEL=rvfi_insn_'' @ instruction @ '' -DRISCV_FORMAL_CHANNEL_IDX=0 /Users/lazybanana/github/synapse32/rtl/memory_unit.v'',
      ''read_verilog -DFORMAL -DRISCV_FORMAL_NRET=1 -DRISCV_FORMAL_ILEN=32 -DRISCV_FORMAL_XLEN=32 -DRISCV_FORMAL_INSN_MODEL=rvfi_insn_'' @ instruction @ '' -DRISCV_FORMAL_CHANNEL_IDX=0 /Users/lazybanana/github/synapse32/rtl/seven_seg.v'',
      ''read_verilog -DFORMAL -DRISCV_FORMAL_NRET=1 -DRISCV_FORMAL_ILEN=32 -DRISCV_FORMAL_XLEN=32 -DRISCV_FORMAL_INSN_MODEL=rvfi_insn_'' @ instruction @ '' -DRISCV_FORMAL_CHANNEL_IDX=0 /Users/lazybanana/github/synapse32/rtl/writeback.v'',
      '''',
      ''# Core modules'',
      ''read_verilog -DFORMAL -DRISCV_FORMAL_NRET=1 -DRISCV_FORMAL_ILEN=32 -DRISCV_FORMAL_XLEN=32 -DRISCV_FORMAL_INSN_MODEL=rvfi_insn_'' @ instruction @ '' -DRISCV_FORMAL_CHANNEL_IDX=0 /Users/lazybanana/github/synapse32/rtl/core_modules/alu.v'',
      ''read_verilog -DFORMAL -DRISCV_FORMAL_NRET=1 -DRISCV_FORMAL_ILEN=32 -DRISCV_FORMAL_XLEN=32 -DRISCV_FORMAL_INSN_MODEL=rvfi_insn_'' @ instruction @ '' -DRISCV_FORMAL_CHANNEL_IDX=0 /Users/lazybanana/github/synapse32/rtl/core_modules/csr_exec.v'',
      ''read_verilog -DFORMAL -DRISCV_FORMAL_NRET=1 -DRISCV_FORMAL_ILEN=32 -DRISCV_FORMAL_XLEN=32 -DRISCV_FORMAL_INSN_MODEL=rvfi_insn_'' @ instruction @ '' -DRISCV_FORMAL_CHANNEL_IDX=0 /Users/lazybanana/github/synapse32/rtl/core_modules/csr_file.v'',
      ''read_verilog -DFORMAL -DRISCV_FORMAL_NRET=1 -DRISCV_FORMAL_ILEN=32 -DRISCV_FORMAL_XLEN=32 -DRISCV_FORMAL_INSN_MODEL=rvfi_insn_'' @ instruction @ '' -DRISCV_FORMAL_CHANNEL_IDX=0 /Users/lazybanana/github/synapse32/rtl/core_modules/decoder.v'',
      ''read_verilog -DFORMAL -DRISCV_FORMAL_NRET=1 -DRISCV_FORMAL_ILEN=32 -DRISCV_FORMAL_XLEN=32 -DRISCV_FORMAL_INSN_MODEL=rvfi_insn_'' @ instruction @ '' -DRISCV_FORMAL_CHANNEL_IDX=0 /Users/lazybanana/github/synapse32/rtl/core_modules/interrupt_controller.v'',
      ''read_verilog -DFORMAL -DRISCV_FORMAL_NRET=1 -DRISCV_FORMAL_ILEN=32 -DRISCV_FORMAL_XLEN=32 -DRISCV_FORMAL_INSN_MODEL=rvfi_insn_'' @ instruction @ '' -DRISCV_FORMAL_CHANNEL_IDX=0 /Users/lazybanana/github/synapse32/rtl/core_modules/pc.v'',
      ''read_verilog -DFORMAL -DRISCV_FORMAL_NRET=1 -DRISCV_FORMAL_ILEN=32 -DRISCV_FORMAL_XLEN=32 -DRISCV_FORMAL_INSN_MODEL=rvfi_insn_'' @ instruction @ '' -DRISCV_FORMAL_CHANNEL_IDX=0 /Users/lazybanana/github/synapse32/rtl/core_modules/registerfile.v'',
      ''read_verilog -DFORMAL -DRISCV_FORMAL_NRET=1 -DRISCV_FORMAL_ILEN=32 -DRISCV_FORMAL_XLEN=32 -DRISCV_FORMAL_INSN_MODEL=rvfi_insn_'' @ instruction @ '' -DRISCV_FORMAL_CHANNEL_IDX=0 /Users/lazybanana/github/synapse32/rtl/core_modules/timer.v'',
      ''read_verilog -DFORMAL -DRISCV_FORMAL_NRET=1 -DRISCV_FORMAL_ILEN=32 -DRISCV_FORMAL_XLEN=32 -DRISCV_FORMAL_INSN_MODEL=rvfi_insn_'' @ instruction @ '' -DRISCV_FORMAL_CHANNEL_IDX=0 /Users/lazybanana/github/synapse32/rtl/core_modules/uart.v'',
      '''',
      ''# Pipeline stages'',
      ''read_verilog -DFORMAL -DRISCV_FORMAL_NRET=1 -DRISCV_FORMAL_ILEN=32 -DRISCV_FORMAL_XLEN=32 -DRISCV_FORMAL_INSN_MODEL=rvfi_insn_'' @ instruction @ '' -DRISCV_FORMAL_CHANNEL_IDX=0 /Users/lazybanana/github/synapse32/rtl/pipeline_stages/EX_MEM.v'',
      ''read_verilog -DFORMAL -DRISCV_FORMAL_NRET=1 -DRISCV_FORMAL_ILEN=32 -DRISCV_FORMAL_XLEN=32 -DRISCV_FORMAL_INSN_MODEL=rvfi_insn_'' @ instruction @ '' -DRISCV_FORMAL_CHANNEL_IDX=0 /Users/lazybanana/github/synapse32/rtl/pipeline_stages/forwarding_unit.v'',
      ''read_verilog -DFORMAL -DRISCV_FORMAL_NRET=1 -DRISCV_FORMAL_ILEN=32 -DRISCV_FORMAL_XLEN=32 -DRISCV_FORMAL_INSN_MODEL=rvfi_insn_'' @ instruction @ '' -DRISCV_FORMAL_CHANNEL_IDX=0 /Users/lazybanana/github/synapse32/rtl/pipeline_stages/ID_EX.v'',
      ''read_verilog -DFORMAL -DRISCV_FORMAL_ILEN=32 -DRISCV_FORMAL_XLEN=32 -DRISCV_FORMAL_INSN_MODEL=rvfi_insn_'' @ instruction @ '' -DRISCV_FORMAL_CHANNEL_IDX=0 /Users/lazybanana/github/synapse32/rtl/pipeline_stages/IF_ID.v'',
      ''read_verilog -DFORMAL -DRISCV_FORMAL_NRET=1 -DRISCV_FORMAL_ILEN=32 -DRISCV_FORMAL_XLEN=32 -DRISCV_FORMAL_INSN_MODEL=rvfi_insn_'' @ instruction @ '' -DRISCV_FORMAL_CHANNEL_IDX=0 /Users/lazybanana/github/synapse32/rtl/pipeline_stages/load_use_detector.v'',
      ''read_verilog -DFORMAL -DRISCV_FORMAL_NRET=1 -DRISCV_FORMAL_ILEN=32 -DRISCV_FORMAL_XLEN=32 -DRISCV_FORMAL_INSN_MODEL=rvfi_insn_'' @ instruction @ '' -DRISCV_FORMAL_CHANNEL_IDX=0 /Users/lazybanana/github/synapse32/rtl/pipeline_stages/MEM_WB.v'',
      ''read_verilog -DFORMAL -DRISCV_FORMAL_NRET=1 -DRISCV_FORMAL_ILEN=32 -DRISCV_FORMAL_XLEN=32 -DRISCV_FORMAL_INSN_MODEL=rvfi_insn_'' @ instruction @ '' -DRISCV_FORMAL_CHANNEL_IDX=0 /Users/lazybanana/github/synapse32/rtl/pipeline_stages/store_load_detector.v'',
      ''read_verilog -DFORMAL -DRISCV_FORMAL_NRET=1 -DRISCV_FORMAL_ILEN=32 -DRISCV_FORMAL_XLEN=32 -DRISCV_FORMAL_INSN_MODEL=rvfi_insn_'' @ instruction @ '' -DRISCV_FORMAL_CHANNEL_IDX=0 /Users/lazybanana/github/synapse32/rtl/pipeline_stages/store_load_forward.v'',
      '''',
      ''# Include files'',
      ''read_verilog -DFORMAL -DRISCV_FORMAL_NRET=1 -DRISCV_FORMAL_ILEN=32 -DRISCV_FORMAL_XLEN=32 -DRISCV_FORMAL_INSN_MODEL=rvfi_insn_'' @ instruction @ '' -DRISCV_FORMAL_CHANNEL_IDX=0 /Users/lazybanana/github/synapse32/rtl/include/instr_defines.vh'',
      ''read_verilog -DFORMAL -DRISCV_FORMAL_NRET=1 -DRISCV_FORMAL_ILEN=32 -DRISCV_FORMAL_XLEN=32 -DRISCV_FORMAL_INSN_MODEL=rvfi_insn_'' @ instruction @ '' -DRISCV_FORMAL_CHANNEL_IDX=0 /Users/lazybanana/github/synapse32/rtl/include/memory_map.vh'',
      '''',
      ''# riscv-formal checks for '' @ upper instruction @ '' instruction'',
      ''read_verilog -sv -formal -DFORMAL -DRISCV_FORMAL_NRET=1 -DRISCV_FORMAL_ILEN=32 -DRISCV_FORMAL_XLEN=32 -DRISCV_FORMAL_INSN_MODEL=rvfi_insn_'' @ instruction @ '' -DRISCV_FORMAL_CHANNEL_IDX=0 /Users/lazybanana/github/synapse32/riscv-formal/checks/rvfi_macros.vh'',
      ''read_verilog -sv -formal -DFORMAL -DRISCV_FORMAL_NRET=1 -DRISCV_FORMAL_ILEN=32 -DRISCV_FORMAL_XLEN=32 -DRISCV_FORMAL_INSN_MODEL=rvfi_insn_'' @ instruction @ '' -DRISCV_FORMAL_CHANNEL_IDX=0 /Users/lazybanana/github/synapse32/riscv-formal/insns/insn_'' @ instruction @ ''.v'',
      ''read_verilog -sv -formal -DFORMAL -DRISCV_FORMAL_NRET=1 -DRISCV_FORMAL_ILEN=32 -DRISCV_FORMAL_XLEN=32 -DRISCV_FORMAL_INSN_MODEL=rvfi_insn_'' @ instruction @ '' -DRISCV_FORMAL_CHANNEL_IDX=0 /Users/lazybanana/github/synapse32/riscv-formal/checks/rvfi_insn_check.sv'',
      '''',
      ''# Synthesis passes'',
      ''hierarchy -top top'',
      ''proc'',
      ''opt'',
      ''memory -nomap'',
      ''flatten'',
      ''setundef -undriven -anyseq'',
      ''check'',
      ''stat'',
      '''',
      ''[files]'',
      ''/Users/lazybanana/github/synapse32/rtl/top.v'',
      ''/Users/lazybanana/github/synapse32/rtl/riscv_cpu.v'',
      ''/Users/lazybanana/github/synapse32/rtl/data_mem.v'',
      ''/Users/lazybanana/github/synapse32/rtl/execution_unit.v'',
      ''/Users/lazybanana/github/synapse32/rtl/instr_mem.v'',
      ''/Users/lazybanana/github/synapse32/rtl/memory_unit.v'',
      ''/Users/lazybanana/github/synapse32/rtl/seven_seg.v'',
      ''/Users/lazybanana/github/synapse32/rtl/writeback.v'',
      ''/Users/lazybanana/github/synapse32/rtl/core_modules/alu.v'',
      ''/Users/lazybanana/github/synapse32/rtl/core_modules/csr_exec.v'',
      ''/Users/lazybanana/github/synapse32/rtl/core_modules/csr_file.v'',
      ''/Users/lazybanana/github/synapse32/rtl/core_modules/decoder.v'',
      ''/Users/lazybanana/github/synapse32/rtl/core_modules/interrupt_controller.v'',
      ''/Users/lazybanana/github/synapse32/rtl/core_modules/pc.v'',
      ''/Users/lazybanana/github/synapse32/rtl/core_modules/registerfile.v'',
      ''/Users/lazybanana/github/synapse32/rtl/core_modules/timer.v'',
      ''/Users/lazybanana/github/synapse32/rtl/core_modules/uart.v'',
      ''/Users/lazybanana/github/synapse32/rtl/pipeline_stages/EX_MEM.v'',
      ''/Users/lazybanana/github/synapse32/rtl/pipeline_stages/forwarding_unit.v'',
      ''/Users/lazybanana/github/synapse32/rtl/pipeline_stages/ID_EX.v'',
      ''/Users/lazybanana/github/synapse32/rtl/pipeline_stages/IF_ID.v'',
      ''/Users/lazybanana/github/synapse32/rtl/pipeline_stages/load_use_detector.v'',
      ''/Users/lazybanana/github/synapse32/rtl/pipeline_stages/MEM_WB.v'',
      ''/Users/lazybanana/github/synapse32/rtl/pipeline_stages/store_load_detector.v'',
      ''/Users/lazybanana/github/synapse32/rtl/pipeline_stages/store_load_forward.v'',
      ''/Users/lazybanana/github/synapse32/rtl/include/instr_defines.vh'',
      ''/Users/lazybanana/github/synapse32/rtl/include/memory_map.vh'',
      ''/Users/lazybanana/github/synapse32/riscv-formal/checks/rvfi_macros.vh'',
      ''/Users/lazybanana/github/synapse32/riscv-formal/insns/insn_'' @ instruction @ ''.v'',
      ''/Users/lazybanana/github/synapse32/riscv-formal/checks/rvfi_insn_check.sv'']"

definition system_config_content :: "string \<Rightarrow> string" where
  "system_config_content check_name =
     text_block
     [''[options]'',
      ''mode prove'',
      ''expect pass'',
      ''depth 30'',
      ''wait on'',
      '''',
      ''[engines]'',
      ''smtbmc boolector'',
      '''',
      ''[script]'',
      ''# --- Design files for '' @ upper check_name @ '' verification ---'',
      ''read_verilog -DFORMAL -DRISCV_FORMAL_NRET=1 -DRISCV_FORMAL_ILEN=32 -DRISCV_FORMAL_XLEN=32 -DRISCV_FORMAL_CHANNEL_IDX=0 /Users/lazybanana/github/synapse32/rtl/top.v'',
      ''read_verilog -DFORMAL -DRISCV_FORMAL_NRET=1 -DRISCV_FORMAL_ILEN=32 -DRISCV_FORMAL_XLEN=32 -DRISCV_FORMAL_CHANNEL_IDX=0 /Users/lazybanana/github/synapse32/rtl/riscv_cpu.v'',
      ''read_verilog -DFORMAL -DRISCV_FORMAL_NRET=1 -DRISCV_FORMAL_ILEN=32 -DRISCV_FORMAL_XLEN=32 -DRISCV_FORMAL_CHANNEL_IDX=0 /Users/lazybanana/github/synapse32/rtl/data_mem.v'',
      ''read_verilog -DFORMAL -DRISCV_FORMAL_NRET=1 -DRISCV_FORMAL_ILEN=32 -DRISCV_FORMAL_XLEN=32 -DRISCV_FORMAL_CHANNEL_IDX=0 /Users/lazybanana/github/synapse32/rtl/execution_unit.v'',
      ''read_verilog -DFORMAL -DRISCV_FORMAL_NRET=1 -DRISCV_FORMAL_ILEN=32 -DRISCV_FORMAL_XLEN=32 -DRISCV_FORMAL_CHANNEL_IDX=0 /Users/lazybanana/github/synapse32/rtl/instr_mem.v'',
      ''read_verilog -DFORMAL -DRISCV_FORMAL_NRET=1 -DRISCV_FORMAL_ILEN=32 -DRISCV_FORMAL_XLEN=32 -DRISCV_FORMAL_CHANNEL_IDX=0 /Users/lazybanana/github/synapse32/rtl/memory_unit.v'',
      ''read_verilog -DFORMAL -DRISCV_FORMAL_NRET=1 -DRISCV_FORMAL_ILEN=32 -DRISCV_FORMAL_XLEN=32 -DRISCV_FORMAL_CHANNEL_IDX=0 /Users/lazybanana/github/synapse32/rtl/seven_seg.v'',
      ''read_verilog -DFORMAL -DRISCV_FORMAL_NRET=1 -DRISCV_FORMAL_ILEN=32 -DRISCV_FORMAL_XLEN=32 -DRISCV_FORMAL_CHANNEL_IDX=0 /Users/lazybanana/github/synapse32/rtl/writeback.v'',
      '''',
      ''# Core modules'',
      ''read_verilog -DFORMAL -DRISCV_FORMAL_NRET=1 -DRISCV_FORMAL_ILEN=32 -DRISCV_FORMAL_XLEN=32 -DRISCV_FORMAL_CHANNEL_IDX=0 /Users/lazybanana/github/synapse32/rtl/core_modules/alu.v'',
      ''read_verilog -DFORMAL -DRISCV_FORMAL_NRET=1 -DRISCV_FORMAL_ILEN=32 -DRISCV_FORMAL_XLEN=32 -DRISCV_FORMAL_CHANNEL_IDX=0 /Users/lazybanana/github/synapse32/rtl/core_modules/csr_exec.v'',
      ''read_verilog -DFORMAL -DRISCV_FORMAL_NRET=1 -DRISCV_FORMAL_ILEN=32 -DRISCV_FORMAL_XLEN=32 -DRISCV_FORMAL_CHANNEL_IDX=0 /Users/lazybanana/github/synapse32/rtl/core_modules/csr_file.v'',
      ''read_verilog -DFORMAL -DRISCV_FORMAL_NRET=1 -DRISCV_FORMAL_ILEN=32 -DRISCV_FORMAL_XLEN=32 -DRISCV_FORMAL_CHANNEL_IDX=0 /Users/lazybanana/github/synapse32/rtl/core_modules/decoder.v'',
      ''read_verilog -DFORMAL -DRISCV_FORMAL_NRET=1 -DRISCV_FORMAL_ILEN=32 -DRISCV_FORMAL_XLEN=32 -DRISCV_FORMAL_CHANNEL_IDX=0 /Users/lazybanana/github/synapse32/rtl/core_modules/interrupt_controller.v'',
      ''read_verilog -DFORMAL -DRISCV_FORMAL_NRET=1 -DRISCV_FORMAL_ILEN=32 -DRISCV_FORMAL_XLEN=32 -DRISCV_FORMAL_CHANNEL_IDX=0 /Users/lazybanana/github/synapse32/rtl/core_modules/pc.v'',
      ''read_verilog -DFORMAL -DRISCV_FORMAL_NRET=1 -DRISCV_FORMAL_ILEN=32 -DRISCV_FORMAL_XLEN=32 -DRISCV_FORMAL_CHANNEL_IDX=0 /Users/lazybanana/github/synapse32/rtl/core_modules/registerfile.v'',
      ''read_verilog -DFORMAL -DRISCV_FORMAL_NRET=1 -DRISCV_FORMAL_ILEN=32 -DRISCV_FORMAL_XLEN=32 -DRISCV_FORMAL_CHANNEL_IDX=0 /Users/lazybanana/github/synapse32/rtl/core_modules/timer.v'',
      ''read_verilog -DFORMAL -DRISCV_FORMAL_NRET=1 -DRISCV_FORMAL_ILEN=32 -DRISCV_FORMAL_XLEN=32 -DRISCV_FORMAL_CHANNEL_IDX=0 /Users/lazybanana/github/synapse32/rtl/core_modules/uart.v'',
      '''',
      ''# Pipeline stages'',
      ''read_verilog -DFORMAL -DRISCV_FORMAL_NRET=1 -DRISCV_FORMAL_ILEN=32 -DRISCV_FORMAL_XLEN=32 -DRISCV_FORMAL_CHANNEL_IDX=0 /Users/lazybanana/github/synapse32/rtl/pipeline_stages/EX_MEM.v'',
      ''read_verilog -DFORMAL -DRISCV_FORMAL_NRET=1 -DRISCV_FORMAL_ILEN=32 -DRISCV_FORMAL_XLEN=32 -DRISCV_FORMAL_CHANNEL_IDX=0 /Users/lazybanana/github/synapse32/rtl/pipeline_stages/forwarding_unit.v'',
      ''read_verilog -DFORMAL -DRISCV_FORMAL_NRET=1 -DRISCV_FORMAL_ILEN=32 -DRISCV_FORMAL_XLEN=32 -DRISCV_FORMAL_CHANNEL_IDX=0 /Users/lazybanana/github/synapse32/rtl/pipeline_stages/ID_EX.v'',
      ''read_verilog -DFORMAL -DRISCV_FORMAL_NRET=1 -DRISCV_FORMAL_ILEN=32 -DRISCV_FORMAL_XLEN=32 -DRISCV_FORMAL_CHANNEL_IDX=0 /Users/lazybanana/github/synapse32/rtl/pipeline_stages/IF_ID.v'',
      ''read_verilog -DFORMAL -DRISCV_FORMAL_NRET=1 -DRISCV_FORMAL_ILEN=32 -DRISCV_FORMAL_XLEN=32 -DRISCV_FORMAL_CHANNEL_IDX=0 /Users/lazybanana/github/synapse32/rtl/pipeline_stages/load_use_detector.v'',
      ''read_verilog -DFORMAL -DRISCV_FORMAL_NRET=1 -DRISCV_FORMAL_ILEN=32 -DRISCV_FORMAL_XLEN=32 -DRISCV_FORMAL_CHANNEL_IDX=0 /Users/lazybanana/github/synapse32/rtl/pipeline_stages/MEM_WB.v'',
      ''read_verilog -DFORMAL -DRISCV_FORMAL_NRET=1 -DRISCV_FORMAL_ILEN=32 -DRISCV_FORMAL_XLEN=32 -DRISCV_FORMAL_CHANNEL_IDX=0 /Users/lazybanana/github/synapse32/rtl/pipeline_stages/store_load_detector.v'',
      ''read_verilog -DFORMAL -DRISCV_FORMAL_NRET=1 -DRISCV_FORMAL_ILEN=32 -DRISCV_FORMAL_XLEN=32 -DRISCV_FORMAL_CHANNEL_IDX=0 /Users/lazybanana/github/synapse32/rtl/pipeline_stages/store_load_forward.v'',
      '''',
      ''# Include files'',
      ''read_verilog -DFORMAL -DRISCV_FORMAL_NRET=1 -DRISCV_FORMAL_ILEN=32 -DRISCV_FORMAL_XLEN=32 -DRISCV_FORMAL_CHANNEL_IDX=0 /Users/lazybanana/github/synapse32/rtl/include/instr_defines.vh'',
      ''read_verilog -DFORMAL -DRISCV_FORMAL_NRET=1 -DRISCV_FORMAL_ILEN=32 -DRISCV_FORMAL_XLEN=32 -DRISCV_FORMAL_CHANNEL_IDX=0 /Users/lazybanana/github/synapse32/rtl/include/memory_map.vh'',
      '''',
      ''# riscv-formal checks for '' @ upper check_name @ '' verification'',
      ''read_verilog -sv -formal -DFORMAL -DRISCV_FORMAL_NRET=1 -DRISCV_FORMAL_ILEN=32 -DRISCV_FORMAL_XLEN=32 -DRISCV_FORMAL_CHANNEL_IDX=0 /Users/lazybanana/github/synapse32/riscv-formal/checks/rvfi_macros.vh'',
      ''read_verilog -sv -formal -DFORMAL -DRISCV_FORMAL_NRET=1 -DRISCV_FORMAL_ILEN=32 -DRISCV_FORMAL_XLEN=32 -DRISCV_FORMAL_CHANNEL_IDX=0 /Users/lazybanana/github/synapse32/riscv-formal/checks/rvfi_'' @ check_name @ ''_check.sv'',
      '''',
      ''# Synthesis passes'',
      ''hierarchy -top top'',
      ''proc'',
      ''opt'',
      ''memory -nomap'',
      ''flatten'',
      ''setundef -undriven -anyseq'',
      ''check'',
      ''stat'',
      '''',
      ''[files]'',
      ''/Users/lazybanana/github/synapse32/rtl/top.v'',
      ''/Users/lazybanana/github/synapse32/rtl/riscv_cpu.v'',
      ''/Users/lazybanana/github/synapse32/rtl/data_mem.v'',
      ''/Users/lazybanana/github/synapse32/rtl/execution_unit.v'',
      ''/Users/lazybanana/github/synapse32/rtl/instr_mem.v'',
      ''/Users/lazybanana/github/synapse32/rtl/memory_unit.v'',
      ''/Users/lazybanana/github/synapse32/rtl/seven_seg.v'',
      ''/Users/lazybanana/github/synapse32/rtl/writeback.v'',
      ''/Users/lazybanana/github/synapse32/rtl/core_modules/alu.v'',
      ''/Users/lazybanana/github/synapse32/rtl/core_modules/csr_exec.v'',
      ''/Users/lazybanana/github/synapse32/rtl/core_modules/csr_file.v'',
      ''/Users/lazybanana/github/synapse32/rtl/core_modules/decoder.v'',
      ''/Users/lazybanana/github/synapse32/rtl/core_modules/interrupt_controller.v'',
      ''/Users/lazybanana/github/synapse32/rtl/core_modules/pc.v'',
      ''/Users/lazybanana/github/synapse32/rtl/core_modules/registerfile.v'',
      ''/Users/lazybanana/github/synapse32/rtl/core_modules/timer.v'',
      ''/Users/lazybanana/github/synapse32/rtl/core_modules/uart.v'',
      ''/Users/lazybanana/github/synapse32/rtl/pipeline_stages/EX_MEM.v'',
      ''/Users/lazybanana/github/synapse32/rtl/pipeline_stages/forwarding_unit.v'',
      ''/Users/lazybanana/github/synapse32/rtl/pipeline_stages/ID_EX.v'',
      ''/Users/lazybanana/github/synapse32/rtl/pipeline_stages/IF_ID.v'',
      ''/Users/lazybanana/github/synapse32/rtl/pipeline_stages/load_use_detector.v'',
      ''/Users/lazybanana/github/synapse32/rtl/pipeline_stages/MEM_WB.v'',
      ''/Users/lazybanana/github/synapse32/rtl/pipeline_stages/store_load_detector.v'',
      ''/Users/lazybanana/github/synapse32/rtl/pipeline_stages/store_load_forward.v'',
      ''/Users/lazybanana/github/synapse32/rtl/include/instr_defines.vh'',
      ''/Users/lazybanana/github/synapse32/rtl/include/memory_map.vh'',
      ''/Users/lazybanana/github/synapse32/riscv-formal/checks/rvfi_macros.vh'',
      ''/Users/lazybanana/github/synapse32/riscv-formal/checks/rvfi_'' @ check_name @ ''_check.sv'']"

definition integration_isa_config :: "string \<Rightarrow> string" where
  "integration_isa_config check_name =
     text_block
     [''[options]'',
      ''mode prove'',
      ''expect pass'',
      ''depth 50'',
      ''wait on'',
      '''',
      ''[engines]'',
      ''smtbmc boolector'',
      '''',
      ''[script]'',
      ''# --- Complete ISA verification for '' @ upper check_name @ '' ---'',
      ''read_verilog -DFORMAL -DRISCV_FORMAL_NRET=1 -DRISCV_FORMAL_ILEN=32 -DRISCV_FORMAL_XLEN=32 -DRISCV_FORMAL_CHANNEL_IDX=0 /Users/lazybanana/github/synapse32/rtl/top.v'',
      ''read_verilog -DFORMAL -DRISCV_FORMAL_NRET=1 -DRISCV_FORMAL_ILEN=32 -DRISCV_FORMAL_XLEN=32 -DRISCV_FORMAL_CHANNEL_IDX=0 /Users/lazybanana/github/synapse32/rtl/riscv_cpu.v'',
      ''read_verilog -DFORMAL -DRISCV_FORMAL_NRET=1 -DRISCV_FORMAL_ILEN=32 -DRISCV_FORMAL_XLEN=32 -DRISCV_FORMAL_CHANNEL_IDX=0 /Users/lazybanana/github/synapse32/rtl/data_mem.v'',
      ''read_verilog -DFORMAL -DRISCV_FORMAL_NRET=1 -DRISCV_FORMAL_ILEN=32 -DRISCV_FORMAL_XLEN=32 -DRISCV_FORMAL_CHANNEL_IDX=0 /Users/lazybanana/github/synapse32/rtl/execution_unit.v'',
      ''read_verilog -DFORMAL -DRISCV_FORMAL_NRET=1 -DRISCV_FORMAL_ILEN=32 -DRISCV_FORMAL_XLEN=32 -DRISCV_FORMAL_CHANNEL_IDX=0 /Users/lazybanana/github/synapse32/rtl/instr_mem.v'',
      ''read_verilog -DFORMAL -DRISCV_FORMAL_NRET=1 -DRISCV_FORMAL_ILEN=32 -DRISCV_FORMAL_XLEN=32 -DRISCV_FORMAL_CHANNEL_IDX=0 /Users/lazybanana/github/synapse32/rtl/memory_unit.v'',
      ''read_verilog -DFORMAL -DRISCV_FORMAL_NRET=1 -DRISCV_FORMAL_ILEN=32 -DRISCV_FORMAL_XLEN=32 -DRISCV_FORMAL_CHANNEL_IDX=0 /Users/lazybanana/github/synapse32/rtl/seven_seg.v'',
      ''read_verilog -DFORMAL -DRISCV_FORMAL_NRET=1 -DRISCV_FORMAL_ILEN=32 -DRISCV_FORMAL_XLEN=32 -DRISCV_FORMAL_CHANNEL_IDX=0 /Users/lazybanana/github/synapse32/rtl/writeback.v'',
      '''',
      ''# Core modules'',
      ''read_verilog -DFORMAL -DRISCV_FORMAL_NRET=1 -DRISCV_FORMAL_ILEN=32 -DRISCV_FORMAL_XLEN=32 -DRISCV_FORMAL_CHANNEL_IDX=0 /Users/lazybanana/github/synapse32/rtl/core_modules/alu.v'',
      ''read_verilog -DFORMAL -DRISCV_FORMAL_NRET=1 -DRISCV_FORMAL_ILEN=32 -DRISCV_FORMAL_XLEN=32 -DRISCV_FORMAL_CHANNEL_IDX=0 /Users/lazybanana/github/synapse32/rtl/core_modules/csr_exec.v'',
      ''read_verilog -DFORMAL -DRISCV_FORMAL_NRET=1 -DRISCV_FORMAL_ILEN=32 -DRISCV_FORMAL_XLEN=32 -DRISCV_FORMAL_CHANNEL_IDX=0 /Users/lazybanana/github/synapse32/rtl/core_modules/csr_file.v'',
      ''read_verilog -DFORMAL -DRISCV_FORMAL_NRET=1 -DRISCV_FORMAL_ILEN=32 -DRISCV_FORMAL_XLEN=32 -DRISCV_FORMAL_CHANNEL_IDX=0 /Users/lazybanana/github/synapse32/rtl/core_modules/decoder.v'',
      ''read_verilog -DFORMAL -DRISCV_FORMAL_NRET=1 -DRISCV_FORMAL_ILEN=32 -DRISCV_FORMAL_XLEN=32 -DRISCV_FORMAL_CHANNEL_IDX=0 /Users/lazybanana/github/synapse32/rtl/core_modules/interrupt_controller.v'',
      ''read_verilog -DFORMAL -DRISCV_FORMAL_NRET=1 -DRISCV_FORMAL_ILEN=32 -DRISCV_FORMAL_XLEN=32 -DRISCV_FORMAL_CHANNEL_IDX=0 /Users/lazybanana/github/synapse32/rtl/core_modules/pc.v'',
      ''read_verilog -DFORMAL -DRISCV_FORMAL_NRET=1 -DRISCV_FORMAL_ILEN=32 -DRISCV_FORMAL_XLEN=32 -DRISCV_FORMAL_CHANNEL_IDX=0 /Users/lazybanana/github/synapse32/rtl/core_modules/registerfile.v'',
      ''read_verilog -DFORMAL -DRISCV_FORMAL_NRET=1 -DRISCV_FORMAL_ILEN=32 -DRISCV_FORMAL_XLEN=32 -DRISCV_FORMAL_CHANNEL_IDX=0 /Users/lazybanana/github/synapse32/rtl/core_modules/timer.v'',
      ''read_verilog -DFORMAL -DRISCV_FORMAL_NRET=1 -DRISCV_FORMAL_ILEN=32 -DRISCV_FORMAL_XLEN=32 -DRISCV_FORMAL_CHANNEL_IDX=0 /Users/lazybanana/github/synapse32/rtl/core_modules/uart.v'',
      '''',
      ''# Pipeline stages'',
      ''read_verilog -DFORMAL -DRISCV_FORMAL_NRET=1 -DRISCV_FORMAL_ILEN=32 -DRISCV_FORMAL_XLEN=32 -DRISCV_FORMAL_CHANNEL_IDX=0 /Users/lazybanana/github/synapse32/rtl/pipeline_stages/EX_MEM.v'',
      ''read_verilog -DFORMAL -DRISCV_FORMAL_NRET=1 -DRISCV_FORMAL_ILEN=32 -DRISCV_FORMAL_XLEN=32 -DRISCV_FORMAL_CHANNEL_IDX=0 /Users/lazybanana/github/synapse32/rtl/pipeline_stages/forwarding_unit.v'',
      ''read_verilog -DFORMAL -DRISCV_FORMAL_NRET=1 -DRISCV_FORMAL_ILEN=32 -DRISCV_FORMAL_XLEN=32 -DRISCV_FORMAL_CHANNEL_IDX=0 /Users/lazybanana/github/synapse32/rtl/pipeline_stages/ID_EX.v'',
      ''read_verilog -DFORMAL -DRISCV_FORMAL_NRET=1 -DRISCV_FORMAL_ILEN=32 -DRISCV_FORMAL_XLEN=32 -DRISCV_FORMAL_CHANNEL_IDX=0 /Users/lazybanana/github/synapse32/rtl/pipeline_stages/IF_ID.v'',
      ''read_verilog -DFORMAL -DRISCV_FORMAL_NRET=1 -DRISCV_FORMAL_ILEN=32 -DRISCV_FORMAL_XLEN=32 -DRISCV_FORMAL_CHANNEL_IDX=0 /Users/lazybanana/github/synapse32/rtl/pipeline_stages/load_use_detector.v'',
      ''read_verilog -DFORMAL -DRISCV_FORMAL_NRET=1 -DRISCV_FORMAL_ILEN=32 -DRISCV_FORMAL_XLEN=32 -DRISCV_FORMAL_CHANNEL_IDX=0 /Users/lazybanana/github/synapse32/rtl/pipeline_stages/MEM_WB.v'',
      ''read_verilog -DFORMAL -DRISCV_FORMAL_NRET=1 -DRISCV_FORMAL_ILEN=32 -DRISCV_FORMAL_XLEN=32 -DRISCV_FORMAL_CHANNEL_IDX=0 /Users/lazybanana/github/synapse32/rtl/pipeline_stages/store_load_detector.v'',
      ''read_verilog -DFORMAL -DRISCV_FORMAL_NRET=1 -DRISCV_FORMAL_ILEN=32 -DRISCV_FORMAL_XLEN=32 -DRISCV_FORMAL_CHANNEL_IDX=0 /Users/lazybanana/github/synapse32/rtl/pipeline_stages/store_load_forward.v'',
      '''',
      ''# Include files'',
      ''read_verilog -DFORMAL -DRISCV_FORMAL_NRET=1 -DRISCV_FORMAL_ILEN=32 -DRISCV_FORMAL_XLEN=32 -DRISCV_FORMAL_CHANNEL_IDX=0 /Users/lazybanana/github/synapse32/rtl/include/instr_defines.vh'',
      ''read_verilog -DFORMAL -DRISCV_FORMAL_NRET=1 -DRISCV_FORMAL_ILEN=32 -DRISCV_FORMAL_XLEN=32 -DRISCV_FORMAL_CHANNEL_IDX=0 /Users/lazybanana/github/synapse32/rtl/include/memory_map.vh'',
      '''',
      ''# Complete ISA verification'',
      ''read_verilog -sv -formal -DFORMAL -DRISCV_FORMAL_NRET=1 -DRISCV_FORMAL_ILEN=32 -DRISCV_FORMAL_XLEN=32 -DRISCV_FORMAL_CHANNEL_IDX=0 /Users/lazybanana/github/synapse32/riscv-formal/checks/rvfi_macros.vh'',
      ''read_verilog -sv -formal -DFORMAL -DRISCV_FORMAL_NRET=1 -DRISCV_FORMAL_ILEN=32 -DRISCV_FORMAL_XLEN=32 -DRISCV_FORMAL_CHANNEL_IDX=0 /Users/lazybanana/github/synapse32/riscv-formal/insns/isa_'' @ check_name @ ''.v'',
      '''',
      ''# Synthesis passes'',
      ''hierarchy -top top'',
      ''proc'',
      ''opt'',
      ''memory -nomap'',
      ''flatten'',
      ''setundef -undriven -anyseq'',
      ''check'',
      ''stat'',
      '''',
      ''[files]'',
      ''/Users/lazybanana/github/synapse32/rtl/top.v'',
      ''/Users/lazybanana/github/synapse32/rtl/riscv_cpu.v'',
      ''/Users/lazybanana/github/synapse32/rtl/data_mem.v'',
      ''/Users/lazybanana/github/synapse32/rtl/execution_unit.v'',
      ''/Users/lazybanana/github/synapse32/rtl/instr_mem.v'',
      ''/Users/lazybanana/github/synapse32/rtl/memory_unit.v'',
      ''/Users/lazybanana/github/synapse32/rtl/seven_seg.v'',
      ''/Users/lazybanana/github/synapse32/rtl/writeback.v'',
      ''/Users/lazybanana/github/synapse32/rtl/core_modules/alu.v'',
      ''/Users/lazybanana/github/synapse32/rtl/core_modules/csr_exec.v'',
      ''/Users/lazybanana/github/synapse32/rtl/core_modules/csr_file.v'',
      ''/Users/lazybanana/github/synapse32/rtl/core_modules/decoder.v'',
      ''/Users/lazybanana/github/synapse32/rtl/core_modules/interrupt_controller.v'',
      ''/Users/lazybanana/github/synapse32/rtl/core_modules/pc.v'',
      ''/Users/lazybanana/github/synapse32/rtl/core_modules/registerfile.v'',
      ''/Users/lazybanana/github/synapse32/rtl/core_modules/timer.v'',
      ''/Users/lazybanana/github/synapse32/rtl/core_modules/uart.v'',
      ''/Users/lazybanana/github/synapse32/rtl/pipeline_stages/EX_MEM.v'',
      ''/Users/lazybanana/github/synapse32/rtl/pipeline_stages/forwarding_unit.v'',
      ''/Users/lazybanana/github/synapse32/rtl/pipeline_stages/ID_EX.v'',
      ''/Users/lazybanana/github/synapse32/rtl/pipeline_stages/IF_ID.v'',
      ''/Users/lazybanana/github/synapse32/rtl/pipeline_stages/load_use_detector.v'',
      ''/Users/lazybanana/github/synapse32/rtl/pipeline_stages/MEM_WB.v'',
      ''/Users/lazybanana/github/synapse32/rtl/pipeline_stages/store_load_detector.v'',
      ''/Users/lazybanana/github/synapse32/rtl/pipeline_stages/store_load_forward.v'',
      ''/Users/lazybanana/github/synapse32/rtl/include/instr_defines.vh'',
      ''/Users/lazybanana/github/synapse32/rtl/include/memory_map.vh'',
      ''/Users/lazybanana/github/synapse32/riscv-formal/checks/rvfi_macros.vh'',
      ''/Users/lazybanana/github/synapse32/riscv-formal/insns/isa_'' @ check_name @ ''.v'']"

subsection \<open>Writing one artifact\<close>

text \<open>Each function returns the path of the artifact, or raises what the writing
  raises; the second component is the file system it leaves behind in either case.\<close>

definition create_instruction_config ::
  "world \<Rightarrow> string \<Rightarrow> string \<Rightarrow> path \<Rightarrow> filesystem \<Rightarrow> (exn + path) \<times> filesystem" where
  "create_instruction_config w instruction description output_dir fs =
     (let config_file = output_dir @ [''verify_'' @ instruction @ ''.sby'']
      in case write_text w config_file (instruction_config_content instruction) fs of
           (Some e, fs') \<Rightarrow> (Inl e, fs')
         | (None, fs') \<Rightarrow> (Inr config_file, fs'))"

definition create_system_config ::
  "world \<Rightarrow> string \<Rightarrow> string \<Rightarrow> path \<Rightarrow> filesystem \<Rightarrow> (exn + path) \<times> filesystem" where
  "create_system_config w check_name description output_dir fs =
     (let config_file = output_dir @ [''verify_'' @ check_name @ ''.sby'']
      in case write_text w config_file (system_config_content check_name) fs of
           (Some e, fs') \<Rightarrow> (Inl e, fs')
         | (None, fs') \<Rightarrow> (Inr config_file, fs'))"

definition create_integration_config ::
  "world \<Rightarrow> string \<Rightarrow> string \<Rightarrow> path \<Rightarrow> filesystem \<Rightarrow> (exn + path) \<times> filesystem" where
  "create_integration_config w check_name description output_dir fs =
     (let config_file = output_dir @ [''verify_'' @ check_name @ ''.sby'']
      in case write_text w config_file (integration_isa_config check_name) fs of
           (Some e, fs') \<Rightarrow> (Inl e, fs')
         | (None, fs') \<Rightarrow> (Inr config_file, fs'))"

subsection \<open>\<^verbatim>\<open>main\<close> of the generator\<close>

text \<open>
  The three loops of \<^verbatim>\<open>main\<close> have one shape: for each catalog entry, in a
  \<^verbatim>\<open>try\<close>, create the artifact, append its path to the list of configurations and
  print a \<^verbatim>\<open>[PASS]\<close> line; \<^verbatim>\<open>except Exception as e\<close>, print an \<^verbatim>\<open>[ERROR]\<close> line.  They
  differ in the creating function, the directory and the width \<open>wd\<close> to which the
  upper-cased identifier is padded.  The state is the file system, the list of
  configurations and the lines printed so far.
\<close>

type_synonym gen_state = "filesystem \<times> path list \<times> string list"

fun generation_loop ::
  "(string \<Rightarrow> string \<Rightarrow> path \<Rightarrow> filesystem \<Rightarrow> (exn + path) \<times> filesystem) \<Rightarrow> nat \<Rightarrow> path \<Rightarrow>
   (string \<times> string) list \<Rightarrow> gen_state \<Rightarrow> gen_state" where
  "generation_loop create wd output_dir [] st = st"
| "generation_loop create wd output_dir ((ident, description) # rest) (fs, configs, out) =
     (case create ident description output_dir fs of
        (Inr config_file, fs') \<Rightarrow>
          generation_loop create wd output_dir rest
            (fs', configs @ [config_file],
             out @ [''  [PASS] '' @ ljust wd (upper ident) @ '' - '' @ description])
      | (Inl e, fs') \<Rightarrow>
          generation_loop create wd output_dir rest
            (fs', configs,
             out @ [''  [ERROR] '' @ ljust wd (upper ident) @ '' - Error: '' @ str_exn e]))"

record gen_outcome =
  gen_returned :: bool
  gen_fs :: filesystem
  gen_printed :: "string list"

text \<open>\<^verbatim>\<open>main\<close>, with the three catalogs as arguments; \<open>script_dir\<close> is
  \<^verbatim>\<open>Path(__file__).parent\<close>.  An exception of \<^verbatim>\<open>mkdir\<close> leaves \<^verbatim>\<open>main\<close>.\<close>

definition generator_main_on ::
  "(string \<times> string) list \<Rightarrow> (string \<times> string) list \<Rightarrow> (string \<times> string) list \<Rightarrow>
   world \<Rightarrow> path \<Rightarrow> filesystem \<Rightarrow> exn + gen_outcome" where
  "generator_main_on instructions system_checks integration_checks w script_dir fs =
     (let instructions_dir = script_dir @ [''instructions''];
          system_dir = script_dir @ [''system_checks''];
          integration_dir = script_dir @ [''integration'']
      in case mkdir_exist_ok w instructions_dir fs of
           Inl e \<Rightarrow> Inl e
         | Inr fs1 \<Rightarrow>
        (case mkdir_exist_ok w system_dir fs1 of
           Inl e \<Rightarrow> Inl e
         | Inr fs2 \<Rightarrow>
        (case mkdir_exist_ok w integration_dir fs2 of
           Inl e \<Rightarrow> Inl e
         | Inr fs3 \<Rightarrow>
        (case generation_loop (create_instruction_config w) 8 instructions_dir instructions
                (fs3, [],
                 [''Generating RISC-V Formal Verification Test Suite'',
                  replicate 60 CHR ''='',
                  newline # ''Generating '' @ str_nat (length instructions)
                    @ '' individual instruction tests...'']) of
           (fs4, instruction_configs, out4) \<Rightarrow>
        (case generation_loop (create_system_config w) 12 system_dir system_checks
                (fs4, [],
                 out4 @ [newline # ''Generating '' @ str_nat (length system_checks)
                           @ '' system-level verification tests...'']) of
           (fs5, system_configs, out5) \<Rightarrow>
        (case generation_loop (create_integration_config w) 8 integration_dir integration_checks
                (fs5, [],
                 out5 @ [newline # ''Generating '' @ str_nat (length integration_checks)
                           @ '' integration tests...'']) of
           (fs6, integration_configs, out6) \<Rightarrow>
             Inr \<lparr> gen_returned = True,
                   gen_fs = fs6,
                   gen_printed = out6 @
                     [newline # replicate 60 CHR ''='',
                      ''Generated verification suite:'',
                      ''   '' @ str_nat (length instruction_configs) @ '' instruction tests in ''
                        @ str_path instructions_dir,
                      ''   '' @ str_nat (length system_configs) @ '' system tests in ''
                        @ str_path system_dir,
                      ''   '' @ str_nat (length integration_configs) @ '' integration tests in ''
                        @ str_path integration_dir,
                      ''   Total: ''
                        @ str_nat (length instruction_configs + length system_configs
                                   + length integration_configs)
                        @ '' test configurations''] \<rparr>))))))"

definition generator_main :: "world \<Rightarrow> path \<Rightarrow> filesystem \<Rightarrow> exn + gen_outcome" where
  "generator_main = generator_main_on RV32I_INSTRUCTIONS SYSTEM_CHECKS INTEGRATION_CHECKS"

section \<open>The runner: \<^verbatim>\<open>run_verification_suite.py\<close>\<close>

subsection \<open>Data\<close>

record TestResult =
  test_name :: string
  category :: string
  status :: string
  duration :: rat
  log_file :: "string option"
  error_message :: "string option"

text \<open>The fields of \<^verbatim>\<open>VerificationSuiteRunner\<close>.\<close>

record runner =
  max_workers :: int
  timeout :: int
  results :: "TestResult list"
  start_time :: "rat option"

text \<open>\<^verbatim>\<open>__init__\<close>: \<^verbatim>\<open>max_workers or min(multiprocessing.cpu_count(), 8)\<close>.\<close>

definition init_runner :: "world \<Rightarrow> int option \<Rightarrow> int \<Rightarrow> runner" where
  "init_runner w workers t =
     \<lparr> max_workers = (case workers of
                        None \<Rightarrow> min (cpu_count w) 8
                      | Some n \<Rightarrow> if n \<noteq> 0 then n else min (cpu_count w) 8),
       timeout = t, results = [], start_time = None \<rparr>"

subsection \<open>\<^verbatim>\<open>run_single_test\<close>\<close>

text \<open>The body of the \<^verbatim>\<open>try\<close> block: it raises what \<^verbatim>\<open>subprocess.run\<close> raises.
  The second component is the state in which the child process is left.\<close>

definition run_single_test_try ::
  "world \<Rightarrow> runner \<Rightarrow> path \<Rightarrow> string \<Rightarrow> (exn + TestResult) \<times> child_state" where
  "run_single_test_try w r test_file cat =
     (case subprocess_run w [''sby'', ''-f'', str_path test_file] (parent test_file) (timeout r) of
        (Inl e, c) \<Rightarrow> (Inl e, c)
      | (Inr process, c) \<Rightarrow>
         (Inr \<lparr> test_name = stem test_file,
                category = cat,
                status = (if returncode process = 0 then ''PASS'' else ''FAIL''),
                duration = elapsed w test_file,
                log_file =
                  (case log_glob w (parent test_file @ [stem test_file]) of
                     None \<Rightarrow> None
                   | Some [] \<Rightarrow> None
                   | Some (l # _) \<Rightarrow> Some (str_path l)),
                error_message =
                  (if returncode process = 0 then None
                   else Some (if stderr process \<noteq> [] then stderr process else stdout process)) \<rparr>,
          c))"

text \<open>The two handlers: \<^verbatim>\<open>except subprocess.TimeoutExpired\<close> first, then
  \<^verbatim>\<open>except Exception as e\<close>.  The result type keeps a place for an exception that
  would leave the method.\<close>

definition run_single_test ::
  "world \<Rightarrow> runner \<Rightarrow> path \<Rightarrow> string \<Rightarrow> (exn + TestResult) \<times> child_state" where
  "run_single_test w r test_file cat =
     (case run_single_test_try w r test_file cat of
        (Inr res, c) \<Rightarrow> (Inr res, c)
      | (Inl e, c) \<Rightarrow>
          if exn_class e = TimeoutExpired
          then (Inr \<lparr> test_name = stem test_file, category = cat, status = ''TIMEOUT'',
                      duration = elapsed w test_file, log_file = None,
                      error_message =
                        Some (''Test timed out after '' @ str_int (timeout r) @ '' seconds'') \<rparr>,
                c)
          else (Inr \<lparr> test_name = stem test_file, category = cat, status = ''ERROR'',
                      duration = elapsed w test_file, log_file = None,
                      error_message = Some (str_exn e) \<rparr>,
                c))"

subsection \<open>\<^verbatim>\<open>run_tests_parallel\<close>\<close>

text \<open>\<^verbatim>\<open>as_completed\<close> hands the futures over in the order in which they finish: the
  submitted jobs, sorted by finishing moment.\<close>

definition as_completed :: "world \<Rightarrow> 'a list \<Rightarrow> 'a list" where
  "as_completed w jobs =
     map snd (sort_key (\<lambda>(i, j). finish_key w i) (zip [0..<length jobs] jobs))"

text \<open>The collecting loop: a result is appended; an exception out of
  \<^verbatim>\<open>future.result()\<close> is printed and nothing is appended.\<close>

fun collect_results :: "(exn + TestResult) list \<Rightarrow> TestResult list" where
  "collect_results [] = []"
| "collect_results (Inr res # os) = res # collect_results os"
| "collect_results (Inl e # os) = collect_results os"

text \<open>\<^verbatim>\<open>ThreadPoolExecutor(max_workers=n)\<close> raises \<^verbatim>\<open>ValueError\<close> for \<open>n \<le> 0\<close>.\<close>

definition run_tests_parallel ::
  "world \<Rightarrow> runner \<Rightarrow> (path \<times> string) list \<Rightarrow> exn + TestResult list" where
  "run_tests_parallel w r test_files =
     (if max_workers r \<le> 0 then Inl (Exn ValueError ''max_workers must be greater than 0'')
      else Inr (collect_results
                  (map (\<lambda>(test_file, cat). fst (run_single_test w r test_file cat))
                       (as_completed w test_files))))"

subsection \<open>\<^verbatim>\<open>generate_summary_report\<close>\<close>

text \<open>A \<^verbatim>\<open>dict\<close> is an association list in insertion order; \<^verbatim>\<open>d[k] += 1\<close> raises
  \<^verbatim>\<open>KeyError\<close> on a key that is absent.\<close>

definition key_error :: "string \<Rightarrow> exn" where
  "key_error k = Exn KeyError (CHR 0x27 # k @ [CHR 0x27])"

definition zero_counts :: "(string \<times> nat) list" where
  "zero_counts = [(''PASS'', 0), (''FAIL'', 0), (''TIMEOUT'', 0), (''ERROR'', 0)]"

definition increment :: "string \<Rightarrow> (string \<times> nat) list \<Rightarrow> exn + (string \<times> nat) list" where
  "increment k d =
     (case map_of d k of
        None \<Rightarrow> Inl (key_error k)
      | Some n \<Rightarrow> Inr (AList.update k (Suc n) d))"

type_synonym tallies = "(string \<times> nat) list \<times> (string \<times> (string \<times> nat) list) list"

text \<open>One round of the counting loop, on \<open>(status_counts, category_stats)\<close>.\<close>

definition count_result :: "tallies \<Rightarrow> TestResult \<Rightarrow> exn + tallies" where
  "count_result acc res =
     (case acc of (status_counts, category_stats) \<Rightarrow>
        (case increment (status res) status_counts of
           Inl e \<Rightarrow> Inl e
         | Inr status_counts' \<Rightarrow>
             (let category_stats' =
                    (if category res \<notin> fst ` set category_stats
                     then category_stats @ [(category res, zero_counts)]
                     else category_stats)
              in case map_of category_stats' (category res) of
                   None \<Rightarrow> Inl (key_error (category res))
                 | Some stats \<Rightarrow>
                     (case increment (status res) stats of
                        Inl e \<Rightarrow> Inl e
                      | Inr stats' \<Rightarrow>
                          Inr (status_counts',
                               AList.update (category res) stats' category_stats')))))"

fun count_results :: "tallies \<Rightarrow> TestResult list \<Rightarrow> exn + tallies" where
  "count_results acc [] = Inr acc"
| "count_results acc (res # rs) =
     (case count_result acc res of
        Inl e \<Rightarrow> Inl e
      | Inr acc' \<Rightarrow> count_results acc' rs)"

fun map_exn :: "('a \<Rightarrow> exn + 'b) \<Rightarrow> 'a list \<Rightarrow> exn + 'b list" where
  "map_exn f [] = Inr []"
| "map_exn f (x # xs) =
     (case f x of
        Inl e \<Rightarrow> Inl e
      | Inr y \<Rightarrow> (case map_exn f xs of Inl e \<Rightarrow> Inl e | Inr ys \<Rightarrow> Inr (y # ys)))"

text \<open>\<^verbatim>\<open>time.time() - self.start_time if self.start_time else 0\<close>\<close>

definition wall_time :: "world \<Rightarrow> runner \<Rightarrow> rat \<Rightarrow> rat" where
  "wall_time w r now =
     (case start_time r of
        None \<Rightarrow> 0
      | Some s \<Rightarrow> if s \<noteq> 0 then float_round w (now - s) else 0)"

text \<open>\<^verbatim>\<open>sum(r.duration for r in self.results)\<close>: the floats are added in the order of
  the list.\<close>

definition total_duration :: "world \<Rightarrow> TestResult list \<Rightarrow> rat" where
  "total_duration w rs = float_sum w (map duration rs)"

definition symbol_table :: "(string \<times> string) list" where
  "symbol_table =
     [(''PASS'', ''[PASS]''), (''FAIL'', ''[FAIL]''),
      (''TIMEOUT'', ''[TIMEOUT]''), (''ERROR'', ''[ERROR]'')]"

definition overall_line :: "world \<Rightarrow> nat \<Rightarrow> string \<times> nat \<Rightarrow> exn + string" where
  "overall_line w n sc =
     (case sc of (st, cnt) \<Rightarrow>
        (case map_of symbol_table st of
           None \<Rightarrow> Inl (key_error st)
         | Some symbol \<Rightarrow>
             Inr (''  '' @ symbol @ '' '' @ ljust 8 st @ '': '' @ rjust 3 (str_nat cnt)
                  @ '' tests (''
                  @ rjust 5 (format_f 1
                               (float_round w (float_round w (of_nat cnt / of_nat n) * 100)))
                  @ ''%)'')))"

definition category_line :: "world \<Rightarrow> string \<times> (string \<times> nat) list \<Rightarrow> exn + string" where
  "category_line w cs =
     (case cs of (cat, stats) \<Rightarrow>
        (let total_cat = sum_list (map snd stats)
         in case map_of stats ''PASS'' of
              None \<Rightarrow> Inl (key_error ''PASS'')
            | Some passed \<Rightarrow>
                (let pass_rate =
                       (if total_cat > 0
                        then float_round w (float_round w (of_nat passed / of_nat total_cat) * 100)
                        else 0)
                 in Inr (''  '' @ ljust 15 cat @ '': '' @ rjust 2 (str_nat passed) @ ''/''
                         @ rjust 2 (str_nat total_cat) @ '' passed (''
                         @ rjust 5 (format_f 1 pass_rate) @ ''%)''))))"

text \<open>The lines of one entry under \<^verbatim>\<open>Failed Tests:\<close>; an empty or absent message
  prints no \<^verbatim>\<open>Error:\<close> line.\<close>

definition failed_test_lines :: "TestResult \<Rightarrow> string list" where
  "failed_test_lines res =
     (''  ['' @ ljust 12 (category res) @ ''] '' @ ljust 20 (test_name res) @ '' - '' @ status res)
     # (case error_message res of
          None \<Rightarrow> []
        | Some m \<Rightarrow>
            if m = [] then []
            else [''    Error: '' @ (if length m > 100 then take 100 m @ ''...'' else m)])"

text \<open>\<^verbatim>\<open>min(..., key=...)\<close> and \<^verbatim>\<open>max(..., key=...)\<close> keep the first of equal elements.\<close>

fun min_by_duration :: "TestResult \<Rightarrow> TestResult list \<Rightarrow> TestResult" where
  "min_by_duration m [] = m"
| "min_by_duration m (res # rs) = min_by_duration (if duration res < duration m then res else m) rs"

fun max_by_duration :: "TestResult \<Rightarrow> TestResult list \<Rightarrow> TestResult" where
  "max_by_duration m [] = m"
| "max_by_duration m (res # rs) = max_by_duration (if duration m < duration res then res else m) rs"

text \<open>The lines of the report, before \<^verbatim>\<open>"\n".join(report)\<close>.\<close>

definition summary_lines :: "world \<Rightarrow> runner \<Rightarrow> rat \<Rightarrow> exn + string list" where
  "summary_lines w r now =
     (case results r of
        [] \<Rightarrow> Inr [''No test results available.'']
      | first # others \<Rightarrow>
          (case count_results (zero_counts, []) (results r) of
             Inl e \<Rightarrow> Inl e
           | Inr (status_counts, category_stats) \<Rightarrow>
               (case map_exn (overall_line w (length (results r))) status_counts of
                  Inl e \<Rightarrow> Inl e
                | Inr overall \<Rightarrow>
                    (case map_exn (category_line w) category_stats of
                       Inl e \<Rightarrow> Inl e
                     | Inr by_category \<Rightarrow>
                         (let wall = wall_time w r now;
                              cpu = total_duration w (results r);
                              failed_tests = filter (\<lambda>res. status res \<noteq> ''PASS'') (results r);
                              fastest = min_by_duration first others;
                              slowest = max_by_duration first others;
                              avg_duration = float_round w (cpu / of_nat (length (results r)))
                          in Inr ([''RISC-V CPU Formal Verification Summary Report'',
                                   replicate 60 CHR ''='',
                                   ''Total Tests: '' @ str_nat (length (results r)),
                                   ''Wall Time: '' @ format_f 2 wall @ '' seconds'',
                                   ''CPU Time: '' @ format_f 2 cpu @ '' seconds'',
                                   (if wall > 0
                                    then ''Speedup: '' @ format_f 2 (float_round w (cpu / wall)) @ ''x''
                                    else ''Speedup: N/A''),
                                   '''',
                                   ''Overall Results:'']
                                  @ overall
                                  @ ['''', ''Results by Category:'']
                                  @ by_category
                                  @ ['''']
                                  @ (if failed_tests \<noteq> []
                                     then ''Failed Tests:''
                                          # concat (map failed_test_lines failed_tests) @ ['''']
                                     else [])
                                  @ [''Performance Statistics:'',
                                     ''  Fastest: '' @ ljust 20 (test_name fastest) @ '' (''
                                       @ format_f 2 (duration fastest) @ ''s)'',
                                     ''  Slowest: '' @ ljust 20 (test_name slowest) @ '' (''
                                       @ format_f 2 (duration slowest) @ ''s)'',
                                     ''  Average: '' @ format_f 2 avg_duration @ ''s per test'']))))))"

definition generate_summary_report :: "world \<Rightarrow> runner \<Rightarrow> rat \<Rightarrow> exn + string" where
  "generate_summary_report w r now =
     (case summary_lines w r now of
        Inl e \<Rightarrow> Inl e
      | Inr report \<Rightarrow> Inr (join_lines report))"

subsection \<open>\<^verbatim>\<open>save_detailed_report\<close>\<close>

text \<open>The value handed to \<^verbatim>\<open>json.dump\<close>.\<close>

datatype json =
  JNull | JString string | JInt int | JFloat rat | JArray "json list" | JObject "(string \<times> json) list"

definition json_optional :: "string option \<Rightarrow> json" where
  "json_optional s = (case s of None \<Rightarrow> JNull | Some t \<Rightarrow> JString t)"

definition result_json :: "TestResult \<Rightarrow> json" where
  "result_json res =
     JObject [(''test_name'', JString (test_name res)),
              (''category'', JString (category res)),
              (''status'', JString (status res)),
              (''duration'', JFloat (duration res)),
              (''log_file'', json_optional (log_file res)),
              (''error_message'', json_optional (error_message res))]"

text \<open>\<^verbatim>\<open>report_data\<close>; the two sums and differences that have nothing to add are the
  integer \<open>0\<close> of the source.\<close>

definition report_data :: "world \<Rightarrow> runner \<Rightarrow> rat \<Rightarrow> string \<Rightarrow> json" where
  "report_data w r now timestamp =
     JObject
       [(''summary'',
         JObject [(''total_tests'', JInt (int (length (results r)))),
                  (''wall_time'',
                   (case start_time r of
                      None \<Rightarrow> JInt 0
                    | Some s \<Rightarrow> if s \<noteq> 0 then JFloat (float_round w (now - s)) else JInt 0)),
                  (''cpu_time'',
                   (if results r = [] then JInt 0 else JFloat (total_duration w (results r)))),
                  (''timestamp'', JString timestamp)]),
        (''results'', JArray (map result_json (results r)))]"

text \<open>The document is returned when the file could be opened and written; the
  exception of \<^verbatim>\<open>open\<close> or of the writing leaves the method.\<close>

definition save_detailed_report :: "world \<Rightarrow> filesystem \<Rightarrow> runner \<Rightarrow> path \<Rightarrow> exn + json" where
  "save_detailed_report w fs r output_file =
     (case open_w_error w fs output_file of
        Some e \<Rightarrow> Inl e
      | None \<Rightarrow>
          (case write_fault w output_file of
             Some (n, msg) \<Rightarrow> Inl (Exn OSError msg)
           | None \<Rightarrow> Inr (report_data w r (time_report w) (strftime w))))"

subsection \<open>\<^verbatim>\<open>find_test_files\<close> and \<^verbatim>\<open>run_verification_suite\<close>\<close>

definition find_test_files :: "filesystem \<Rightarrow> path \<Rightarrow> path list" where
  "find_test_files fs test_dir =
     (if \<not> path_exists fs test_dir then [] else glob fs test_dir ''.sby'')"

definition test_categories :: "(string \<times> string) list" where
  "test_categories =
     [(''instructions'', ''instructions''),
      (''system'', ''system_checks''),
      (''integration'', ''integration'')]"

text \<open>\<^verbatim>\<open>if categories:\<close> holds for a list that is given and not empty.\<close>

definition select_categories :: "string list option \<Rightarrow> (string \<times> string) list" where
  "select_categories cats =
     (case cats of
        None \<Rightarrow> test_categories
      | Some cs \<Rightarrow>
          if cs = [] then test_categories
          else filter (\<lambda>(k, v). k \<in> set cs) test_categories)"

definition collect_test_files ::
  "filesystem \<Rightarrow> path \<Rightarrow> (string \<times> string) list \<Rightarrow> (path \<times> string) list" where
  "collect_test_files fs formal_dir tc =
     concat (map (\<lambda>(cat, subdir). map (\<lambda>f. (f, cat)) (find_test_files fs (formal_dir @ [subdir]))) tc)"

text \<open>What one call of \<^verbatim>\<open>run_verification_suite\<close> leaves behind: the value returned,
  \<^verbatim>\<open>self.results\<close>, the summary printed and the document saved (none of the two when
  no test file was found).\<close>

record suite_outcome =
  success :: bool
  final_results :: "TestResult list"
  printed_summary :: "string option"
  saved_report :: "json option"

definition run_verification_suite ::
  "world \<Rightarrow> filesystem \<Rightarrow> runner \<Rightarrow> path \<Rightarrow> string list option \<Rightarrow> exn + suite_outcome" where
  "run_verification_suite w fs r formal_dir cats =
     (let r1 = r\<lparr>start_time := Some (time_start w)\<rparr>;
          all_test_files = collect_test_files fs formal_dir (select_categories cats)
      in if all_test_files = []
         then Inr \<lparr> success = False, final_results = results r1,
                    printed_summary = None, saved_report = None \<rparr>
         else
           (case run_tests_parallel w r1 all_test_files of
              Inl e \<Rightarrow> Inl e
            | Inr rs \<Rightarrow>
                (let r2 = r1\<lparr>results := rs\<rparr>
                 in case generate_summary_report w r2 (time_summary w) of
                      Inl e \<Rightarrow> Inl e
                    | Inr summary \<Rightarrow>
                        (case save_detailed_report w fs r2 (formal_dir @ [''verification_report.json'']) of
                           Inl e \<Rightarrow> Inl e
                         | Inr doc \<Rightarrow>
                             Inr \<lparr> success =
                                     (length (filter (\<lambda>res. status res = ''PASS'') (results r2))
                                      = length (results r2)),
                                   final_results = results r2,
                                   printed_summary = Some summary,
                                   saved_report = Some doc \<rparr>))))"

subsection \<open>\<^verbatim>\<open>main\<close> of the runner\<close>

text \<open>
  The part of \<^verbatim>\<open>main\<close> between \<^verbatim>\<open>parser.parse_args()\<close> and the comment
  \<^verbatim>\<open># Run verification suite\<close>: either \<^verbatim>\<open>main\<close> returns there with an exit code
  (\<open>Inl\<close>), or it goes on with the file system as the generator left it (\<open>Inr\<close>).
  \<^verbatim>\<open>except ImportError\<close> and \<^verbatim>\<open>except Exception\<close> both return 1.
\<close>

definition prepare :: "world \<Rightarrow> filesystem \<Rightarrow> args \<Rightarrow> int + filesystem" where
  "prepare w fs a =
     (let formal_dir = args_formal_dir a
      in if \<not> path_exists fs formal_dir then Inl 1
         else if \<not> path_exists fs (formal_dir @ [''instructions'']) \<or> args_generate_only a
         then (case import_generator w of
                 None \<Rightarrow> Inl 1
               | Some script_dir \<Rightarrow>
                   (case generator_main w script_dir fs of
                      Inl e \<Rightarrow> Inl 1
                    | Inr g \<Rightarrow> if args_generate_only a then Inl 0 else Inr (gen_fs g)))
         else Inr fs)"

text \<open>How \<^verbatim>\<open>main\<close> ends: it returns a code, an exception leaves it, or
  \<^verbatim>\<open>parse_args\<close> ends the process with a status (\<^verbatim>\<open>SystemExit\<close>).\<close>

datatype main_outcome = Returned int | Uncaught exn | SystemExit int

text \<open>\<^verbatim>\<open>main\<close> from the line after \<^verbatim>\<open>args = parser.parse_args()\<close>.\<close>

definition main_after_parse :: "world \<Rightarrow> filesystem \<Rightarrow> args \<Rightarrow> main_outcome" where
  "main_after_parse w fs a =
     (case prepare w fs a of
        Inl code \<Rightarrow> Returned code
      | Inr fs' \<Rightarrow>
          (case run_verification_suite w fs'
                  (init_runner w (args_workers a) (args_timeout a))
                  (args_formal_dir a) (args_categories a) of
             Inl e \<Rightarrow> Uncaught e
           | Inr out \<Rightarrow> Returned (if success out then 0 else 1)))"

text \<open>\<^verbatim>\<open>main\<close> on the command line \<open>argv\<close>.\<close>

definition runner_main :: "world \<Rightarrow> filesystem \<Rightarrow> string list \<Rightarrow> main_outcome" where
  "runner_main w fs argv =
     (case parse_args w argv of
        Inl code \<Rightarrow> SystemExit code
      | Inr a \<Rightarrow> main_after_parse w fs a)"

text \<open>\<^verbatim>\<open>sys.exit(main())\<close>: the status of the process is the code returned, the
  status of the \<^verbatim>\<open>SystemExit\<close>, or 1 for an exception that leaves \<^verbatim>\<open>main\<close>.\<close>

definition exit_code :: "main_outcome \<Rightarrow> int" where
  "exit_code m = (case m of Returned code \<Rightarrow> code | Uncaught e \<Rightarrow> 1 | SystemExit code \<Rightarrow> code)"

text \<open>The jobs an invocation has executed: the results that \<^verbatim>\<open>run_tests_parallel\<close> has
  collected, if \<^verbatim>\<open>main\<close> got as far as running the suite.\<close>

definition executed_jobs :: "world \<Rightarrow> filesystem \<Rightarrow> string list \<Rightarrow> TestResult list" where
  "executed_jobs w fs argv =
     (case parse_args w argv of
        Inl code \<Rightarrow> []
      | Inr a \<Rightarrow>
          (case prepare w fs a of
             Inl code \<Rightarrow> []
           | Inr fs' \<Rightarrow>
               (case run_tests_parallel w
                       ((init_runner w (args_workers a) (args_timeout a))
                          \<lparr>start_time := Some (time_start w)\<rparr>)
                       (collect_test_files fs' (args_formal_dir a)
                          (select_categories (args_categories a))) of
                  Inl e \<Rightarrow> []
                | Inr rs \<Rightarrow> rs)))"

subsection \<open>Reading an artifact\<close>

text \<open>The proof-depth budget of an artifact, as the backend reads it: the number on the
  first line that starts with \<^verbatim>\<open>depth\<close> and a blank.\<close>

fun split_lines :: "string \<Rightarrow> string \<Rightarrow> string list" where
  "split_lines cur [] = (if cur = [] then [] else [rev cur])"
| "split_lines cur (c # cs) =
     (if c = newline then rev cur # split_lines [] cs else split_lines (c # cur) cs)"

definition is_digit :: "char \<Rightarrow> bool" where
  "is_digit c = (48 \<le> (of_char c :: nat) \<and> (of_char c :: nat) \<le> 57)"

definition parse_nat :: "string \<Rightarrow> nat option" where
  "parse_nat s =
     (if s \<noteq> [] \<and> list_all is_digit s
      then Some (foldl (\<lambda>n c. 10 * n + (of_char c - 48)) 0 s)
      else None)"

definition option_depth :: "string \<Rightarrow> nat option" where
  "option_depth content =
     (case filter (\<lambda>l. take 6 l = ''depth '') (split_lines [] content) of
        [] \<Rightarrow> None
      | l # _ \<Rightarrow> parse_nat (drop 6 l))"

subsection \<open>Statistics of a list of results\<close>

text \<open>The four statuses, in the order of the keys of \<^verbatim>\<open>status_counts\<close>, and what the
  counting loop adds to a dictionary of counts: for each key, the number of results
  with that status.\<close>

definition statuses :: "string list" where
  "statuses = [''PASS'', ''FAIL'', ''TIMEOUT'', ''ERROR'']"

definition add_counts :: "(string \<times> nat) list \<Rightarrow> TestResult list \<Rightarrow> (string \<times> nat) list" where
  "add_counts d rs = map (\<lambda>(k, n). (k, n + length (filter (\<lambda>res. status res = k) rs))) d"

text \<open>The per-category statistics as a map: for a category that occurs, its counts.\<close>

definition category_counts :: "TestResult list \<Rightarrow> string \<Rightarrow> (string \<times> nat) list option" where
  "category_counts rs c =
     (if c \<in> category ` set rs
      then Some (add_counts zero_counts (filter (\<lambda>res. category res = c) rs))
      else None)"

text \<open>What the counting loop maintains of \<^verbatim>\<open>category_stats\<close>: one entry per category,
  each with the four keys of \<^verbatim>\<open>status_counts\<close>.\<close>

definition well_formed_stats :: "(string \<times> (string \<times> nat) list) list \<Rightarrow> bool" where
  "well_formed_stats cs =
     (distinct (map fst cs) \<and> (\<forall>c st. map_of cs c = Some st \<longrightarrow> map fst st = statuses))"

section \<open>A concrete invocation\<close>

text \<open>
  A formal directory with two instruction artifacts and two system artifacts.  The
  backend passes \<^verbatim>\<open>verify_add\<close>, fails \<^verbatim>\<open>verify_sub\<close> with exit code 1, never ends on
  \<^verbatim>\<open>verify_reg\<close> and cannot be started on \<^verbatim>\<open>verify_pc\<close>; the jobs finish in the reverse
  of the order of submission.  The command line is empty, or one of four that
  \<^verbatim>\<open>argparse\<close> accepts, or \<^verbatim>\<open>--help\<close>; any other is rejected with status 2.  Every
  number that the invocation computes is a binary fraction, on which the rounding
  of floats is the identity.
\<close>

definition ex_args :: args where
  "ex_args =
     \<lparr> args_formal_dir = [''formal''], args_categories = None, args_workers = None,
       args_timeout = 300, args_generate_only = False \<rparr>"

definition ex_parse_args :: "string list \<Rightarrow> int + args" where
  "ex_parse_args argv =
     (if argv = [] then Inr ex_args
      else if argv = [''--generate-only''] then Inr (ex_args\<lparr>args_generate_only := True\<rparr>)
      else if argv = [''--formal-dir'', ''nowhere'']
      then Inr (ex_args\<lparr>args_formal_dir := [''nowhere'']\<rparr>)
      else if argv = [''--categories'', ''system'']
      then Inr (ex_args\<lparr>args_categories := Some [''system'']\<rparr>)
      else if argv = [''--categories'', ''integration'']
      then Inr (ex_args\<lparr>args_categories := Some [''integration'']\<rparr>)
      else if argv = [''--help''] then Inl 0
      else Inl 2)"

definition ex_world :: world where
  "ex_world =
     \<lparr> parse_args = ex_parse_args,
       child =
         (\<lambda>cmd cwd.
            if cmd = [''sby'', ''-f'', ''formal/instructions/verify_add.sby'']
            then Exits (1 / 2) 0 ''ok'' ''''
            else if cmd = [''sby'', ''-f'', ''formal/instructions/verify_sub.sby'']
            then Exits (1 / 2) 1 ''out'' ''assertion failed''
            else if cmd = [''sby'', ''-f'', ''formal/system_checks/verify_reg.sby'']
            then Hangs
            else FailsToStart ''sby: not found''),
       timeout_text = (\<lambda>cmd t. ''timed out''),
       elapsed = (\<lambda>p. 1 / 2),
       log_glob = (\<lambda>p. None),
       finish_key = (\<lambda>i. 4 - i),
       mkdir_error = (\<lambda>p. None),
       write_error = (\<lambda>p. None),
       write_fault = (\<lambda>p. None),
       os_error_text = (\<lambda>k p. ''not possible''),
       import_generator = Some [''formal''],
       time_start = 10,
       time_summary = 12,
       time_report = 13,
       strftime = ''2024-01-01 00:00:00'',
       cpu_count = 4,
       float_round = (\<lambda>x. x),
       float_sum = sum_list \<rparr>"

definition ex_fs :: filesystem where
  "ex_fs =
     \<lparr> dirs = [[''formal''], [''formal'', ''instructions''], [''formal'', ''system_checks'']],
       files = [([''formal'', ''instructions'', ''verify_add.sby''], ''''),
                ([''formal'', ''instructions'', ''verify_sub.sby''], ''''),
                ([''formal'', ''system_checks'', ''verify_reg.sby''], ''''),
                ([''formal'', ''system_checks'', ''verify_pc.sby''], '''')] \<rparr>"

definition ex_runner :: runner where
  "ex_runner = (init_runner ex_world None 300)\<lparr>start_time := Some 10\<rparr>"

definition ex_jobs :: "(path \<times> string) list" where
  "ex_jobs =
     [([''formal'', ''instructions'', ''verify_add.sby''], ''instructions''),
      ([''formal'', ''instructions'', ''verify_sub.sby''], ''instructions''),
      ([''formal'', ''system_checks'', ''verify_reg.sby''], ''system''),
      ([''formal'', ''system_checks'', ''verify_pc.sby''], ''system'')]"

definition ex_pass :: TestResult where
  "ex_pass =
     \<lparr> test_name = ''verify_add'', category = ''instructions'', status = ''PASS'',
       duration = 1 / 2, log_file = None, error_message = None \<rparr>"

definition ex_fail :: TestResult where
  "ex_fail =
     \<lparr> test_name = ''verify_sub'', category = ''instructions'', status = ''FAIL'',
       duration = 1 / 2, log_file = None, error_message = Some ''assertion failed'' \<rparr>"

definition ex_timeout :: TestResult where
  "ex_timeout =
     \<lparr> test_name = ''verify_reg'', category = ''system'', status = ''TIMEOUT'',
       duration = 1 / 2, log_file = None,
       error_message = Some ''Test timed out after 300 seconds'' \<rparr>"

definition ex_error :: TestResult where
  "ex_error =
     \<lparr> test_name = ''verify_pc'', category = ''system'', status = ''ERROR'',
       duration = 1 / 2, log_file = None, error_message = Some ''sby: not found'' \<rparr>"

section \<open>What generation leaves behind\<close>

text \<open>The file name of the artifact of a catalog entry; the exception, if any, that
  leaves the writing of a file; and what the file holds once it has been opened: the
  whole text, or the part that was written when the writing failed.\<close>

definition artifact_name :: "string \<Rightarrow> string" where
  "artifact_name ident = ''verify_'' @ ident @ ''.sby''"

definition write_exn :: "world \<Rightarrow> filesystem \<Rightarrow> path \<Rightarrow> exn option" where
  "write_exn w fs p =
     (case open_w_error w fs p of
        Some e \<Rightarrow> Some e
      | None \<Rightarrow> (case write_fault w p of Some (n, msg) \<Rightarrow> Some (Exn OSError msg) | None \<Rightarrow> None))"

definition on_disk :: "world \<Rightarrow> path \<Rightarrow> string \<Rightarrow> string" where
  "on_disk w p s = (case write_fault w p of Some (n, msg) \<Rightarrow> take n s | None \<Rightarrow> s)"

definition stored :: "world \<Rightarrow> path \<Rightarrow> (string \<Rightarrow> string) \<Rightarrow> string \<Rightarrow> string" where
  "stored w output_dir content ident =
     on_disk w (output_dir @ [artifact_name ident]) (content ident)"

text \<open>The line that the loop prints for an entry, and the files after a loop: every
  entry whose artifact can be opened for writing is written, in the order of the
  catalog, with what \<open>held ident\<close> says its file holds afterwards.\<close>

definition entry_line :: "world \<Rightarrow> filesystem \<Rightarrow> nat \<Rightarrow> path \<Rightarrow> string \<times> string \<Rightarrow> string" where
  "entry_line w fs wd output_dir entry =
     (case entry of (ident, description) \<Rightarrow>
        (case write_exn w fs (output_dir @ [artifact_name ident]) of
           None \<Rightarrow> ''  [PASS] '' @ ljust wd (upper ident) @ '' - '' @ description
         | Some e \<Rightarrow> ''  [ERROR] '' @ ljust wd (upper ident) @ '' - Error: '' @ str_exn e))"

definition write_entries ::
  "world \<Rightarrow> filesystem \<Rightarrow> (string \<Rightarrow> string) \<Rightarrow> path \<Rightarrow> (string \<times> string) list \<Rightarrow>
   (path \<times> string) list \<Rightarrow> (path \<times> string) list" where
  "write_entries w fs held output_dir entries al =
     fold (\<lambda>(ident, description) al.
             if open_w_error w fs (output_dir @ [artifact_name ident]) = None
             then AList.update (output_dir @ [artifact_name ident]) (held ident) al
             else al)
          entries al"

text \<open>The example world, except that the artifact of \<^verbatim>\<open>add\<close> cannot be opened for
  writing, and that the writing of the artifact of \<^verbatim>\<open>sub\<close> fails after its first seven
  characters.\<close>

definition ex_world_denied :: world where
  "ex_world_denied =
     ex_world\<lparr> write_error :=
                 (\<lambda>p. if p = [''formal'', ''instructions'', ''verify_add.sby'']
                      then Some ''Permission denied'' else None),
               write_fault :=
                 (\<lambda>p. if p = [''formal'', ''instructions'', ''verify_sub.sby'']
                      then Some (7, ''No space left on device'') else None) \<rparr>"

text \<open>The three calls of \<^verbatim>\<open>mkdir\<close> at the start of the generator's \<^verbatim>\<open>main\<close>.\<close>

definition make_directories :: "world \<Rightarrow> path \<Rightarrow> filesystem \<Rightarrow> exn + filesystem" where
  "make_directories w script_dir fs =
     (case mkdir_exist_ok w (script_dir @ [''instructions'']) fs of
        Inl e \<Rightarrow> Inl e
      | Inr fs1 \<Rightarrow>
          (case mkdir_exist_ok w (script_dir @ [''system_checks'']) fs1 of
             Inl e \<Rightarrow> Inl e
           | Inr fs2 \<Rightarrow> mkdir_exist_ok w (script_dir @ [''integration'']) fs2))"

text \<open>The files after the three loops.\<close>

definition generated_files ::
  "(string \<times> string) list \<Rightarrow> (string \<times> string) list \<Rightarrow> (string \<times> string) list \<Rightarrow>
   world \<Rightarrow> path \<Rightarrow> filesystem \<Rightarrow> (path \<times> string) list" where
  "generated_files instructions system_checks integration_checks w script_dir fs =
     write_entries w fs (stored w (script_dir @ [''integration'']) integration_isa_config)
       (script_dir @ [''integration'']) integration_checks
       (write_entries w fs (stored w (script_dir @ [''system_checks'']) system_config_content)
          (script_dir @ [''system_checks'']) system_checks
          (write_entries w fs (stored w (script_dir @ [''instructions'']) instruction_config_content)
             (script_dir @ [''instructions'']) instructions (files fs)))"

text \<open>The lines printed up to the end of the third loop: a heading, and for each
  catalog a line that announces it and one line per entry.\<close>

definition progress_lines ::
  "(string \<times> string) list \<Rightarrow> (string \<times> string) list \<Rightarrow> (string \<times> string) list \<Rightarrow>
   world \<Rightarrow> path \<Rightarrow> filesystem \<Rightarrow> string list" where
  "progress_lines instructions system_checks integration_checks w script_dir fs =
     [''Generating RISC-V Formal Verification Test Suite'',
      replicate 60 CHR ''='',
      newline # ''Generating '' @ str_nat (length instructions) @ '' individual instruction tests...'']
     @ map (entry_line w fs 8 (script_dir @ [''instructions''])) instructions
     @ [newline # ''Generating '' @ str_nat (length system_checks)
          @ '' system-level verification tests...'']
     @ map (entry_line w fs 12 (script_dir @ [''system_checks''])) system_checks
     @ [newline # ''Generating '' @ str_nat (length integration_checks) @ '' integration tests...'']
     @ map (entry_line w fs 8 (script_dir @ [''integration''])) integration_checks"

text \<open>The artifacts of the entries of a catalog that can be opened for writing, with
  what they hold afterwards; and those of the three catalogs.\<close>

definition artifacts_in ::
  "world \<Rightarrow> filesystem \<Rightarrow> (string \<Rightarrow> string) \<Rightarrow> path \<Rightarrow> (string \<times> string) list \<Rightarrow>
   (path \<times> string) list" where
  "artifacts_in w fs held output_dir entries =
     map (\<lambda>(ident, description). (output_dir @ [artifact_name ident], held ident))
       (filter (\<lambda>(ident, description).
                  open_w_error w fs (output_dir @ [artifact_name ident]) = None) entries)"

definition artifacts ::
  "(string \<times> string) list \<Rightarrow> (string \<times> string) list \<Rightarrow> (string \<times> string) list \<Rightarrow>
   world \<Rightarrow> path \<Rightarrow> filesystem \<Rightarrow> (path \<times> string) list" where
  "artifacts instructions system_checks integration_checks w script_dir fs =
     artifacts_in w fs (stored w (script_dir @ [''instructions'']) instruction_config_content)
       (script_dir @ [''instructions'']) instructions
     @ artifacts_in w fs (stored w (script_dir @ [''system_checks'']) system_config_content)
         (script_dir @ [''system_checks'']) system_checks
     @ artifacts_in w fs (stored w (script_dir @ [''integration'']) integration_isa_config)
         (script_dir @ [''integration'']) integration_checks"

text \<open>A formal directory whose instruction directory holds no artifact, and one that
  has a system artifact but no instruction directory.\<close>

definition ex_fs_empty :: filesystem where
  "ex_fs_empty = \<lparr> dirs = [[''formal''], [''formal'', ''instructions'']], files = [] \<rparr>"

definition ex_fs_system_only :: filesystem where
  "ex_fs_system_only =
     \<lparr> dirs = [[''formal''], [''formal'', ''system_checks'']],
       files = [([''formal'', ''system_checks'', ''verify_reg.sby''], '''')] \<rparr>"

text \<open>The example world without a generator module to import.\<close>

definition ex_world_no_generator :: world where
  "ex_world_no_generator = ex_world\<lparr> import_generator := None \<rparr>"

section \<open>Verified properties\<close>

subsection \<open>Auxiliary facts: jobs and their results\<close>

lemma run_single_test_Inr:
  "\<exists>res. fst (run_single_test w r f c) = Inr res \<and> status res \<in> set statuses \<and>
         test_name res = stem f \<and> category res = c"
  by (simp add: run_single_test_def run_single_test_try_def statuses_def
        split: sum.split prod.split)

lemma collect_results_map:
  "(\<forall>x\<in>set xs. \<exists>res. h x = Inr res) \<Longrightarrow> map Inr (collect_results (map h xs)) = map h xs"
  by (induction xs) auto

lemma mset_as_completed: "mset (as_completed w jobs) = mset jobs"
proof -
  have "map snd (zip [0..<length jobs] jobs) = jobs"
    by (simp add: map_snd_zip)
  then have "mset jobs = mset (map snd (zip [0..<length jobs] jobs))"
    by simp
  also have "\<dots> = mset (as_completed w jobs)"
    unfolding as_completed_def by (simp del: map_snd_zip)
  finally show ?thesis by simp
qed

subsection \<open>Auxiliary facts: the counting loop\<close>

lemma update_distinct:
  "distinct (map fst d) \<Longrightarrow> k \<in> fst ` set d \<Longrightarrow>
   \<exists>n. map_of d k = Some n \<and>
       AList.update k (Suc n) d = map (\<lambda>(k', n'). (k', if k' = k then Suc n' else n')) d"
proof (induction d)
  case Nil
  then show ?case by simp
next
  case (Cons p d)
  obtain k0 n0 where p: "p = (k0, n0)" by (cases p)
  show ?case
  proof (cases "k0 = k")
    case True
    with Cons.prems p have "k \<notin> fst ` set d" by auto
    then have "map (\<lambda>(k', n'). (k', if k' = k then Suc n' else n')) d = d"
      by (induction d) auto
    with True p show ?thesis by simp
  next
    case False
    with Cons p show ?thesis by auto
  qed
qed

lemma increment_add_counts:
  assumes "distinct (map fst d)" "status res \<in> fst ` set d"
  shows "increment (status res) d = Inr (add_counts d [res])"
proof -
  from update_distinct[OF assms] obtain n where
    n: "map_of d (status res) = Some n"
       "AList.update (status res) (Suc n) d =
          map (\<lambda>(k', n'). (k', if k' = status res then Suc n' else n')) d"
    by blast
  have "map (\<lambda>(k', n'). (k', if k' = status res then Suc n' else n')) d = add_counts d [res]"
    by (auto simp: add_counts_def)
  with n show ?thesis by (simp add: increment_def)
qed

lemma map_fst_add_counts [simp]: "map fst (add_counts d rs) = map fst d"
  by (simp add: add_counts_def case_prod_unfold comp_def)

lemma add_counts_Cons: "add_counts (add_counts d [res]) rs = add_counts d (res # rs)"
  by (auto simp: add_counts_def)

lemma add_counts_Nil [simp]: "add_counts d [] = d"
  by (simp add: add_counts_def)

lemma distinct_statuses: "distinct statuses"
  by (simp add: statuses_def)

lemma zero_counts_keys: "map fst zero_counts = statuses"
  by (simp add: zero_counts_def statuses_def)

lemma count_result_ok:
  assumes sc: "map fst sc = statuses"
      and cs: "well_formed_stats cs"
      and st: "status res \<in> set statuses"
  shows "\<exists>cs'. count_result (sc, cs) res = Inr (add_counts sc [res], cs') \<and>
               well_formed_stats cs' \<and>
               map_of cs' =
                 (map_of cs)(category res \<mapsto>
                    add_counts (case map_of cs (category res) of
                                  None \<Rightarrow> zero_counts | Some s \<Rightarrow> s) [res])"
proof -
  define cs1 where "cs1 =
    (if category res \<notin> fst ` set cs then cs @ [(category res, zero_counts)] else cs)"
  define base where "base = (case map_of cs (category res) of None \<Rightarrow> zero_counts | Some s \<Rightarrow> s)"
  have inc_sc: "increment (status res) sc = Inr (add_counts sc [res])"
    using sc st distinct_statuses by (intro increment_add_counts) (simp_all flip: set_map)
  have d1: "distinct (map fst cs1)"
    using cs by (auto simp: cs1_def well_formed_stats_def)
  have m1: "map_of cs1 (category res) = Some base"
  proof (cases "category res \<in> fst ` set cs")
    case True
    then obtain s where "map_of cs (category res) = Some s"
      by (metis domD dom_map_of_conv_image_fst)
    with True show ?thesis by (simp add: cs1_def base_def)
  next
    case False
    then have "map_of cs (category res) = None"
      by (simp add: map_of_eq_None_iff)
    with False show ?thesis by (simp add: cs1_def base_def map_add_def)
  qed
  have m1': "map_of cs1 c = map_of cs c" if "c \<noteq> category res" for c
    using that by (auto simp: cs1_def map_add_def split: option.splits)
  have base_keys: "map fst base = statuses"
    using cs by (auto simp: base_def zero_counts_keys well_formed_stats_def split: option.splits)
  have inc_base: "increment (status res) base = Inr (add_counts base [res])"
    using base_keys st distinct_statuses by (intro increment_add_counts) (simp_all flip: set_map)
  let ?cs' = "AList.update (category res) (add_counts base [res]) cs1"
  have res: "count_result (sc, cs) res = Inr (add_counts sc [res], ?cs')"
    using inc_sc m1 inc_base by (simp add: count_result_def cs1_def Let_def)
  have map': "map_of ?cs' = (map_of cs)(category res \<mapsto> add_counts base [res])"
    using m1' by (auto simp: AList.update_conv' fun_eq_iff)
  have wf: "well_formed_stats ?cs'"
    unfolding well_formed_stats_def
  proof (intro conjI allI impI)
    show "distinct (map fst ?cs')" using d1 by (rule AList.distinct_update)
  next
    fix c s assume "map_of ?cs' c = Some s"
    then show "map fst s = statuses"
      using cs base_keys unfolding map' by (auto simp: well_formed_stats_def split: if_splits)
  qed
  from res wf map' show ?thesis unfolding base_def by blast
qed

lemma count_results_ok:
  assumes "map fst sc = statuses" "well_formed_stats cs" "\<forall>res\<in>set rs. status res \<in> set statuses"
  shows "\<exists>cs'. count_results (sc, cs) rs = Inr (add_counts sc rs, cs') \<and>
               well_formed_stats cs' \<and>
               (\<forall>c. map_of cs' c =
                  (if c \<in> category ` set rs
                   then Some (add_counts (case map_of cs c of None \<Rightarrow> zero_counts | Some s \<Rightarrow> s)
                                (filter (\<lambda>res. category res = c) rs))
                   else map_of cs c))"
  using assms
proof (induction rs arbitrary: sc cs)
  case Nil
  then show ?case by simp
next
  case (Cons res rs)
  from count_result_ok[of sc cs res] Cons.prems obtain cs1 where
    step: "count_result (sc, cs) res = Inr (add_counts sc [res], cs1)"
    and wf1: "well_formed_stats cs1"
    and m1: "map_of cs1 =
               (map_of cs)(category res \<mapsto>
                  add_counts (case map_of cs (category res) of
                                None \<Rightarrow> zero_counts | Some s \<Rightarrow> s) [res])"
    by auto
  from Cons.IH[of "add_counts sc [res]" cs1] Cons.prems wf1 obtain cs' where
    rest: "count_results (add_counts sc [res], cs1) rs = Inr (add_counts (add_counts sc [res]) rs, cs')"
    and wf': "well_formed_stats cs'"
    and m': "\<forall>c. map_of cs' c =
                  (if c \<in> category ` set rs
                   then Some (add_counts (case map_of cs1 c of None \<Rightarrow> zero_counts | Some s \<Rightarrow> s)
                                (filter (\<lambda>res. category res = c) rs))
                   else map_of cs1 c)"
    by auto
  have "count_results (sc, cs) (res # rs) = Inr (add_counts sc (res # rs), cs')"
    using step rest by (simp add: add_counts_Cons)
  moreover have "map_of cs' c =
                  (if c \<in> category ` set (res # rs)
                   then Some (add_counts (case map_of cs c of None \<Rightarrow> zero_counts | Some s \<Rightarrow> s)
                                (filter (\<lambda>res. category res = c) (res # rs)))
                   else map_of cs c)" for c
  proof -
    have "filter (\<lambda>res. category res = c) rs = []" if "c \<notin> category ` set rs"
      using that by (auto simp: filter_empty_conv)
    then show ?thesis
      using m' m1 by (auto simp: add_counts_Cons)
  qed
  ultimately show ?case using wf' by blast
qed

lemma run_tests_parallel_results:
  assumes "0 < max_workers r"
  shows "\<exists>rs. run_tests_parallel w r jobs = Inr rs \<and>
              map Inr rs = map (\<lambda>(f, c). fst (run_single_test w r f c)) (as_completed w jobs) \<and>
              (\<forall>res\<in>set rs. status res \<in> set statuses)"
proof -
  let ?h = "\<lambda>(f, c). fst (run_single_test w r f c)"
  let ?rs = "collect_results (map ?h (as_completed w jobs))"
  have all: "\<forall>x\<in>set (as_completed w jobs). \<exists>res. ?h x = Inr res"
  proof
    fix x
    from run_single_test_Inr[of w r "fst x" "snd x"]
    show "\<exists>res. ?h x = Inr res" by (auto simp: case_prod_unfold)
  qed
  have eq: "map Inr ?rs = map ?h (as_completed w jobs)"
    using all by (rule collect_results_map)
  have "status res \<in> set statuses" if "res \<in> set ?rs" for res
  proof -
    from that have "(Inr res :: exn + TestResult) \<in> set (map Inr ?rs)" by simp
    then have "Inr res \<in> set (map ?h (as_completed w jobs))" by (simp only: eq)
    then obtain x where "?h x = Inr res" by auto
    then have "fst (run_single_test w r (fst x) (snd x)) = Inr res"
      by (simp add: case_prod_unfold)
    with run_single_test_Inr[of w r "fst x" "snd x"] show ?thesis by auto
  qed
  with eq assms show ?thesis by (auto simp: run_tests_parallel_def)
qed

lemma length_by_status:
  "\<forall>res\<in>set rs. status res \<in> set statuses \<Longrightarrow>
   length (filter (\<lambda>res. status res = ''PASS'') rs) + length (filter (\<lambda>res. status res = ''FAIL'') rs)
   + length (filter (\<lambda>res. status res = ''TIMEOUT'') rs) + length (filter (\<lambda>res. status res = ''ERROR'') rs)
   = length rs"
  by (induction rs) (auto simp: statuses_def)

lemma well_formed_stats_Nil: "well_formed_stats []"
  by (simp add: well_formed_stats_def)

subsection \<open>Auxiliary facts: statistics under permutation\<close>

lemma add_counts_mset:
  assumes "mset rs = mset rs'"
  shows "add_counts d rs = add_counts d rs'"
proof -
  have "length (filter P rs) = length (filter P rs')" for P :: "TestResult \<Rightarrow> bool"
  proof -
    have "length (filter P rs) = size (filter_mset P (mset rs))"
      by (simp flip: mset_filter)
    also have "\<dots> = size (filter_mset P (mset rs'))" by (simp add: assms)
    also have "\<dots> = length (filter P rs')" by (simp flip: mset_filter)
    finally show ?thesis .
  qed
  then show ?thesis by (simp add: add_counts_def)
qed

lemma Min_insert_above:
  fixes a b :: rat
  assumes "finite X" "b \<in> X" "b \<le> a"
  shows "Min (insert a X) = Min X"
proof -
  from assms have ne: "X \<noteq> {}" by auto
  have "Min X \<le> b" using assms by (intro Min_le)
  also have "b \<le> a" by fact
  finally have "Min X \<le> a" .
  then show ?thesis using assms ne by (simp add: min_absorb2)
qed

lemma Max_insert_below:
  fixes a b :: rat
  assumes "finite X" "b \<in> X" "a \<le> b"
  shows "Max (insert a X) = Max X"
proof -
  from assms have ne: "X \<noteq> {}" by auto
  have "a \<le> b" by fact
  also have "b \<le> Max X" using assms by (intro Max_ge)
  finally have "a \<le> Max X" .
  then show ?thesis using assms ne by (simp add: max_absorb2)
qed

lemma duration_min_by:
  "duration (min_by_duration m rs) = Min (duration ` set (m # rs))"
proof (induction rs arbitrary: m)
  case Nil
  then show ?case by simp
next
  case (Cons res rs)
  let ?D = "duration ` set rs"
  show ?case
  proof (cases "duration res < duration m")
    case True
    then have "duration (min_by_duration m (res # rs)) = Min (insert (duration res) ?D)"
      using Cons.IH[of res] by simp
    also have "\<dots> = Min (insert (duration m) (insert (duration res) ?D))"
      using True by (intro Min_insert_above[symmetric, of _ "duration res"]) simp_all
    finally show ?thesis by simp
  next
    case False
    then have "duration (min_by_duration m (res # rs)) = Min (insert (duration m) ?D)"
      using Cons.IH[of m] by simp
    also have "\<dots> = Min (insert (duration res) (insert (duration m) ?D))"
      using False by (intro Min_insert_above[symmetric, of _ "duration m"]) simp_all
    also have "insert (duration res) (insert (duration m) ?D) = duration ` set (m # res # rs)"
      by auto
    finally show ?thesis .
  qed
qed

lemma duration_max_by:
  "duration (max_by_duration m rs) = Max (duration ` set (m # rs))"
proof (induction rs arbitrary: m)
  case Nil
  then show ?case by simp
next
  case (Cons res rs)
  let ?D = "duration ` set rs"
  show ?case
  proof (cases "duration m < duration res")
    case True
    then have "duration (max_by_duration m (res # rs)) = Max (insert (duration res) ?D)"
      using Cons.IH[of res] by simp
    also have "\<dots> = Max (insert (duration m) (insert (duration res) ?D))"
      using True by (intro Max_insert_below[symmetric, of _ "duration res"]) simp_all
    finally show ?thesis by simp
  next
    case False
    then have "duration (max_by_duration m (res # rs)) = Max (insert (duration m) ?D)"
      using Cons.IH[of m] by simp
    also have "\<dots> = Max (insert (duration res) (insert (duration m) ?D))"
      using False by (intro Max_insert_below[symmetric, of _ "duration m"]) simp_all
    also have "insert (duration res) (insert (duration m) ?D) = duration ` set (m # res # rs)"
      by auto
    finally show ?thesis .
  qed
qed

subsection \<open>Auxiliary facts: the summary\<close>

lemma map_exn_Inr:
  "(\<forall>x\<in>set xs. \<exists>y. f x = Inr y) \<Longrightarrow> \<exists>ys. map_exn f xs = Inr ys"
  by (induction xs) auto

lemma overall_lines_Inr:
  assumes "map fst sc = statuses"
  shows "\<exists>ys. map_exn (overall_line w n) sc = Inr ys"
proof (rule map_exn_Inr, rule ballI)
  fix x assume "x \<in> set sc"
  then have "fst x \<in> set (map fst sc)" by simp
  then have "fst x \<in> set statuses" by (simp only: assms)
  then obtain y where "map_of symbol_table (fst x) = Some y"
    by (auto simp: statuses_def symbol_table_def)
  then show "\<exists>y. overall_line w n x = Inr y"
    by (simp add: overall_line_def case_prod_unfold)
qed

lemma category_lines_Inr:
  assumes "well_formed_stats cs"
  shows "\<exists>ys. map_exn (category_line w) cs = Inr ys"
proof (rule map_exn_Inr, rule ballI)
  fix x assume x: "x \<in> set cs"
  from assms have "distinct (map fst cs)" by (simp add: well_formed_stats_def)
  with x have "map_of cs (fst x) = Some (snd x)" by simp
  with assms[unfolded well_formed_stats_def] have "map fst (snd x) = statuses" by blast
  then have "''PASS'' \<in> fst ` set (snd x)"
    by (simp flip: set_map add: statuses_def)
  then obtain y where "map_of (snd x) ''PASS'' = Some y"
    by (metis domD dom_map_of_conv_image_fst)
  then show "\<exists>y. category_line w x = Inr y"
    by (simp add: category_line_def case_prod_unfold Let_def)
qed

lemma summary_lines_shape:
  assumes st: "\<forall>res\<in>set (results r). status res \<in> set statuses"
      and ne: "results r \<noteq> []"
  shows "\<exists>pre post.
           summary_lines w r now =
             Inr (pre
                  @ (if filter (\<lambda>res. status res \<noteq> ''PASS'') (results r) \<noteq> []
                     then ''Failed Tests:''
                          # concat (map failed_test_lines
                                      (filter (\<lambda>res. status res \<noteq> ''PASS'') (results r))) @ ['''']
                     else [])
                  @ post)"
proof -
  from ne obtain first others where fo: "results r = first # others"
    by (cases "results r") auto
  from count_results_ok[OF zero_counts_keys well_formed_stats_Nil st] obtain cs where
    cnt: "count_results (zero_counts, []) (results r) = Inr (add_counts zero_counts (results r), cs)"
    and wf: "well_formed_stats cs"
    by blast
  have "map fst (add_counts zero_counts (results r)) = statuses"
    by (simp add: zero_counts_keys)
  from overall_lines_Inr[OF this, of w] obtain overall where
    ov: "map_exn (overall_line w (length (results r))) (add_counts zero_counts (results r)) = Inr overall"
    by blast
  from category_lines_Inr[OF wf, of w] obtain by_category where
    bc: "map_exn (category_line w) cs = Inr by_category"
    by blast
  have split: "(case results r of [] \<Rightarrow> a | x # xs \<Rightarrow> f x xs) = f first others" for a :: "exn + string list" and f
    by (simp add: fo)
  show ?thesis
    unfolding summary_lines_def
    apply (simp only: split cnt ov bc sum.case prod.case Let_def)
    apply (metis append_assoc)
    done
qed

subsection \<open>Auxiliary facts: reading the depth of an artifact\<close>

lemma text_block_Cons: "text_block (l # ls) = l @ newline # text_block ls"
  by (simp add: text_block_def)

lemma split_lines_line:
  "newline \<notin> set l \<Longrightarrow> split_lines cur (l @ newline # rest) = (rev cur @ l) # split_lines [] rest"
  by (induction l arbitrary: cur) auto

lemma option_depth_Cons:
  "newline \<notin> set l \<Longrightarrow>
   option_depth (text_block (l # ls)) =
     (if take 6 l = ''depth '' then parse_nat (drop 6 l) else option_depth (text_block ls))"
  by (simp add: option_depth_def text_block_Cons split_lines_line)

lemma parse_nat_depths:
  "parse_nat ''20'' = Some 20" "parse_nat ''30'' = Some 30" "parse_nat ''50'' = Some 50"
  by (simp_all add: parse_nat_def is_digit_def)

lemma depth_instruction: "option_depth (instruction_config_content i) = Some 20"
  unfolding instruction_config_content_def
  apply (subst option_depth_Cons, simp add: newline_def)
  apply (subst option_depth_Cons, simp add: newline_def)
  apply (subst option_depth_Cons, simp add: newline_def)
  apply (subst option_depth_Cons, simp add: newline_def)
  apply (simp add: parse_nat_depths)
  done

lemma depth_system: "option_depth (system_config_content s) = Some 30"
  unfolding system_config_content_def
  apply (subst option_depth_Cons, simp add: newline_def)
  apply (subst option_depth_Cons, simp add: newline_def)
  apply (subst option_depth_Cons, simp add: newline_def)
  apply (subst option_depth_Cons, simp add: newline_def)
  apply (simp add: parse_nat_depths)
  done

lemma depth_integration: "option_depth (integration_isa_config g) = Some 50"
  unfolding integration_isa_config_def
  apply (subst option_depth_Cons, simp add: newline_def)
  apply (subst option_depth_Cons, simp add: newline_def)
  apply (subst option_depth_Cons, simp add: newline_def)
  apply (subst option_depth_Cons, simp add: newline_def)
  apply (simp add: parse_nat_depths)
  done

subsection \<open>Auxiliary facts: discovery\<close>

lemma find_test_files_missing:
  "\<not> path_exists fs test_dir \<Longrightarrow> find_test_files fs test_dir = []"
  by (simp add: find_test_files_def)

lemma collect_test_files_Cons:
  "collect_test_files fs fd ((c, sub) # tc) =
     map (\<lambda>f. (f, c)) (find_test_files fs (fd @ [sub])) @ collect_test_files fs fd tc"
  by (simp add: collect_test_files_def)

lemma collect_test_files_present:
  "collect_test_files fs fd tc =
     collect_test_files fs fd (filter (\<lambda>(c, sub). path_exists fs (fd @ [sub])) tc)"
  by (induction tc) (auto simp: collect_test_files_def find_test_files_def)

lemma collect_test_files_empty:
  "collect_test_files fs fd tc = [] \<longleftrightarrow> (\<forall>(c, sub)\<in>set tc. find_test_files fs (fd @ [sub]) = [])"
  by (induction tc) (auto simp: collect_test_files_def)

subsection \<open>Auxiliary facts: the generation loops\<close>

lemma artifact_name_inj [simp]: "artifact_name i = artifact_name j \<longleftrightarrow> i = j"
  by (simp add: artifact_name_def)

lemma open_w_error_dirs:
  "dirs fs = dirs fs' \<Longrightarrow> open_w_error w fs p = open_w_error w fs' p"
  by (simp add: open_w_error_def)

lemma write_exn_dirs:
  "dirs fs = dirs fs' \<Longrightarrow> write_exn w fs p = write_exn w fs' p"
  by (simp add: write_exn_def open_w_error_dirs[of fs fs'])

lemma write_entries_dirs:
  "dirs fs = dirs fs' \<Longrightarrow> write_entries w fs = write_entries w fs'"
  by (intro ext) (simp add: write_entries_def open_w_error_dirs[of fs fs'])

lemma entry_line_dirs:
  "dirs fs = dirs fs' \<Longrightarrow> entry_line w fs = entry_line w fs'"
  by (intro ext) (simp add: entry_line_def write_exn_dirs[of fs fs'])

lemma write_text_eq:
  "write_text w p s fs =
     (write_exn w fs p,
      if open_w_error w fs p = None
      then fs\<lparr>files := AList.update p (on_disk w p s) (files fs)\<rparr> else fs)"
  by (auto simp: write_text_def write_exn_def on_disk_def split: option.splits)

lemma write_exn_None:
  "write_exn w fs p = None \<Longrightarrow> open_w_error w fs p = None"
  by (auto simp: write_exn_def split: option.splits)

lemma write_entries_Nil [simp]: "write_entries w fs content dir [] al = al"
  by (simp add: write_entries_def)

lemma write_entries_Cons:
  "write_entries w fs content dir ((i, d) # es) al =
     write_entries w fs content dir es
       (if open_w_error w fs (dir @ [artifact_name i]) = None
        then AList.update (dir @ [artifact_name i]) (content i) al else al)"
  by (simp add: write_entries_def)

lemma write_entries_other:
  "(\<And>i d. (i, d) \<in> set es \<Longrightarrow> open_w_error w fs (dir @ [artifact_name i]) = None \<Longrightarrow>
            p \<noteq> dir @ [artifact_name i]) \<Longrightarrow>
   map_of (write_entries w fs content dir es al) p = map_of al p"
proof (induction es arbitrary: al)
  case Nil
  then show ?case by simp
next
  case (Cons e es)
  obtain i d where e: "e = (i, d)" by (cases e)
  have "map_of (write_entries w fs content dir es al') p = map_of al' p" for al'
    using Cons.prems by (intro Cons.IH) auto
  moreover have "open_w_error w fs (dir @ [artifact_name i]) = None \<Longrightarrow> p \<noteq> dir @ [artifact_name i]"
    using Cons.prems[of i d] e by simp
  ultimately show ?case
    by (auto simp: e write_entries_Cons AList.update_conv')
qed

lemma write_entries_written:
  "i \<in> fst ` set es \<Longrightarrow> open_w_error w fs (dir @ [artifact_name i]) = None \<Longrightarrow>
   map_of (write_entries w fs content dir es al) (dir @ [artifact_name i]) = Some (content i)"
proof (induction es arbitrary: al)
  case Nil
  then show ?case by simp
next
  case (Cons e es)
  obtain j d' where e: "e = (j, d')" by (cases e)
  show ?case
  proof (cases "i \<in> fst ` set es")
    case True
    then show ?thesis using Cons by (simp add: e write_entries_Cons)
  next
    case False
    with Cons.prems e have ij: "j = i" by auto
    have "map_of (write_entries w fs content dir es al') (dir @ [artifact_name i])
            = map_of al' (dir @ [artifact_name i])" for al'
      using False by (intro write_entries_other) force
    then show ?thesis
      using Cons.prems(2) by (simp add: e ij write_entries_Cons AList.update_conv')
  qed
qed

lemma write_entries_same:
  "(\<And>i d. (i, d) \<in> set es \<Longrightarrow> open_w_error w fs (dir @ [artifact_name i]) = None \<Longrightarrow>
            map_of al (dir @ [artifact_name i]) = Some (content i)) \<Longrightarrow>
   write_entries w fs content dir es al = al"
proof (induction es)
  case Nil
  then show ?case by simp
next
  case (Cons e es)
  obtain i d where e: "e = (i, d)" by (cases e)
  have "write_entries w fs content dir es al = al"
    using Cons.prems by (intro Cons.IH) auto
  moreover have "open_w_error w fs (dir @ [artifact_name i]) = None \<Longrightarrow>
                 AList.update (dir @ [artifact_name i]) (content i) al = al"
    using Cons.prems[of i d] e by (intro AList.update_triv) simp
  ultimately show ?case by (auto simp: e write_entries_Cons)
qed

lemma generation_loop_result:
  assumes cr: "\<And>i d fs. create i d dir fs =
                 (case write_text w (dir @ [artifact_name i]) (content i) fs of
                    (Some e, fs') \<Rightarrow> (Inl e, fs')
                  | (None, fs') \<Rightarrow> (Inr (dir @ [artifact_name i]), fs'))"
  shows "\<exists>configs'.
           generation_loop create wd dir es (fs, configs, out) =
             (fs\<lparr>files := write_entries w fs (stored w dir content) dir es (files fs)\<rparr>, configs',
              out @ map (entry_line w fs wd dir) es)"
proof (induction es arbitrary: fs configs out)
  case Nil
  then show ?case by simp
next
  case (Cons e es)
  obtain i d where e: "e = (i, d)" by (cases e)
  let ?p = "dir @ [artifact_name i]"
  let ?fs1 = "if open_w_error w fs ?p = None
              then fs\<lparr>files := AList.update ?p (stored w dir content i) (files fs)\<rparr> else fs"
  have c: "create i d dir fs =
             (case write_exn w fs ?p of Some x \<Rightarrow> (Inl x, ?fs1) | None \<Rightarrow> (Inr ?p, ?fs1))"
    by (auto simp: cr write_text_eq stored_def split: option.split)
  have ds: "dirs ?fs1 = dirs fs" by simp
  have we: "write_entries w ?fs1 = write_entries w fs"
    using ds by (rule write_entries_dirs)
  have el: "entry_line w ?fs1 = entry_line w fs"
    using ds by (rule entry_line_dirs)
  have step: "?fs1\<lparr>files := write_entries w fs (stored w dir content) dir es (files ?fs1)\<rparr>
                = fs\<lparr>files := write_entries w fs (stored w dir content) dir (e # es) (files fs)\<rparr>"
    by (simp add: e write_entries_Cons)
  show ?case
  proof (cases "write_exn w fs ?p")
    case None
    from Cons.IH[of ?fs1 "configs @ [?p]"
                   "out @ [''  [PASS] '' @ ljust wd (upper i) @ '' - '' @ d]"]
    obtain configs' where
      "generation_loop create wd dir es
         (?fs1, configs @ [?p], out @ [''  [PASS] '' @ ljust wd (upper i) @ '' - '' @ d])
       = (?fs1\<lparr>files := write_entries w ?fs1 (stored w dir content) dir es (files ?fs1)\<rparr>, configs',
          (out @ [''  [PASS] '' @ ljust wd (upper i) @ '' - '' @ d]) @ map (entry_line w ?fs1 wd dir) es)"
      by blast
    then have "generation_loop create wd dir (e # es) (fs, configs, out)
       = (fs\<lparr>files := write_entries w fs (stored w dir content) dir (e # es) (files fs)\<rparr>, configs',
          out @ map (entry_line w fs wd dir) (e # es))"
      by (simp only: we el step) (simp add: e c None entry_line_def)
    then show ?thesis by blast
  next
    case (Some x)
    from Cons.IH[of ?fs1 configs
                   "out @ [''  [ERROR] '' @ ljust wd (upper i) @ '' - Error: '' @ str_exn x]"]
    obtain configs' where
      "generation_loop create wd dir es
         (?fs1, configs, out @ [''  [ERROR] '' @ ljust wd (upper i) @ '' - Error: '' @ str_exn x])
       = (?fs1\<lparr>files := write_entries w ?fs1 (stored w dir content) dir es (files ?fs1)\<rparr>, configs',
          (out @ [''  [ERROR] '' @ ljust wd (upper i) @ '' - Error: '' @ str_exn x])
            @ map (entry_line w ?fs1 wd dir) es)"
      by blast
    then have "generation_loop create wd dir (e # es) (fs, configs, out)
       = (fs\<lparr>files := write_entries w fs (stored w dir content) dir (e # es) (files fs)\<rparr>, configs',
          out @ map (entry_line w fs wd dir) (e # es))"
      by (simp only: we el step) (simp add: e c Some entry_line_def)
    then show ?thesis by blast
  qed
qed

lemma create_instruction_config_eq:
  "create_instruction_config w i d dir fs =
     (case write_text w (dir @ [artifact_name i]) (instruction_config_content i) fs of
        (Some e, fs') \<Rightarrow> (Inl e, fs')
      | (None, fs') \<Rightarrow> (Inr (dir @ [artifact_name i]), fs'))"
  unfolding create_instruction_config_def artifact_name_def Let_def by (rule refl)

lemma create_system_config_eq:
  "create_system_config w i d dir fs =
     (case write_text w (dir @ [artifact_name i]) (system_config_content i) fs of
        (Some e, fs') \<Rightarrow> (Inl e, fs')
      | (None, fs') \<Rightarrow> (Inr (dir @ [artifact_name i]), fs'))"
  unfolding create_system_config_def artifact_name_def Let_def by (rule refl)

lemma create_integration_config_eq:
  "create_integration_config w i d dir fs =
     (case write_text w (dir @ [artifact_name i]) (integration_isa_config i) fs of
        (Some e, fs') \<Rightarrow> (Inl e, fs')
      | (None, fs') \<Rightarrow> (Inr (dir @ [artifact_name i]), fs'))"
  unfolding create_integration_config_def artifact_name_def Let_def by (rule refl)

lemma artifacts_in_member:
  "(p, s) \<in> set (artifacts_in w fs content dir es) \<longleftrightarrow>
     (\<exists>i\<in>fst ` set es. p = dir @ [artifact_name i] \<and> s = content i \<and>
                         open_w_error w fs p = None)"
  by (force simp: artifacts_in_def)

lemma artifacts_in_functional:
  "(p, s) \<in> set (artifacts_in w fs content dir es) \<Longrightarrow>
   (p, s') \<in> set (artifacts_in w fs content dir es) \<Longrightarrow> s = s'"
  by (auto simp: artifacts_in_member)

lemma map_of_artifacts_in:
  "map_of (artifacts_in w fs content dir es) p = Some s \<longleftrightarrow>
     (p, s) \<in> set (artifacts_in w fs content dir es)"
proof
  assume "map_of (artifacts_in w fs content dir es) p = Some s"
  then show "(p, s) \<in> set (artifacts_in w fs content dir es)" by (rule map_of_SomeD)
next
  assume m: "(p, s) \<in> set (artifacts_in w fs content dir es)"
  then obtain s' where s': "map_of (artifacts_in w fs content dir es) p = Some s'"
    by (metis domD dom_map_of_conv_image_fst fst_conv imageI)
  then have "(p, s') \<in> set (artifacts_in w fs content dir es)" by (rule map_of_SomeD)
  with m have "s = s'" by (rule artifacts_in_functional)
  with s' show "map_of (artifacts_in w fs content dir es) p = Some s" by simp
qed

lemma write_entries_map_of:
  "map_of (write_entries w fs content dir es al) p =
     (case map_of (artifacts_in w fs content dir es) p of
        None \<Rightarrow> map_of al p
      | Some s \<Rightarrow> Some s)"
proof (cases "map_of (artifacts_in w fs content dir es) p")
  case None
  then have "p \<notin> fst ` set (artifacts_in w fs content dir es)"
    by (simp add: map_of_eq_None_iff)
  then have "\<And>i d. (i, d) \<in> set es \<Longrightarrow> open_w_error w fs (dir @ [artifact_name i]) = None \<Longrightarrow>
            p \<noteq> dir @ [artifact_name i]"
    by (force simp: artifacts_in_def)
  then have "map_of (write_entries w fs content dir es al) p = map_of al p"
    by (rule write_entries_other)
  with None show ?thesis by simp
next
  case (Some s)
  then have "(p, s) \<in> set (artifacts_in w fs content dir es)" by (rule map_of_SomeD)
  then obtain i where i: "i \<in> fst ` set es" "p = dir @ [artifact_name i]" "s = content i"
      "open_w_error w fs p = None"
    by (auto simp: artifacts_in_member)
  then have "map_of (write_entries w fs content dir es al) p = Some s"
    using write_entries_written[of i es w fs dir content al] by simp
  with Some show ?thesis by simp
qed

lemma artifacts_in_dir:
  "(p, s) \<in> set (artifacts_in w fs content dir es) \<Longrightarrow> p \<noteq> [] \<and> butlast p = dir"
  by (auto simp: artifacts_in_member)

lemma artifacts_disjoint:
  "dir \<noteq> dir' \<Longrightarrow> (p, s) \<in> set (artifacts_in w fs content dir es) \<Longrightarrow>
   map_of (artifacts_in w fs content' dir' es') p = None"
proof -
  assume d: "dir \<noteq> dir'" and m: "(p, s) \<in> set (artifacts_in w fs content dir es)"
  have "p \<notin> fst ` set (artifacts_in w fs content' dir' es')"
  proof
    assume "p \<in> fst ` set (artifacts_in w fs content' dir' es')"
    then obtain s' where "(p, s') \<in> set (artifacts_in w fs content' dir' es')" by force
    with artifacts_in_dir[OF this] artifacts_in_dir[OF m] d show False by simp
  qed
  then show ?thesis by (simp add: map_of_eq_None_iff)
qed

lemma generation_dirs_distinct:
  "sd @ [''instructions''] \<noteq> sd @ [''system_checks'']"
  "sd @ [''instructions''] \<noteq> sd @ [''integration'']"
  "sd @ [''system_checks''] \<noteq> sd @ [''integration'']"
  by simp_all

lemma generated_files_map_of:
  "map_of (generated_files ci cs cg w sd fs) p =
     (case map_of (artifacts ci cs cg w sd fs) p of
        None \<Rightarrow> map_of (files fs) p
      | Some s \<Rightarrow> Some s)"
proof -
  let ?A1 = "artifacts_in w fs (stored w (sd @ [''instructions'']) instruction_config_content) (sd @ [''instructions'']) ci"
  let ?A2 = "artifacts_in w fs (stored w (sd @ [''system_checks'']) system_config_content) (sd @ [''system_checks'']) cs"
  let ?A3 = "artifacts_in w fs (stored w (sd @ [''integration'']) integration_isa_config) (sd @ [''integration'']) cg"
  have 12: "map_of ?A1 p = Some s \<Longrightarrow> map_of ?A2 p = None" for s
    using artifacts_disjoint[OF generation_dirs_distinct(1)] by (simp add: map_of_artifacts_in)
  have 13: "map_of ?A1 p = Some s \<Longrightarrow> map_of ?A3 p = None" for s
    using artifacts_disjoint[OF generation_dirs_distinct(2)] by (simp add: map_of_artifacts_in)
  have 23: "map_of ?A2 p = Some s \<Longrightarrow> map_of ?A3 p = None" for s
    using artifacts_disjoint[OF generation_dirs_distinct(3)] by (simp add: map_of_artifacts_in)
  show ?thesis
    unfolding generated_files_def artifacts_def
    using 12 13 23
    by (auto simp: write_entries_map_of map_of_append map_add_def split: option.splits)
qed

lemma generator_main_on_Inl:
  "make_directories w sd fs = Inl e \<Longrightarrow> generator_main_on ci cs cg w sd fs = Inl e"
  by (auto simp: generator_main_on_def make_directories_def Let_def split: sum.splits)

lemma generator_main_on_Inr:
  assumes "make_directories w sd fs = Inr fs3"
  shows "\<exists>tail. generator_main_on ci cs cg w sd fs =
           Inr \<lparr> gen_returned = True,
                 gen_fs = fs3\<lparr>files := generated_files ci cs cg w sd fs3\<rparr>,
                 gen_printed = progress_lines ci cs cg w sd fs3 @ tail \<rparr>"
proof -
  from assms obtain fs1 fs2 where
    m1: "mkdir_exist_ok w (sd @ [''instructions'']) fs = Inr fs1" and
    m2: "mkdir_exist_ok w (sd @ [''system_checks'']) fs1 = Inr fs2" and
    m3: "mkdir_exist_ok w (sd @ [''integration'']) fs2 = Inr fs3"
    by (auto simp: make_directories_def split: sum.splits)
  let ?W1 = "write_entries w fs3 (stored w (sd @ [''instructions'']) instruction_config_content) (sd @ [''instructions'']) ci (files fs3)"
  let ?fs4 = "fs3\<lparr>files := ?W1\<rparr>"
  let ?W2 = "write_entries w fs3 (stored w (sd @ [''system_checks'']) system_config_content) (sd @ [''system_checks'']) cs ?W1"
  let ?fs5 = "fs3\<lparr>files := ?W2\<rparr>"
  have d4: "write_entries w ?fs4 = write_entries w fs3" "entry_line w ?fs4 = entry_line w fs3"
    by (simp_all add: write_entries_dirs[of ?fs4 fs3] entry_line_dirs[of ?fs4 fs3])
  have d5: "write_entries w ?fs5 = write_entries w fs3" "entry_line w ?fs5 = entry_line w fs3"
    by (simp_all add: write_entries_dirs[of ?fs5 fs3] entry_line_dirs[of ?fs5 fs3])
  have l1: "\<exists>c'. generation_loop (create_instruction_config w) 8 (sd @ [''instructions'']) ci (fs3, [], out)
              = (?fs4, c', out @ map (entry_line w fs3 8 (sd @ [''instructions''])) ci)" for out
    using generation_loop_result[of "create_instruction_config w" "sd @ [''instructions'']" w
            instruction_config_content 8 ci fs3 "[]" out]
    by (simp add: create_instruction_config_eq)
  have l2: "\<exists>c'. generation_loop (create_system_config w) 12 (sd @ [''system_checks'']) cs (?fs4, [], out)
              = (?fs5, c', out @ map (entry_line w fs3 12 (sd @ [''system_checks''])) cs)" for out
    using generation_loop_result[of "create_system_config w" "sd @ [''system_checks'']" w
            system_config_content 12 cs ?fs4 "[]" out]
    by (simp add: create_system_config_eq d4)
  have l3: "\<exists>c'. generation_loop (create_integration_config w) 8 (sd @ [''integration'']) cg (?fs5, [], out)
              = (fs3\<lparr>files := generated_files ci cs cg w sd fs3\<rparr>, c',
                 out @ map (entry_line w fs3 8 (sd @ [''integration''])) cg)" for out
    using generation_loop_result[of "create_integration_config w" "sd @ [''integration'']" w
            integration_isa_config 8 cg ?fs5 "[]" out]
    by (simp add: create_integration_config_eq d5 generated_files_def)
  let ?out0 = "[''Generating RISC-V Formal Verification Test Suite'',
                  replicate 60 CHR ''='',
                  newline # ''Generating '' @ str_nat (length ci)
                    @ '' individual instruction tests...'']"
  from l1[of ?out0] obtain c1 where
    e1: "generation_loop (create_instruction_config w) 8 (sd @ [''instructions'']) ci (fs3, [], ?out0)
           = (?fs4, c1, ?out0 @ map (entry_line w fs3 8 (sd @ [''instructions''])) ci)"
    by blast
  let ?out4 = "?out0 @ map (entry_line w fs3 8 (sd @ [''instructions''])) ci"
  let ?in5 = "?out4 @ [newline # ''Generating '' @ str_nat (length cs)
                           @ '' system-level verification tests...'']"
  from l2[of ?in5] obtain c2 where
    e2: "generation_loop (create_system_config w) 12 (sd @ [''system_checks'']) cs (?fs4, [], ?in5)
           = (?fs5, c2, ?in5 @ map (entry_line w fs3 12 (sd @ [''system_checks''])) cs)"
    by blast
  let ?out5 = "?in5 @ map (entry_line w fs3 12 (sd @ [''system_checks''])) cs"
  let ?in6 = "?out5 @ [newline # ''Generating '' @ str_nat (length cg)
                           @ '' integration tests...'']"
  from l3[of ?in6] obtain c3 where
    e3: "generation_loop (create_integration_config w) 8 (sd @ [''integration'']) cg (?fs5, [], ?in6)
           = (fs3\<lparr>files := generated_files ci cs cg w sd fs3\<rparr>, c3,
              ?in6 @ map (entry_line w fs3 8 (sd @ [''integration''])) cg)"
    by blast
  show ?thesis
    unfolding generator_main_on_def Let_def
    apply (simp only: m1 m2 m3 sum.case e1 prod.case e2 e3)
    apply (simp only: progress_lines_def append_assoc)
    apply blast
    done
qed

lemma mkdir_exist_ok_Inr:
  "mkdir_exist_ok w p fs = Inr fs' \<Longrightarrow>
   files fs' = files fs \<and> p \<in> set (dirs fs') \<and> set (dirs fs) \<subseteq> set (dirs fs')"
  by (auto simp: mkdir_exist_ok_def split: if_splits option.splits)

lemma mkdir_exist_ok_existing:
  "p \<in> set (dirs fs) \<Longrightarrow> mkdir_exist_ok w p fs = Inr fs"
  by (simp add: mkdir_exist_ok_def)

lemma make_directories_Inr:
  assumes "make_directories w sd fs = Inr fs3"
  shows "files fs3 = files fs"
    and "sd @ [''instructions''] \<in> set (dirs fs3)"
    and "sd @ [''system_checks''] \<in> set (dirs fs3)"
    and "sd @ [''integration''] \<in> set (dirs fs3)"
proof -
  from assms obtain fs1 fs2 where
    m1: "mkdir_exist_ok w (sd @ [''instructions'']) fs = Inr fs1" and
    m2: "mkdir_exist_ok w (sd @ [''system_checks'']) fs1 = Inr fs2" and
    m3: "mkdir_exist_ok w (sd @ [''integration'']) fs2 = Inr fs3"
    by (auto simp: make_directories_def split: sum.splits)
  from mkdir_exist_ok_Inr[OF m1] mkdir_exist_ok_Inr[OF m2] mkdir_exist_ok_Inr[OF m3]
  show "files fs3 = files fs"
    and "sd @ [''instructions''] \<in> set (dirs fs3)"
    and "sd @ [''system_checks''] \<in> set (dirs fs3)"
    and "sd @ [''integration''] \<in> set (dirs fs3)"
    by auto
qed

lemma make_directories_existing:
  assumes "sd @ [''instructions''] \<in> set (dirs fs)"
      and "sd @ [''system_checks''] \<in> set (dirs fs)"
      and "sd @ [''integration''] \<in> set (dirs fs)"
  shows "make_directories w sd fs = Inr fs"
  using assms by (simp add: make_directories_def mkdir_exist_ok_existing)

lemma artifacts_dirs:
  "dirs fs = dirs fs' \<Longrightarrow> artifacts ci cs cg w sd fs = artifacts ci cs cg w sd fs'"
  by (simp add: artifacts_def artifacts_in_def open_w_error_dirs[of fs fs'])

lemma artifacts_map_of:
  "map_of (artifacts ci cs cg w sd fs) p = Some s \<longleftrightarrow> (p, s) \<in> set (artifacts ci cs cg w sd fs)"
proof
  assume "map_of (artifacts ci cs cg w sd fs) p = Some s"
  then show "(p, s) \<in> set (artifacts ci cs cg w sd fs)" by (rule map_of_SomeD)
next
  let ?A1 = "artifacts_in w fs (stored w (sd @ [''instructions'']) instruction_config_content) (sd @ [''instructions'']) ci"
  let ?A2 = "artifacts_in w fs (stored w (sd @ [''system_checks'']) system_config_content) (sd @ [''system_checks'']) cs"
  let ?A3 = "artifacts_in w fs (stored w (sd @ [''integration'']) integration_isa_config) (sd @ [''integration'']) cg"
  assume "(p, s) \<in> set (artifacts ci cs cg w sd fs)"
  then consider "(p, s) \<in> set ?A1" | "(p, s) \<in> set ?A2" | "(p, s) \<in> set ?A3"
    by (auto simp: artifacts_def)
  then show "map_of (artifacts ci cs cg w sd fs) p = Some s"
  proof cases
    case 1
    then have "map_of ?A1 p = Some s" by (simp add: map_of_artifacts_in)
    then show ?thesis by (simp add: artifacts_def map_add_def)
  next
    case 2
    then have "map_of ?A2 p = Some s" by (simp add: map_of_artifacts_in)
    moreover have "map_of ?A1 p = None"
      using artifacts_disjoint[OF generation_dirs_distinct(1)[symmetric] 2] .
    ultimately show ?thesis by (simp add: artifacts_def map_add_def split: option.splits)
  next
    case 3
    then have "map_of ?A3 p = Some s" by (simp add: map_of_artifacts_in)
    moreover have "map_of ?A1 p = None"
      using artifacts_disjoint[OF generation_dirs_distinct(2)[symmetric] 3] .
    moreover have "map_of ?A2 p = None"
      using artifacts_disjoint[OF generation_dirs_distinct(3)[symmetric] 3] .
    ultimately show ?thesis by (simp add: artifacts_def map_add_def split: option.splits)
  qed
qed

lemma generated_files_fixed:
  assumes "\<And>p s. (p, s) \<in> set (artifacts ci cs cg w sd fs) \<Longrightarrow> map_of (files fs) p = Some s"
  shows "generated_files ci cs cg w sd fs = files fs"
proof -
  have 1: "write_entries w fs (stored w (sd @ [''instructions'']) instruction_config_content) (sd @ [''instructions'']) ci (files fs) = files fs"
  proof (rule write_entries_same)
    fix i d assume "(i, d) \<in> set ci"
      and "open_w_error w fs ((sd @ [''instructions'']) @ [artifact_name i]) = None"
    then have "((sd @ [''instructions'']) @ [artifact_name i], stored w (sd @ [''instructions'']) instruction_config_content i)
                 \<in> set (artifacts ci cs cg w sd fs)"
      by (force simp: artifacts_def artifacts_in_member)
    then show "map_of (files fs) ((sd @ [''instructions'']) @ [artifact_name i])
                 = Some (stored w (sd @ [''instructions'']) instruction_config_content i)"
      by (rule assms)
  qed
  have 2: "write_entries w fs (stored w (sd @ [''system_checks'']) system_config_content) (sd @ [''system_checks'']) cs (files fs) = files fs"
  proof (rule write_entries_same)
    fix i d assume "(i, d) \<in> set cs"
      and "open_w_error w fs ((sd @ [''system_checks'']) @ [artifact_name i]) = None"
    then have "((sd @ [''system_checks'']) @ [artifact_name i], stored w (sd @ [''system_checks'']) system_config_content i)
                 \<in> set (artifacts ci cs cg w sd fs)"
      by (force simp: artifacts_def artifacts_in_member)
    then show "map_of (files fs) ((sd @ [''system_checks'']) @ [artifact_name i])
                 = Some (stored w (sd @ [''system_checks'']) system_config_content i)"
      by (rule assms)
  qed
  have 3: "write_entries w fs (stored w (sd @ [''integration'']) integration_isa_config) (sd @ [''integration'']) cg (files fs) = files fs"
  proof (rule write_entries_same)
    fix i d assume "(i, d) \<in> set cg"
      and "open_w_error w fs ((sd @ [''integration'']) @ [artifact_name i]) = None"
    then have "((sd @ [''integration'']) @ [artifact_name i], stored w (sd @ [''integration'']) integration_isa_config i)
                 \<in> set (artifacts ci cs cg w sd fs)"
      by (force simp: artifacts_def artifacts_in_member)
    then show "map_of (files fs) ((sd @ [''integration'']) @ [artifact_name i])
                 = Some (stored w (sd @ [''integration'']) integration_isa_config i)"
      by (rule assms)
  qed
  show ?thesis by (simp only: generated_files_def 1 2 3)
qed

lemma generator_main_on_cases:
  assumes "generator_main_on ci cs cg w sd fs = Inr g"
  shows "\<exists>fs3. make_directories w sd fs = Inr fs3 \<and>
               gen_fs g = fs3\<lparr>files := generated_files ci cs cg w sd fs3\<rparr> \<and>
               gen_returned g = True"
proof (cases "make_directories w sd fs")
  case (Inl e)
  from generator_main_on_Inl[OF this, of ci cs cg] assms show ?thesis by simp
next
  case (Inr fs3)
  from generator_main_on_Inr[OF this, of ci cs cg] assms Inr show ?thesis by auto
qed

subsection \<open>Auxiliary facts: the concrete invocation\<close>

lemma ex_make_directories:
  "make_directories ex_world [''formal''] ex_fs
     = Inr (ex_fs\<lparr>dirs := dirs ex_fs @ [[''formal'', ''integration'']]\<rparr>)"
  "make_directories ex_world_denied [''formal''] ex_fs
     = Inr (ex_fs\<lparr>dirs := dirs ex_fs @ [[''formal'', ''integration'']]\<rparr>)"
  by (simp_all add: make_directories_def mkdir_exist_ok_def ex_fs_def ex_world_def
        ex_world_denied_def parent_def)

lemma ex_open_add:
  "dirs fs = dirs ex_fs @ [[''formal'', ''integration'']] \<Longrightarrow>
   open_w_error ex_world fs [''formal'', ''instructions'', ''verify_add.sby''] = None"
  "dirs fs = dirs ex_fs @ [[''formal'', ''integration'']] \<Longrightarrow>
   open_w_error ex_world_denied fs [''formal'', ''instructions'', ''verify_add.sby'']
     = Some (Exn OSError ''Permission denied'')"
  "dirs fs = dirs ex_fs @ [[''formal'', ''integration'']] \<Longrightarrow>
   open_w_error ex_world_denied fs [''formal'', ''instructions'', ''verify_sub.sby''] = None"
  by (simp_all add: open_w_error_def ex_fs_def ex_world_def ex_world_denied_def parent_def)

lemma ex_add_artifact:
  assumes "dirs fs = dirs ex_fs @ [[''formal'', ''integration'']]"
  shows "([''formal'', ''instructions'', ''verify_add.sby''], instruction_config_content ''add'')
           \<in> set (artifacts RV32I_INSTRUCTIONS SYSTEM_CHECKS INTEGRATION_CHECKS ex_world [''formal''] fs)"
proof -
  have "''add'' \<in> fst ` set RV32I_INSTRUCTIONS"
    by (simp add: RV32I_INSTRUCTIONS_def)
  moreover have "[''formal'', ''instructions'', ''verify_add.sby'']
                   = ([''formal''] @ [''instructions'']) @ [artifact_name ''add'']"
    by (simp add: artifact_name_def)
  moreover have "stored ex_world ([''formal''] @ [''instructions'']) instruction_config_content ''add''
                   = instruction_config_content ''add''"
    by (simp add: stored_def on_disk_def ex_world_def)
  ultimately have "([''formal'', ''instructions'', ''verify_add.sby''], instruction_config_content ''add'')
           \<in> set (artifacts_in ex_world fs
                     (stored ex_world ([''formal''] @ [''instructions'']) instruction_config_content)
                     ([''formal''] @ [''instructions'']) RV32I_INSTRUCTIONS)"
    using ex_open_add(1)[OF assms] unfolding artifacts_in_member by metis
  then show ?thesis by (simp add: artifacts_def)
qed

subsection \<open>Auxiliary facts: the suite and the first half of the runner\<close>

lemma length_filter_all:
  "(length (filter P xs) = length xs) = (\<forall>x\<in>set xs. P x)"
proof (induction xs)
  case Nil
  then show ?case by simp
next
  case (Cons x xs)
  have "length (filter P xs) \<le> length xs" by simp
  then have "length (filter P xs) \<noteq> Suc (length xs)" by arith
  with Cons show ?case by auto
qed

lemma run_verification_suite_Inr:
  assumes "run_verification_suite w fs r formal_dir cats = Inr out" and "results r = []"
  shows "length (final_results out) = length (collect_test_files fs formal_dir (select_categories cats))"
    and "success out = (final_results out \<noteq> [] \<and> (\<forall>res\<in>set (final_results out). status res = ''PASS''))"
    and "collect_test_files fs formal_dir (select_categories cats) = [] \<Longrightarrow>
           printed_summary out = None \<and> saved_report out = None"
    and "run_tests_parallel w (r\<lparr>start_time := Some (time_start w)\<rparr>)
           (collect_test_files fs formal_dir (select_categories cats)) = Inr rs \<Longrightarrow>
         final_results out = rs"
    and "collect_test_files fs formal_dir (select_categories cats) \<noteq> [] \<Longrightarrow>
           printed_summary out \<noteq> None \<and> saved_report out \<noteq> None"
proof -
  let ?jobs = "collect_test_files fs formal_dir (select_categories cats)"
  let ?r1 = "r\<lparr>start_time := Some (time_start w)\<rparr>"
  have *: "length (final_results out) = length ?jobs \<and>
        success out = (final_results out \<noteq> [] \<and> (\<forall>res\<in>set (final_results out). status res = ''PASS'')) \<and>
        (?jobs = [] \<longrightarrow> printed_summary out = None \<and> saved_report out = None) \<and>
        (\<forall>rs. run_tests_parallel w ?r1 ?jobs = Inr rs \<longrightarrow> final_results out = rs) \<and>
        (?jobs \<noteq> [] \<longrightarrow> printed_summary out \<noteq> None \<and> saved_report out \<noteq> None)"
  proof (cases "?jobs = []")
    case True
    with assms have "out = \<lparr> success = False, final_results = [],
                              printed_summary = None, saved_report = None \<rparr>"
      by (simp add: run_verification_suite_def)
    with True show ?thesis by (auto simp: run_tests_parallel_def as_completed_def)
  next
    case False
    with assms obtain rs where
      rs: "run_tests_parallel w ?r1 ?jobs = Inr rs"
      and out: "final_results out = rs"
               "success out = (length (filter (\<lambda>res. status res = ''PASS'') rs) = length rs)"
               "printed_summary out \<noteq> None" "saved_report out \<noteq> None"
      by (auto simp: run_verification_suite_def Let_def split: sum.splits)
    from rs have pos: "0 < max_workers ?r1"
      by (auto simp: run_tests_parallel_def split: if_splits)
    from run_tests_parallel_results[OF pos, of w ?jobs] rs
    have "map Inr rs = map (\<lambda>(f, c). fst (run_single_test w ?r1 f c)) (as_completed w ?jobs)"
      by simp
    then have "length (map Inr rs :: (exn + TestResult) list) = length (as_completed w ?jobs)"
      by simp
    also have "\<dots> = size (mset (as_completed w ?jobs))" by simp
    also have "\<dots> = length ?jobs" by (simp add: mset_as_completed)
    finally have len: "length rs = length ?jobs" by simp
    with False have ne: "rs \<noteq> []" by auto
    have succ: "success out = (\<forall>res\<in>set rs. status res = ''PASS'')"
      using out(2) by (simp only: length_filter_all)
    from out(1,3,4) len rs False ne succ show ?thesis by auto
  qed
  from * show "length (final_results out) = length ?jobs" by blast
  from * show "success out = (final_results out \<noteq> [] \<and> (\<forall>res\<in>set (final_results out). status res = ''PASS''))"
    by blast
  from * show "?jobs = [] \<Longrightarrow> printed_summary out = None \<and> saved_report out = None" by blast
  from * show "run_tests_parallel w ?r1 ?jobs = Inr rs \<Longrightarrow> final_results out = rs" by blast
  from * show "?jobs \<noteq> [] \<Longrightarrow> printed_summary out \<noteq> None \<and> saved_report out \<noteq> None" by blast
qed

lemma prepare_Inl:
  "prepare w fs a = Inl code \<Longrightarrow> code = 0 \<or> code = 1"
  by (auto simp: prepare_def Let_def split: if_splits option.splits sum.splits)

lemma prepare_Inl_0:
  "(prepare w fs a = Inl 0) =
     (args_generate_only a \<and> path_exists fs (args_formal_dir a) \<and>
      (\<exists>d g. import_generator w = Some d \<and> generator_main w d fs = Inr g))"
  by (auto simp: prepare_def Let_def split: if_splits option.splits sum.splits)

lemma init_runner_results [simp]: "results (init_runner w workers t) = []"
  by (simp add: init_runner_def)

lemma suite_executed:
  assumes pa: "parse_args w argv = Inr a"
      and p: "prepare w fs a = Inr fs'"
      and s: "run_verification_suite w fs' (init_runner w (args_workers a) (args_timeout a))
                (args_formal_dir a) (args_categories a) = Inr out"
  shows "final_results out = executed_jobs w fs argv"
proof (cases "collect_test_files fs' (args_formal_dir a) (select_categories (args_categories a)) = []")
  case True
  with s have "final_results out = []"
    by (auto simp: run_verification_suite_def)
  moreover have "executed_jobs w fs argv = []"
    using True by (simp add: executed_jobs_def pa p run_tests_parallel_def as_completed_def)
  ultimately show ?thesis by simp
next
  case False
  with s show ?thesis
    by (auto simp: executed_jobs_def pa p run_verification_suite_def Let_def split: sum.splits)
qed

lemma generate_only_prepare:
  "args_generate_only a \<Longrightarrow> \<exists>code. prepare w fs a = Inl code"
  by (auto simp: prepare_def Let_def split: option.splits sum.splits)

lemma ex_generator_returns:
  "\<exists>g. generator_main ex_world [''formal''] ex_fs = Inr g"
  using generator_main_on_Inr[OF ex_make_directories(1),
          of RV32I_INSTRUCTIONS SYSTEM_CHECKS INTEGRATION_CHECKS]
  unfolding generator_main_def by blast

lemma ex_parse_args_world:
  "parse_args ex_world argv = ex_parse_args argv"
  "parse_args ex_world_no_generator argv = ex_parse_args argv"
  by (simp_all add: ex_world_def ex_world_no_generator_def)

subsection \<open>Classification of a single job\<close>


subsection \<open>Totality of a single job\<close>


subsection \<open>No job is dropped\<close>

text \<open>
  Claim C3.  For every list of jobs handed to \<^verbatim>\<open>run_tests_parallel\<close> by a runner whose
  worker bound is positive (otherwise the pool cannot be created and nothing is
  submitted), the call returns a list of results that holds exactly one result per job:
  it is the list of the results of the jobs, taken in the order of completion, which
  is a permutation of the jobs.  The counting loop of the report succeeds on it, and
  the four per-status counts add up to the number of jobs submitted.
\<close>

theorem every_job_counted:
  assumes "0 < max_workers r"
  shows "\<exists>rs. run_tests_parallel w r jobs = Inr rs \<and>
              length rs = length jobs \<and>
              (\<exists>order. mset order = mset jobs \<and>
                       map Inr rs = map (\<lambda>(f, c). fst (run_single_test w r f c)) order) \<and>
              (\<exists>p f t e cs.
                 count_results (zero_counts, []) rs =
                   Inr ([(''PASS'', p), (''FAIL'', f), (''TIMEOUT'', t), (''ERROR'', e)], cs) \<and>
                 p + f + t + e = length jobs)"
proof -
  from run_tests_parallel_results[OF assms, of w jobs] obtain rs where
    rs: "run_tests_parallel w r jobs = Inr rs"
    and eq: "map Inr rs = map (\<lambda>(f, c). fst (run_single_test w r f c)) (as_completed w jobs)"
    and st: "\<forall>res\<in>set rs. status res \<in> set statuses"
    by blast
  have "length (map Inr rs :: (exn + TestResult) list) = length (as_completed w jobs)"
    unfolding eq by simp
  also have "\<dots> = size (mset (as_completed w jobs))" by simp
  also have "\<dots> = length jobs" by (simp add: mset_as_completed)
  finally have len: "length rs = length jobs" by simp
  from count_results_ok[OF zero_counts_keys well_formed_stats_Nil st] obtain cs where
    cnt: "count_results (zero_counts, []) rs = Inr (add_counts zero_counts rs, cs)"
    by blast
  have shape: "add_counts zero_counts rs =
          [(''PASS'', length (filter (\<lambda>res. status res = ''PASS'') rs)),
           (''FAIL'', length (filter (\<lambda>res. status res = ''FAIL'') rs)),
           (''TIMEOUT'', length (filter (\<lambda>res. status res = ''TIMEOUT'') rs)),
           (''ERROR'', length (filter (\<lambda>res. status res = ''ERROR'') rs))]"
    by (simp add: add_counts_def zero_counts_def)
  have total: "length (filter (\<lambda>res. status res = ''PASS'') rs)
               + length (filter (\<lambda>res. status res = ''FAIL'') rs)
               + length (filter (\<lambda>res. status res = ''TIMEOUT'') rs)
               + length (filter (\<lambda>res. status res = ''ERROR'') rs) = length jobs"
    using length_by_status[OF st] len by simp
  have order: "\<exists>order. mset order = mset jobs \<and>
                 map Inr rs = map (\<lambda>(f, c). fst (run_single_test w r f c)) order"
    using eq mset_as_completed[of w jobs] by blast
  from cnt[unfolded shape] total
  have counts: "\<exists>p f t e cs.
                 count_results (zero_counts, []) rs =
                   Inr ([(''PASS'', p), (''FAIL'', f), (''TIMEOUT'', t), (''ERROR'', e)], cs) \<and>
                 p + f + t + e = length jobs"
    by blast
  from rs len order counts show ?thesis by blast
qed

theorem every_job_counted_witness:
  "0 < max_workers ex_runner \<and>
   (\<exists>rs. run_tests_parallel ex_world ex_runner ex_jobs = Inr rs \<and> length rs = length ex_jobs \<and>
     (\<exists>p f t e cs.
         count_results (zero_counts, []) rs =
           Inr ([(''PASS'', p), (''FAIL'', f), (''TIMEOUT'', t), (''ERROR'', e)], cs) \<and>
         p + f + t + e = length ex_jobs))"
proof -
  have h: "0 < max_workers ex_runner"
    by (simp add: ex_runner_def init_runner_def ex_world_def)
  from every_job_counted[OF h, of ex_world ex_jobs] h show ?thesis by blast
qed

subsection \<open>The aggregator and the order of the results\<close>

text \<open>
  Claim C6, as amended.  For every list of results whose statuses are among the four,
  any two permutations of the list give the same number of tests, the same
  per-status counts, the same per-category counts (as a map from category to counts)
  and the same durations of the fastest and of the slowest job.  Two things are left
  out.  The cumulative duration is the sum of the floats in the order of the list,
  and the addition of floats is not associative.  The textual summary lists the
  categories and the failed tests in the order of the list, and names the first of
  several equally fast or slow jobs.
\<close>

theorem statistics_order_independent:
  assumes perm: "mset rs = mset rs'"
      and st: "\<forall>res\<in>set rs. status res \<in> set statuses"
  shows "length rs = length rs' \<and>
         (\<exists>sc cs cs'.
             count_results (zero_counts, []) rs = Inr (sc, cs) \<and>
             count_results (zero_counts, []) rs' = Inr (sc, cs') \<and>
             sc = add_counts zero_counts rs \<and>
             map_of cs = category_counts rs \<and>
             map_of cs' = category_counts rs) \<and>
         (\<forall>m ms m' ms'. rs = m # ms \<and> rs' = m' # ms' \<longrightarrow>
             duration (min_by_duration m ms) = duration (min_by_duration m' ms') \<and>
             duration (max_by_duration m ms) = duration (max_by_duration m' ms'))"
proof -
  from perm have sets: "set rs = set rs'" by (rule mset_eq_setD)
  with st have st': "\<forall>res\<in>set rs'. status res \<in> set statuses" by simp
  from perm have len: "length rs = length rs'" by (rule mset_eq_length)
  have cat: "category_counts rs = category_counts rs'"
  proof
    fix c
    have "mset (filter (\<lambda>res. category res = c) rs) = mset (filter (\<lambda>res. category res = c) rs')"
      by (simp add: perm)
    then have "add_counts zero_counts (filter (\<lambda>res. category res = c) rs)
             = add_counts zero_counts (filter (\<lambda>res. category res = c) rs')"
      by (rule add_counts_mset)
    then show "category_counts rs c = category_counts rs' c"
      by (simp add: category_counts_def sets)
  qed
  from count_results_ok[OF zero_counts_keys well_formed_stats_Nil st] obtain cs where
    c1: "count_results (zero_counts, []) rs = Inr (add_counts zero_counts rs, cs)"
    and m1: "\<forall>c. map_of cs c =
              (if c \<in> category ` set rs
               then Some (add_counts (case map_of [] c of None \<Rightarrow> zero_counts | Some s \<Rightarrow> s)
                            (filter (\<lambda>res. category res = c) rs))
               else map_of [] c)"
    by blast
  from count_results_ok[OF zero_counts_keys well_formed_stats_Nil st'] obtain cs' where
    c2: "count_results (zero_counts, []) rs' = Inr (add_counts zero_counts rs', cs')"
    and m2: "\<forall>c. map_of cs' c =
              (if c \<in> category ` set rs'
               then Some (add_counts (case map_of [] c of None \<Rightarrow> zero_counts | Some s \<Rightarrow> s)
                            (filter (\<lambda>res. category res = c) rs'))
               else map_of [] c)"
    by blast
  have mc1: "map_of cs = category_counts rs"
    using m1 by (auto simp: category_counts_def fun_eq_iff)
  have mc2: "map_of cs' = category_counts rs"
    using m2 unfolding cat by (auto simp: category_counts_def fun_eq_iff)
  have counts: "\<exists>sc cs cs'.
             count_results (zero_counts, []) rs = Inr (sc, cs) \<and>
             count_results (zero_counts, []) rs' = Inr (sc, cs') \<and>
             sc = add_counts zero_counts rs \<and>
             map_of cs = category_counts rs \<and>
             map_of cs' = category_counts rs"
    using c1 c2 mc1 mc2 add_counts_mset[OF perm, of zero_counts] by auto
  have extremes: "duration (min_by_duration m ms) = duration (min_by_duration m' ms') \<and>
        duration (max_by_duration m ms) = duration (max_by_duration m' ms')"
    if "rs = m # ms \<and> rs' = m' # ms'" for m ms m' ms'
  proof -
    from that sets have "set (m # ms) = set (m' # ms')" by simp
    then show ?thesis by (simp only: duration_min_by duration_max_by)
  qed
  from len counts extremes show ?thesis by blast
qed

theorem statistics_order_independent_witness:
  "mset [ex_pass, ex_fail] = mset [ex_fail, ex_pass] \<and>
   status ex_pass \<in> set statuses \<and> status ex_fail \<in> set statuses \<and>
   length [ex_pass, ex_fail] = length [ex_fail, ex_pass] \<and>
   (\<exists>sc cs cs'.
       count_results (zero_counts, []) [ex_pass, ex_fail] = Inr (sc, cs) \<and>
       count_results (zero_counts, []) [ex_fail, ex_pass] = Inr (sc, cs') \<and>
       map_of cs = map_of cs')"
proof -
  have p: "mset [ex_pass, ex_fail] = mset [ex_fail, ex_pass]"
    by (simp add: add_mset_commute)
  have s: "\<forall>res\<in>set [ex_pass, ex_fail]. status res \<in> set statuses"
    by (simp add: ex_pass_def ex_fail_def statuses_def)
  from s have s': "status ex_pass \<in> set statuses \<and> status ex_fail \<in> set statuses" by simp
  from statistics_order_independent[OF p s] p s' show ?thesis by auto
qed

text \<open>
  Claim C6 as stated fails.  The two lists below are permutations of each other, and
  the textual summaries differ: the lines under \<^verbatim>\<open>Results by Category\<close> and under
  \<^verbatim>\<open>Failed Tests\<close> are swapped, and another job is named fastest and slowest.  (Every
  number in the two summaries is a binary fraction, so no rounding is involved.)
\<close>

theorem summary_depends_on_order:
  "mset [ex_fail, ex_timeout] = mset [ex_timeout, ex_fail] \<and>
   generate_summary_report ex_world (ex_runner\<lparr>results := [ex_fail, ex_timeout]\<rparr>) 12
     \<noteq> generate_summary_report ex_world (ex_runner\<lparr>results := [ex_timeout, ex_fail]\<rparr>) 12"
proof
  show "mset [ex_fail, ex_timeout] = mset [ex_timeout, ex_fail]"
    by (simp add: add_mset_commute)
  show "generate_summary_report ex_world (ex_runner\<lparr>results := [ex_fail, ex_timeout]\<rparr>) 12
     \<noteq> generate_summary_report ex_world (ex_runner\<lparr>results := [ex_timeout, ex_fail]\<rparr>) 12"
    by code_simp
qed

subsection \<open>Diagnostics in the summary and in the saved report\<close>

text \<open>
  Claim C7.  Let a result of the run be not \<^verbatim>\<open>PASS\<close> and carry a non-empty diagnostic
  \<open>m\<close>.  Then the summary holds, right after the line of that job under
  \<^verbatim>\<open>Failed Tests\<close>, the line \<^verbatim>\<open>Error:\<close> with the diagnostic cut to a fixed length: the
  first 100 characters followed by three dots when \<open>m\<close> is longer than 100 characters,
  \<open>m\<close> itself otherwise.  The document that is saved holds one object per result,
  and the object of that job has all six fields of the result, the diagnostic in
  full.  (The statuses of the run are among the four, as \<^verbatim>\<open>run_single_test\<close> ensures,
  and the report file can be opened and written.)
\<close>

theorem diagnostic_truncated_in_summary_full_in_report:
  assumes st: "\<forall>x\<in>set (results r). status x \<in> set statuses"
      and res: "res \<in> set (results r)" "status res \<noteq> ''PASS''"
      and msg: "error_message res = Some m" "m \<noteq> []"
      and op: "open_w_error w fs output_file = None" "write_fault w output_file = None"
  shows "(\<exists>ls pre post shown.
            summary_lines w r now = Inr ls \<and>
            generate_summary_report w r now = Inr (join_lines ls) \<and>
            shown = (if 100 < length m then take 100 m @ ''...'' else m) \<and>
            length shown \<le> 103 \<and>
            ls = pre
                 @ [''  ['' @ ljust 12 (category res) @ ''] '' @ ljust 20 (test_name res)
                      @ '' - '' @ status res,
                    ''    Error: '' @ shown]
                 @ post) \<and>
         (\<exists>summ arr.
            save_detailed_report w fs r output_file =
              Inr (JObject [(''summary'', summ), (''results'', JArray arr)]) \<and>
            length arr = length (results r) \<and>
            JObject [(''test_name'', JString (test_name res)),
                     (''category'', JString (category res)),
                     (''status'', JString (status res)),
                     (''duration'', JFloat (duration res)),
                     (''log_file'', json_optional (log_file res)),
                     (''error_message'', JString m)] \<in> set arr)"
proof
  let ?failed = "filter (\<lambda>res. status res \<noteq> ''PASS'') (results r)"
  let ?shown = "if 100 < length m then take 100 m @ ''...'' else m"
  let ?head = "''  ['' @ ljust 12 (category res) @ ''] '' @ ljust 20 (test_name res)
                      @ '' - '' @ status res"
  from res have ne: "results r \<noteq> []" by auto
  from res have mem: "res \<in> set ?failed" by simp
  then have fne: "?failed \<noteq> []" by (metis empty_iff list.set(1))
  from split_list[OF mem] obtain xs ys where xy: "?failed = xs @ res # ys" by blast
  have lines: "failed_test_lines res = [?head, ''    Error: '' @ ?shown]"
    using msg by (simp add: failed_test_lines_def)
  from summary_lines_shape[OF st ne, of w now] obtain pre0 post0 where
    sh: "summary_lines w r now =
           Inr (pre0 @ (''Failed Tests:'' # concat (map failed_test_lines ?failed) @ ['''']) @ post0)"
    using fne by auto
  define pre where "pre = pre0 @ ''Failed Tests:'' # concat (map failed_test_lines xs)"
  define post where "post = concat (map failed_test_lines ys) @ [''''] @ post0"
  define ls where "ls = pre @ [?head, ''    Error: '' @ ?shown] @ post"
  have "concat (map failed_test_lines ?failed)
          = concat (map failed_test_lines xs) @ [?head, ''    Error: '' @ ?shown]
            @ concat (map failed_test_lines ys)"
    by (simp only: xy map_append list.map concat_append concat.simps lines)
  then have 1: "summary_lines w r now = Inr ls"
    using sh by (simp add: ls_def pre_def post_def)
  have 2: "generate_summary_report w r now = Inr (join_lines ls)"
    by (simp only: generate_summary_report_def 1 sum.case)
  have 3: "length ?shown \<le> 103" by simp
  show "\<exists>ls pre post shown.
            summary_lines w r now = Inr ls \<and>
            generate_summary_report w r now = Inr (join_lines ls) \<and>
            shown = (if 100 < length m then take 100 m @ ''...'' else m) \<and>
            length shown \<le> 103 \<and>
            ls = pre @ [?head, ''    Error: '' @ shown] @ post"
    using 1 2 3 ls_def by blast
next
  have "result_json res \<in> set (map result_json (results r))"
    using res by simp
  moreover have "result_json res =
          JObject [(''test_name'', JString (test_name res)),
                     (''category'', JString (category res)),
                     (''status'', JString (status res)),
                     (''duration'', JFloat (duration res)),
                     (''log_file'', json_optional (log_file res)),
                     (''error_message'', JString m)]"
    using msg by (simp add: result_json_def json_optional_def)
  ultimately show "\<exists>summ arr.
            save_detailed_report w fs r output_file =
              Inr (JObject [(''summary'', summ), (''results'', JArray arr)]) \<and>
            length arr = length (results r) \<and>
            JObject [(''test_name'', JString (test_name res)),
                     (''category'', JString (category res)),
                     (''status'', JString (status res)),
                     (''duration'', JFloat (duration res)),
                     (''log_file'', json_optional (log_file res)),
                     (''error_message'', JString m)] \<in> set arr"
    using op by (simp add: save_detailed_report_def report_data_def)
qed

theorem diagnostic_truncated_in_summary_full_in_report_witness:
  "status ex_timeout \<in> set statuses \<and> status ex_fail \<in> set statuses \<and>
   status ex_pass \<in> set statuses \<and> status ex_error \<in> set statuses \<and>
   ex_fail \<in> set (results (ex_runner\<lparr>results := [ex_timeout, ex_fail, ex_pass, ex_error]\<rparr>)) \<and>
   status ex_fail \<noteq> ''PASS'' \<and>
   error_message ex_fail = Some ''assertion failed'' \<and>
   ''assertion failed'' \<noteq> [] \<and>
   open_w_error ex_world ex_fs [''formal'', ''verification_report.json''] = None \<and>
   write_fault ex_world [''formal'', ''verification_report.json''] = None \<and>
   (\<exists>ls. summary_lines ex_world (ex_runner\<lparr>results := [ex_timeout, ex_fail, ex_pass, ex_error]\<rparr>) 12 = Inr ls \<and>
         ''    Error: assertion failed'' \<in> set ls) \<and>
   (\<exists>summ arr.
      save_detailed_report ex_world ex_fs (ex_runner\<lparr>results := [ex_timeout, ex_fail, ex_pass, ex_error]\<rparr>)
        [''formal'', ''verification_report.json'']
        = Inr (JObject [(''summary'', summ), (''results'', JArray arr)]) \<and>
      length arr = 4)"
proof -
  let ?r = "ex_runner\<lparr>results := [ex_timeout, ex_fail, ex_pass, ex_error]\<rparr>"
  have a: "\<forall>x\<in>set (results ?r). status x \<in> set statuses"
    by (simp add: ex_timeout_def ex_fail_def ex_pass_def ex_error_def statuses_def)
  have b: "ex_fail \<in> set (results ?r)" by simp
  have c: "status ex_fail \<noteq> ''PASS''" by (simp add: ex_fail_def)
  have d: "error_message ex_fail = Some ''assertion failed''" by (simp add: ex_fail_def)
  have e: "''assertion failed'' \<noteq> []" by simp
  have f: "open_w_error ex_world ex_fs [''formal'', ''verification_report.json''] = None"
    by (simp add: open_w_error_def ex_world_def ex_fs_def parent_def)
  have g: "write_fault ex_world [''formal'', ''verification_report.json''] = None"
    by (simp add: ex_world_def)
  note inst = diagnostic_truncated_in_summary_full_in_report[OF a b c d e f g, of 12]
  from inst obtain ls pre post shown where
    ls: "summary_lines ex_world ?r 12 = Inr ls"
    and shown: "shown = (if 100 < length ''assertion failed'' then take 100 ''assertion failed'' @ ''...''
                         else ''assertion failed'')"
    and cut: "ls = pre @ [''  ['' @ ljust 12 (category ex_fail) @ ''] '' @ ljust 20 (test_name ex_fail)
                      @ '' - '' @ status ex_fail, ''    Error: '' @ shown] @ post"
    by blast
  from shown have "shown = ''assertion failed''" by simp
  with cut have line: "''    Error: assertion failed'' \<in> set ls" by simp
  from inst obtain summ arr where
    "save_detailed_report ex_world ex_fs ?r [''formal'', ''verification_report.json'']
        = Inr (JObject [(''summary'', summ), (''results'', JArray arr)])"
    "length arr = length (results ?r)"
    by blast
  then have doc: "\<exists>summ arr.
      save_detailed_report ex_world ex_fs ?r [''formal'', ''verification_report.json'']
        = Inr (JObject [(''summary'', summ), (''results'', JArray arr)]) \<and> length arr = 4"
    by simp
  from a have a': "status ex_timeout \<in> set statuses \<and> status ex_fail \<in> set statuses \<and>
                   status ex_pass \<in> set statuses \<and> status ex_error \<in> set statuses" by simp
  from a' b c d e f g ls line doc show ?thesis by blast
qed

subsection \<open>The proof-depth budget by category\<close>

text \<open>
  Claim C8.  Whatever the identifiers, the artifact of an instruction check, of a system
  check and of an integration check each carry a depth option, and the depth of the
  instruction artifact is less than the depth of the system artifact, which is less
  than the depth of the integration artifact (they are 20, 30 and 50).
\<close>

theorem proof_depth_increases_by_category:
  "\<exists>di ds dg.
      option_depth (instruction_config_content instruction) = Some di \<and>
      option_depth (system_config_content check_name) = Some ds \<and>
      option_depth (integration_isa_config check_name') = Some dg \<and>
      di < ds \<and> ds < dg \<and> di = 20 \<and> ds = 30 \<and> dg = 50"
  by (simp add: depth_instruction depth_system depth_integration)

subsection \<open>Discovery in a missing directory\<close>

text \<open>
  Claim C10, as amended.  For a directory that does not exist \<^verbatim>\<open>find_test_files\<close>
  returns the empty list.  Inside \<^verbatim>\<open>run_verification_suite\<close> a missing category directory
  is an empty category: the test files that the suite collects are those it would
  collect with the categories of missing directories left out, and the suite ends with
  the outcome of no test files (returned value False, no summary, no report) exactly
  when every selected category yields no test file.  For the invocation this carries
  over when the formal directory and its \<^verbatim>\<open>instructions\<close> directory exist and
  \<^verbatim>\<open>--generate-only\<close> is not given: \<^verbatim>\<open>main\<close> then runs the suite on the file system as it
  is, so that a missing \<^verbatim>\<open>system_checks\<close> or \<^verbatim>\<open>integration\<close> directory does not abort it.
  A missing \<^verbatim>\<open>instructions\<close> directory is not an empty category for \<^verbatim>\<open>main\<close>: it runs the
  generator first, and when the generator cannot be imported or raises, the invocation
  ends with exit code 1 and no job is run.
\<close>

theorem missing_directory_is_empty_category:
  "(\<not> path_exists fs test_dir \<longrightarrow> find_test_files fs test_dir = []) \<and>
   collect_test_files fs formal_dir (select_categories cats) =
     collect_test_files fs formal_dir
       (filter (\<lambda>(c, sub). path_exists fs (formal_dir @ [sub])) (select_categories cats)) \<and>
   ((run_verification_suite w fs r formal_dir cats =
        Inr \<lparr> success = False, final_results = results r,
              printed_summary = None, saved_report = None \<rparr>)
    = (\<forall>(c, sub)\<in>set (select_categories cats). find_test_files fs (formal_dir @ [sub]) = [])) \<and>
   (\<forall>a. parse_args w argv = Inr a \<and> path_exists fs (args_formal_dir a) \<and>
        path_exists fs (args_formal_dir a @ [''instructions'']) \<and> \<not> args_generate_only a \<longrightarrow>
        runner_main w fs argv =
          (case run_verification_suite w fs (init_runner w (args_workers a) (args_timeout a))
                  (args_formal_dir a) (args_categories a) of
             Inl e \<Rightarrow> Uncaught e
           | Inr out \<Rightarrow> Returned (if success out then 0 else 1))) \<and>
   (\<forall>a. parse_args w argv = Inr a \<and> path_exists fs (args_formal_dir a) \<and>
        \<not> path_exists fs (args_formal_dir a @ [''instructions'']) \<and>
        (import_generator w = None \<or>
         (\<exists>d e. import_generator w = Some d \<and> generator_main w d fs = Inl e)) \<longrightarrow>
        runner_main w fs argv = Returned 1 \<and> executed_jobs w fs argv = [])"
proof (intro conjI impI allI)
  assume "\<not> path_exists fs test_dir"
  then show "find_test_files fs test_dir = []" by (rule find_test_files_missing)
next
  show "collect_test_files fs formal_dir (select_categories cats) =
     collect_test_files fs formal_dir
       (filter (\<lambda>(c, sub). path_exists fs (formal_dir @ [sub])) (select_categories cats))"
    by (rule collect_test_files_present)
next
  let ?none = "Inr \<lparr> success = False, final_results = results r,
                      printed_summary = None, saved_report = None \<rparr> :: exn + suite_outcome"
  have "(run_verification_suite w fs r formal_dir cats = ?none)
        = (collect_test_files fs formal_dir (select_categories cats) = [])"
    by (auto simp: run_verification_suite_def Let_def split: sum.splits)
  then show "(run_verification_suite w fs r formal_dir cats = ?none)
    = (\<forall>(c, sub)\<in>set (select_categories cats). find_test_files fs (formal_dir @ [sub]) = [])"
    by (simp only: collect_test_files_empty)
next
  fix a
  assume h: "parse_args w argv = Inr a \<and> path_exists fs (args_formal_dir a) \<and>
             path_exists fs (args_formal_dir a @ [''instructions'']) \<and> \<not> args_generate_only a"
  then have "prepare w fs a = Inr fs" by (simp add: prepare_def)
  with h show "runner_main w fs argv =
          (case run_verification_suite w fs (init_runner w (args_workers a) (args_timeout a))
                  (args_formal_dir a) (args_categories a) of
             Inl e \<Rightarrow> Uncaught e
           | Inr out \<Rightarrow> Returned (if success out then 0 else 1))"
    by (simp add: runner_main_def main_after_parse_def)
next
  fix a
  assume h: "parse_args w argv = Inr a \<and> path_exists fs (args_formal_dir a) \<and>
        \<not> path_exists fs (args_formal_dir a @ [''instructions'']) \<and>
        (import_generator w = None \<or>
         (\<exists>d e. import_generator w = Some d \<and> generator_main w d fs = Inl e))"
  then have p: "prepare w fs a = Inl 1" by (auto simp: prepare_def)
  with h show "runner_main w fs argv = Returned 1"
    by (simp add: runner_main_def main_after_parse_def)
  from h p show "executed_jobs w fs argv = []"
    by (simp add: executed_jobs_def)
qed

theorem missing_directory_is_empty_category_witness:
  "\<not> path_exists ex_fs [''formal'', ''integration''] \<and>
   find_test_files ex_fs [''formal'', ''integration''] = [] \<and>
   collect_test_files ex_fs [''formal''] (select_categories None) = ex_jobs \<and>
   parse_args ex_world [''--categories'', ''integration'']
     = Inr (ex_args\<lparr>args_categories := Some [''integration'']\<rparr>) \<and>
   path_exists ex_fs [''formal''] \<and> path_exists ex_fs [''formal'', ''instructions''] \<and>
   runner_main ex_world ex_fs [''--categories'', ''integration''] = Returned 1 \<and>
   parse_args ex_world_no_generator [] = Inr ex_args \<and>
   path_exists ex_fs_system_only [''formal''] \<and>
   \<not> path_exists ex_fs_system_only [''formal'', ''instructions''] \<and>
   import_generator ex_world_no_generator = None \<and>
   runner_main ex_world_no_generator ex_fs_system_only [] = Returned 1"
proof -
  let ?a = "ex_args\<lparr>args_categories := Some [''integration'']\<rparr>"
  have a: "\<not> path_exists ex_fs [''formal'', ''integration'']"
    by (simp add: path_exists_def ex_fs_def)
  have b: "collect_test_files ex_fs [''formal'']
             (filter (\<lambda>(c, sub). path_exists ex_fs ([''formal''] @ [sub])) (select_categories None))
           = ex_jobs"
    by code_simp
  have pa: "parse_args ex_world [''--categories'', ''integration''] = Inr ?a"
    by (simp add: ex_parse_args_world ex_parse_args_def)
  have ex: "path_exists ex_fs [''formal'']" "path_exists ex_fs [''formal'', ''instructions'']"
    by (simp_all add: path_exists_def ex_fs_def)
  have ex': "path_exists ex_fs (args_formal_dir ?a)"
            "path_exists ex_fs (args_formal_dir ?a @ [''instructions''])"
            "\<not> args_generate_only ?a"
    using ex by (simp_all add: ex_args_def)
  have none: "collect_test_files ex_fs (args_formal_dir ?a) (select_categories (args_categories ?a)) = []"
    by code_simp
  have suite: "run_verification_suite ex_world ex_fs
                 (init_runner ex_world (args_workers ?a) (args_timeout ?a))
                 (args_formal_dir ?a) (args_categories ?a)
               = Inr \<lparr> success = False, final_results = [],
                       printed_summary = None, saved_report = None \<rparr>"
    using none by (simp add: run_verification_suite_def)
  have pn: "parse_args ex_world_no_generator [] = Inr ex_args"
    by (simp add: ex_parse_args_world ex_parse_args_def)
  have so: "path_exists ex_fs_system_only [''formal'']"
           "\<not> path_exists ex_fs_system_only [''formal'', ''instructions'']"
    by (simp_all add: path_exists_def ex_fs_system_only_def)
  have so': "path_exists ex_fs_system_only (args_formal_dir ex_args)"
            "\<not> path_exists ex_fs_system_only (args_formal_dir ex_args @ [''instructions''])"
    using so by (simp_all add: ex_args_def)
  have ng: "import_generator ex_world_no_generator = None"
    by (simp add: ex_world_no_generator_def)
  note t1 = missing_directory_is_empty_category[of ex_fs "[''formal'', ''integration'']"
              "[''formal'']" None ex_world ex_runner "[''--categories'', ''integration'']"]
  note t2 = missing_directory_is_empty_category[of ex_fs_system_only "[''formal'']"
              "[''formal'']" None ex_world_no_generator ex_runner "[]"]
  from t1 a have 1: "find_test_files ex_fs [''formal'', ''integration''] = []" by blast
  from t1 b have 2: "collect_test_files ex_fs [''formal''] (select_categories None) = ex_jobs"
    by simp
  from t1 pa ex' have "runner_main ex_world ex_fs [''--categories'', ''integration''] =
          (case run_verification_suite ex_world ex_fs
                  (init_runner ex_world (args_workers ?a) (args_timeout ?a))
                  (args_formal_dir ?a) (args_categories ?a) of
             Inl e \<Rightarrow> Uncaught e
           | Inr out \<Rightarrow> Returned (if success out then 0 else 1))"
    by blast
  then have 3: "runner_main ex_world ex_fs [''--categories'', ''integration''] = Returned 1"
    unfolding suite by simp
  from t2 pn so' ng have 4: "runner_main ex_world_no_generator ex_fs_system_only [] = Returned 1"
    by blast
  from a 1 2 pa ex 3 pn so ng 4 show ?thesis by blast
qed

text \<open>
  Claim C10 as stated fails for the invocation.  The formal directory below has a
  system artifact and no \<^verbatim>\<open>instructions\<close> directory, and the generator cannot be
  imported.  Discovery finds the system artifact, so not every selected category is
  empty; yet the invocation ends with exit code 1 without running any job, with all
  categories selected and with the system category alone.
\<close>

theorem missing_instructions_directory_aborts:
  "\<not> path_exists ex_fs_system_only [''formal'', ''instructions''] \<and>
   find_test_files ex_fs_system_only [''formal'', ''system_checks'']
     = [[''formal'', ''system_checks'', ''verify_reg.sby'']] \<and>
   collect_test_files ex_fs_system_only [''formal''] (select_categories None)
     = [([''formal'', ''system_checks'', ''verify_reg.sby''], ''system'')] \<and>
   runner_main ex_world_no_generator ex_fs_system_only [] = Returned 1 \<and>
   executed_jobs ex_world_no_generator ex_fs_system_only [] = [] \<and>
   collect_test_files ex_fs_system_only [''formal''] (select_categories (Some [''system'']))
     = [([''formal'', ''system_checks'', ''verify_reg.sby''], ''system'')] \<and>
   runner_main ex_world_no_generator ex_fs_system_only [''--categories'', ''system''] = Returned 1 \<and>
   executed_jobs ex_world_no_generator ex_fs_system_only [''--categories'', ''system''] = []"
proof -
  have so: "path_exists ex_fs_system_only [''formal'']"
           "\<not> path_exists ex_fs_system_only [''formal'', ''instructions'']"
    by (simp_all add: path_exists_def ex_fs_system_only_def)
  have f: "find_test_files ex_fs_system_only [''formal'', ''system_checks'']
             = [[''formal'', ''system_checks'', ''verify_reg.sby'']]"
    by code_simp
  have c1: "collect_test_files ex_fs_system_only [''formal''] (select_categories None)
              = [([''formal'', ''system_checks'', ''verify_reg.sby''], ''system'')]"
    by code_simp
  have c2: "collect_test_files ex_fs_system_only [''formal''] (select_categories (Some [''system'']))
              = [([''formal'', ''system_checks'', ''verify_reg.sby''], ''system'')]"
    by code_simp
  have a1: "parse_args ex_world_no_generator [] = Inr ex_args"
    and a2: "parse_args ex_world_no_generator [''--categories'', ''system'']
               = Inr (ex_args\<lparr>args_categories := Some [''system'']\<rparr>)"
    by (simp_all add: ex_parse_args_world ex_parse_args_def)
  have ng: "import_generator ex_world_no_generator = None"
    by (simp add: ex_world_no_generator_def)
  have p1: "prepare ex_world_no_generator ex_fs_system_only ex_args = Inl 1"
    by (simp add: prepare_def ex_args_def so ng)
  have p2: "prepare ex_world_no_generator ex_fs_system_only
              (ex_args\<lparr>args_categories := Some [''system'']\<rparr>) = Inl 1"
    by (simp add: prepare_def ex_args_def so ng)
  have r: "runner_main ex_world_no_generator ex_fs_system_only [] = Returned 1"
          "executed_jobs ex_world_no_generator ex_fs_system_only [] = []"
          "runner_main ex_world_no_generator ex_fs_system_only [''--categories'', ''system'']
             = Returned 1"
          "executed_jobs ex_world_no_generator ex_fs_system_only [''--categories'', ''system''] = []"
    by (simp_all add: runner_main_def main_after_parse_def executed_jobs_def a1 a2 p1 p2)
  from so(2) f c1 c2 r show ?thesis by blast
qed

subsection \<open>Generation is idempotent\<close>

text \<open>
  Claim C5.  Let a run of the generator return (that is, the three directories could
  be created).  Then a second run on the file system it left returns too and leaves
  that file system as it is: every artifact is byte-identical.  And for every artifact
  of a catalog entry that can be opened for writing, the file holds what the run has
  written to it (the rendered content of the entry, when the writing does not fail),
  and after deleting that file a run restores it with the same content, keeps the
  content of every other path and creates no directory.
\<close>

theorem generation_idempotent:
  assumes "generator_main_on ci cs cg w sd fs = Inr g"
  shows "(\<exists>g'. generator_main_on ci cs cg w sd (gen_fs g) = Inr g' \<and> gen_fs g' = gen_fs g) \<and>
         (\<forall>(p, s)\<in>set (artifacts ci cs cg w sd (gen_fs g)).
            map_of (files (gen_fs g)) p = Some s \<and>
            (\<exists>g''. generator_main_on ci cs cg w sd
                      ((gen_fs g)\<lparr>files := AList.delete p (files (gen_fs g))\<rparr>) = Inr g'' \<and>
                   map_of (files (gen_fs g'')) p = Some s \<and>
                   (\<forall>q. map_of (files (gen_fs g'')) q = map_of (files (gen_fs g)) q) \<and>
                   dirs (gen_fs g'') = dirs (gen_fs g)))"
proof -
  from generator_main_on_cases[OF assms] obtain fs3 where
    md: "make_directories w sd fs = Inr fs3"
    and F: "gen_fs g = fs3\<lparr>files := generated_files ci cs cg w sd fs3\<rparr>"
    by blast
  let ?F = "gen_fs g"
  have dirsF: "dirs ?F = dirs fs3" by (simp add: F)
  have artF: "artifacts ci cs cg w sd ?F = artifacts ci cs cg w sd fs3"
    by (rule artifacts_dirs) (rule dirsF)
  have in_files: "map_of (files ?F) p = Some s" if "(p, s) \<in> set (artifacts ci cs cg w sd ?F)" for p s
  proof -
    from that have "map_of (artifacts ci cs cg w sd fs3) p = Some s"
      by (simp add: artF artifacts_map_of)
    then show ?thesis by (simp add: F generated_files_map_of)
  qed
  have mk: "make_directories w sd fs' = Inr fs'" if "dirs fs' = dirs fs3" for fs'
    using make_directories_Inr(2-4)[OF md] that by (intro make_directories_existing) simp_all
  have first: "\<exists>g'. generator_main_on ci cs cg w sd ?F = Inr g' \<and> gen_fs g' = ?F"
  proof -
    have "generated_files ci cs cg w sd ?F = files ?F"
      by (rule generated_files_fixed) (rule in_files)
    with generator_main_on_Inr[OF mk[OF dirsF], of ci cs cg] show ?thesis by auto
  qed
  have second: "map_of (files ?F) p = Some s \<and>
            (\<exists>g''. generator_main_on ci cs cg w sd (?F\<lparr>files := AList.delete p (files ?F)\<rparr>) = Inr g'' \<and>
                   map_of (files (gen_fs g'')) p = Some s \<and>
                   (\<forall>q. map_of (files (gen_fs g'')) q = map_of (files ?F) q) \<and>
                   dirs (gen_fs g'') = dirs ?F)"
    if ps: "(p, s) \<in> set (artifacts ci cs cg w sd ?F)" for p s
  proof -
    let ?D = "?F\<lparr>files := AList.delete p (files ?F)\<rparr>"
    have dirsD: "dirs ?D = dirs fs3" by (simp add: F)
    have artD: "artifacts ci cs cg w sd ?D = artifacts ci cs cg w sd ?F"
      by (rule artifacts_dirs) simp
    from generator_main_on_Inr[OF mk[OF dirsD], of ci cs cg] obtain tail where
      g'': "generator_main_on ci cs cg w sd ?D =
              Inr \<lparr> gen_returned = True,
                    gen_fs = ?D\<lparr>files := generated_files ci cs cg w sd ?D\<rparr>,
                    gen_printed = progress_lines ci cs cg w sd ?D @ tail \<rparr>"
      by blast
    have same: "map_of (generated_files ci cs cg w sd ?D) q = map_of (files ?F) q" for q
    proof (cases "map_of (artifacts ci cs cg w sd ?F) q")
      case None
      with ps have "q \<noteq> p" by (auto simp flip: artifacts_map_of)
      with None show ?thesis
        by (simp add: generated_files_map_of artD AList.delete_conv')
    next
      case (Some t)
      then have "(q, t) \<in> set (artifacts ci cs cg w sd ?F)" by (simp add: artifacts_map_of)
      from in_files[OF this] Some show ?thesis
        by (simp add: generated_files_map_of artD)
    qed
    from g'' same in_files[OF ps] show ?thesis by auto
  qed
  from first second show ?thesis by blast
qed

theorem generation_idempotent_witness:
  "\<exists>g. generator_main_on RV32I_INSTRUCTIONS SYSTEM_CHECKS INTEGRATION_CHECKS
          ex_world [''formal''] ex_fs = Inr g \<and>
       (\<exists>g'. generator_main_on RV32I_INSTRUCTIONS SYSTEM_CHECKS INTEGRATION_CHECKS
          ex_world [''formal''] (gen_fs g) = Inr g' \<and> gen_fs g' = gen_fs g) \<and>
       map_of (files (gen_fs g)) [''formal'', ''instructions'', ''verify_add.sby'']
         = Some (instruction_config_content ''add'') \<and>
       (\<exists>g''. generator_main_on RV32I_INSTRUCTIONS SYSTEM_CHECKS INTEGRATION_CHECKS
                 ex_world [''formal'']
                 ((gen_fs g)\<lparr>files := AList.delete [''formal'', ''instructions'', ''verify_add.sby'']
                                        (files (gen_fs g))\<rparr>) = Inr g'' \<and>
              map_of (files (gen_fs g'')) [''formal'', ''instructions'', ''verify_add.sby'']
                = Some (instruction_config_content ''add''))"
proof -
  let ?fs3 = "ex_fs\<lparr>dirs := dirs ex_fs @ [[''formal'', ''integration'']]\<rparr>"
  from generator_main_on_Inr[OF ex_make_directories(1),
         of RV32I_INSTRUCTIONS SYSTEM_CHECKS INTEGRATION_CHECKS]
  obtain g where
    g: "generator_main_on RV32I_INSTRUCTIONS SYSTEM_CHECKS INTEGRATION_CHECKS
          ex_world [''formal''] ex_fs = Inr g"
    and F: "gen_fs g = ?fs3\<lparr>files := generated_files RV32I_INSTRUCTIONS SYSTEM_CHECKS
                                       INTEGRATION_CHECKS ex_world [''formal''] ?fs3\<rparr>"
    by force
  have d: "dirs (gen_fs g) = dirs ex_fs @ [[''formal'', ''integration'']]"
    by (simp add: F)
  note inst = generation_idempotent[OF g]
  from inst have a: "\<exists>g'. generator_main_on RV32I_INSTRUCTIONS SYSTEM_CHECKS INTEGRATION_CHECKS
          ex_world [''formal''] (gen_fs g) = Inr g' \<and> gen_fs g' = gen_fs g"
    by blast
  from inst ex_add_artifact[OF d]
  have b: "map_of (files (gen_fs g)) [''formal'', ''instructions'', ''verify_add.sby'']
         = Some (instruction_config_content ''add'') \<and>
       (\<exists>g''. generator_main_on RV32I_INSTRUCTIONS SYSTEM_CHECKS INTEGRATION_CHECKS
                 ex_world [''formal'']
                 ((gen_fs g)\<lparr>files := AList.delete [''formal'', ''instructions'', ''verify_add.sby'']
                                        (files (gen_fs g))\<rparr>) = Inr g'' \<and>
              map_of (files (gen_fs g'')) [''formal'', ''instructions'', ''verify_add.sby'']
                = Some (instruction_config_content ''add''))"
    by fast
  from g a b show ?thesis by blast
qed

subsection \<open>A failing entry does not stop generation\<close>

text \<open>
  Claim C4, as amended.  For every catalog, when the three output directories can be
  created, the generation call returns \<^verbatim>\<open>True\<close>.  A failure to write the artifact of one
  entry is caught for that entry and does not abort the remaining entries: the
  console holds one line per catalog entry, \<^verbatim>\<open>[PASS]\<close> or \<^verbatim>\<open>[ERROR]\<close> with the text of the
  exception.  Every entry whose artifact can be opened for writing has its artifact
  written: the file holds the rendered content of the entry or, when the writing
  failed after the opening, the part of it that had reached the file.  Every path
  that is not the artifact of such an entry keeps the content it had.  The per-entry
  outcome is on the console only.
\<close>

theorem failed_entry_does_not_stop_generation:
  assumes md: "make_directories w sd fs = Inr fs3"
  shows "\<exists>g tail.
           generator_main_on ci cs cg w sd fs = Inr g \<and>
           gen_returned g = True \<and>
           gen_printed g = progress_lines ci cs cg w sd fs3 @ tail \<and>
           (\<forall>i\<in>fst ` set ci.
              open_w_error w fs3 (sd @ [''instructions'', artifact_name i]) = None \<longrightarrow>
              map_of (files (gen_fs g)) (sd @ [''instructions'', artifact_name i])
                = Some (on_disk w (sd @ [''instructions'', artifact_name i]) (instruction_config_content i))) \<and>
           (\<forall>i\<in>fst ` set cs.
              open_w_error w fs3 (sd @ [''system_checks'', artifact_name i]) = None \<longrightarrow>
              map_of (files (gen_fs g)) (sd @ [''system_checks'', artifact_name i])
                = Some (on_disk w (sd @ [''system_checks'', artifact_name i]) (system_config_content i))) \<and>
           (\<forall>i\<in>fst ` set cg.
              open_w_error w fs3 (sd @ [''integration'', artifact_name i]) = None \<longrightarrow>
              map_of (files (gen_fs g)) (sd @ [''integration'', artifact_name i])
                = Some (on_disk w (sd @ [''integration'', artifact_name i]) (integration_isa_config i))) \<and>
           (\<forall>p. p \<notin> fst ` set (artifacts ci cs cg w sd fs3) \<longrightarrow>
              map_of (files (gen_fs g)) p = map_of (files fs) p)"
proof -
  from generator_main_on_Inr[OF md, of ci cs cg] obtain tail where
    g: "generator_main_on ci cs cg w sd fs =
           Inr \<lparr> gen_returned = True,
                 gen_fs = fs3\<lparr>files := generated_files ci cs cg w sd fs3\<rparr>,
                 gen_printed = progress_lines ci cs cg w sd fs3 @ tail \<rparr>"
    by blast
  let ?g = "\<lparr> gen_returned = True,
                 gen_fs = fs3\<lparr>files := generated_files ci cs cg w sd fs3\<rparr>,
                 gen_printed = progress_lines ci cs cg w sd fs3 @ tail \<rparr>"
  have written: "map_of (files (gen_fs ?g)) p = Some s"
    if "(p, s) \<in> set (artifacts ci cs cg w sd fs3)" for p s
    using that by (simp add: generated_files_map_of flip: artifacts_map_of)
  have i1: "map_of (files (gen_fs ?g)) (sd @ [''instructions'', artifact_name i])
                = Some (on_disk w (sd @ [''instructions'', artifact_name i]) (instruction_config_content i))"
    if "i \<in> fst ` set ci" "open_w_error w fs3 (sd @ [''instructions'', artifact_name i]) = None" for i
  proof (rule written)
    from that have "((sd @ [''instructions'']) @ [artifact_name i],
             stored w (sd @ [''instructions'']) instruction_config_content i)
            \<in> set (artifacts_in w fs3 (stored w (sd @ [''instructions'']) instruction_config_content)
                      (sd @ [''instructions'']) ci)"
      unfolding artifacts_in_member by auto
    then show "(sd @ [''instructions'', artifact_name i],
                on_disk w (sd @ [''instructions'', artifact_name i]) (instruction_config_content i))
            \<in> set (artifacts ci cs cg w sd fs3)"
      by (simp add: artifacts_def stored_def)
  qed
  have i2: "map_of (files (gen_fs ?g)) (sd @ [''system_checks'', artifact_name i])
                = Some (on_disk w (sd @ [''system_checks'', artifact_name i]) (system_config_content i))"
    if "i \<in> fst ` set cs" "open_w_error w fs3 (sd @ [''system_checks'', artifact_name i]) = None" for i
  proof (rule written)
    from that have "((sd @ [''system_checks'']) @ [artifact_name i],
             stored w (sd @ [''system_checks'']) system_config_content i)
            \<in> set (artifacts_in w fs3 (stored w (sd @ [''system_checks'']) system_config_content)
                      (sd @ [''system_checks'']) cs)"
      unfolding artifacts_in_member by auto
    then show "(sd @ [''system_checks'', artifact_name i],
                on_disk w (sd @ [''system_checks'', artifact_name i]) (system_config_content i))
            \<in> set (artifacts ci cs cg w sd fs3)"
      by (simp add: artifacts_def stored_def)
  qed
  have i3: "map_of (files (gen_fs ?g)) (sd @ [''integration'', artifact_name i])
                = Some (on_disk w (sd @ [''integration'', artifact_name i]) (integration_isa_config i))"
    if "i \<in> fst ` set cg" "open_w_error w fs3 (sd @ [''integration'', artifact_name i]) = None" for i
  proof (rule written)
    from that have "((sd @ [''integration'']) @ [artifact_name i],
             stored w (sd @ [''integration'']) integration_isa_config i)
            \<in> set (artifacts_in w fs3 (stored w (sd @ [''integration'']) integration_isa_config)
                      (sd @ [''integration'']) cg)"
      unfolding artifacts_in_member by auto
    then show "(sd @ [''integration'', artifact_name i],
                on_disk w (sd @ [''integration'', artifact_name i]) (integration_isa_config i))
            \<in> set (artifacts ci cs cg w sd fs3)"
      by (simp add: artifacts_def stored_def)
  qed
  have other: "map_of (files (gen_fs ?g)) p = map_of (files fs) p"
    if "p \<notin> fst ` set (artifacts ci cs cg w sd fs3)" for p
  proof -
    from that have "map_of (artifacts ci cs cg w sd fs3) p = None"
      by (simp add: map_of_eq_None_iff)
    then show ?thesis
      by (simp add: generated_files_map_of make_directories_Inr(1)[OF md])
  qed
  show ?thesis
    apply (rule exI[of _ ?g], rule exI[of _ tail])
    apply (intro conjI ballI impI allI)
    apply (rule g)
    apply simp
    apply simp
    apply (erule (1) i1)
    apply (erule (1) i2)
    apply (erule (1) i3)
    apply (erule other)
    done
qed

theorem failed_entry_does_not_stop_generation_witness:
  "make_directories ex_world_denied [''formal''] ex_fs
     = Inr (ex_fs\<lparr>dirs := dirs ex_fs @ [[''formal'', ''integration'']]\<rparr>) \<and>
   open_w_error ex_world_denied (ex_fs\<lparr>dirs := dirs ex_fs @ [[''formal'', ''integration'']]\<rparr>)
     [''formal'', ''instructions'', ''verify_add.sby''] = Some (Exn OSError ''Permission denied'') \<and>
   open_w_error ex_world_denied (ex_fs\<lparr>dirs := dirs ex_fs @ [[''formal'', ''integration'']]\<rparr>)
     [''formal'', ''instructions'', ''verify_sub.sby''] = None \<and>
   open_w_error ex_world_denied (ex_fs\<lparr>dirs := dirs ex_fs @ [[''formal'', ''integration'']]\<rparr>)
     [''formal'', ''instructions'', ''verify_xor.sby''] = None \<and>
   (\<exists>g. generator_main_on RV32I_INSTRUCTIONS SYSTEM_CHECKS INTEGRATION_CHECKS
           ex_world_denied [''formal''] ex_fs = Inr g \<and>
        gen_returned g = True \<and>
        map_of (files (gen_fs g)) [''formal'', ''instructions'', ''verify_add.sby''] = Some '''' \<and>
        map_of (files (gen_fs g)) [''formal'', ''instructions'', ''verify_sub.sby'']
          = Some (take 7 (instruction_config_content ''sub'')) \<and>
        map_of (files (gen_fs g)) [''formal'', ''instructions'', ''verify_xor.sby'']
          = Some (instruction_config_content ''xor''))"
proof -
  let ?fs3 = "ex_fs\<lparr>dirs := dirs ex_fs @ [[''formal'', ''integration'']]\<rparr>"
  let ?add = "[''formal'', ''instructions'', ''verify_add.sby'']"
  have d: "dirs ?fs3 = dirs ex_fs @ [[''formal'', ''integration'']]" by simp
  have sub: "''sub'' \<in> fst ` set RV32I_INSTRUCTIONS" and xor: "''xor'' \<in> fst ` set RV32I_INSTRUCTIONS"
    by (simp_all add: RV32I_INSTRUCTIONS_def)
  have name: "[''formal''] @ [''instructions'', artifact_name ''sub'']
                = [''formal'', ''instructions'', ''verify_sub.sby'']"
             "[''formal''] @ [''instructions'', artifact_name ''xor'']
                = [''formal'', ''instructions'', ''verify_xor.sby'']"
    by (simp_all add: artifact_name_def)
  have open_xor: "open_w_error ex_world_denied ?fs3 [''formal'', ''instructions'', ''verify_xor.sby'']
                    = None"
    by (simp add: open_w_error_def ex_fs_def ex_world_def ex_world_denied_def parent_def)
  have disk: "on_disk ex_world_denied [''formal'', ''instructions'', ''verify_sub.sby''] s = take 7 s"
             "on_disk ex_world_denied [''formal'', ''instructions'', ''verify_xor.sby''] s = s" for s
    by (simp_all add: on_disk_def ex_world_def ex_world_denied_def)
  have no: "?add \<notin> fst ` set (artifacts RV32I_INSTRUCTIONS SYSTEM_CHECKS INTEGRATION_CHECKS
                                  ex_world_denied [''formal''] ?fs3)"
  proof
    assume "?add \<in> fst ` set (artifacts RV32I_INSTRUCTIONS SYSTEM_CHECKS INTEGRATION_CHECKS
                                  ex_world_denied [''formal''] ?fs3)"
    then obtain s where "(?add, s) \<in> set (artifacts RV32I_INSTRUCTIONS SYSTEM_CHECKS
                                  INTEGRATION_CHECKS ex_world_denied [''formal''] ?fs3)"
      by force
    then have "open_w_error ex_world_denied ?fs3 ?add = None"
      by (auto simp: artifacts_def artifacts_in_member)
    with ex_open_add(2)[OF d] show False by simp
  qed
  have old: "map_of (files ex_fs) ?add = Some ''''"
    by (simp add: ex_fs_def)
  from failed_entry_does_not_stop_generation[OF ex_make_directories(2),
         of RV32I_INSTRUCTIONS SYSTEM_CHECKS INTEGRATION_CHECKS]
  obtain g where
    g: "generator_main_on RV32I_INSTRUCTIONS SYSTEM_CHECKS INTEGRATION_CHECKS
           ex_world_denied [''formal''] ex_fs = Inr g" "gen_returned g = True"
    and w: "\<forall>i\<in>fst ` set RV32I_INSTRUCTIONS.
              open_w_error ex_world_denied ?fs3 ([''formal''] @ [''instructions'', artifact_name i]) = None \<longrightarrow>
              map_of (files (gen_fs g)) ([''formal''] @ [''instructions'', artifact_name i])
                = Some (on_disk ex_world_denied ([''formal''] @ [''instructions'', artifact_name i])
                          (instruction_config_content i))"
    and o: "\<forall>p. p \<notin> fst ` set (artifacts RV32I_INSTRUCTIONS SYSTEM_CHECKS INTEGRATION_CHECKS
                                   ex_world_denied [''formal''] ?fs3) \<longrightarrow>
                map_of (files (gen_fs g)) p = map_of (files ex_fs) p"
    by blast
  from w sub have "open_w_error ex_world_denied ?fs3 ([''formal''] @ [''instructions'', artifact_name ''sub'']) = None \<longrightarrow>
              map_of (files (gen_fs g)) ([''formal''] @ [''instructions'', artifact_name ''sub''])
                = Some (on_disk ex_world_denied ([''formal''] @ [''instructions'', artifact_name ''sub''])
                          (instruction_config_content ''sub''))"
    by blast
  then have s: "map_of (files (gen_fs g)) [''formal'', ''instructions'', ''verify_sub.sby'']
          = Some (take 7 (instruction_config_content ''sub''))"
    unfolding name disk using ex_open_add(3)[OF d] by blast
  from w xor have "open_w_error ex_world_denied ?fs3 ([''formal''] @ [''instructions'', artifact_name ''xor'']) = None \<longrightarrow>
              map_of (files (gen_fs g)) ([''formal''] @ [''instructions'', artifact_name ''xor''])
                = Some (on_disk ex_world_denied ([''formal''] @ [''instructions'', artifact_name ''xor''])
                          (instruction_config_content ''xor''))"
    by blast
  then have x: "map_of (files (gen_fs g)) [''formal'', ''instructions'', ''verify_xor.sby'']
          = Some (instruction_config_content ''xor'')"
    unfolding name disk using open_xor by blast
  from o no old have a: "map_of (files (gen_fs g)) ?add = Some ''''"
    by simp
  from g a s x ex_make_directories(2) ex_open_add(2)[OF d] ex_open_add(3)[OF d] open_xor
  show ?thesis by blast
qed

text \<open>
  Claim C4 as stated fails in its last part: the call returns no per-entry list.  In
  the world where the artifact of \<^verbatim>\<open>add\<close> cannot be written and in the world where
  every artifact can, the generator returns the same value \<^verbatim>\<open>True\<close>; in the first the
  stale file of \<^verbatim>\<open>add\<close> is still there, in the second it holds the rendered content.
\<close>

theorem generation_returns_no_per_entry_list:
  "map_sum id gen_returned (generator_main ex_world_denied [''formal''] ex_fs) = Inr True \<and>
   map_sum id gen_returned (generator_main ex_world [''formal''] ex_fs) = Inr True \<and>
   map_sum id (\<lambda>g. map_of (files (gen_fs g)) [''formal'', ''instructions'', ''verify_add.sby''])
     (generator_main ex_world_denied [''formal''] ex_fs) = Inr (Some '''') \<and>
   map_sum id (\<lambda>g. map_of (files (gen_fs g)) [''formal'', ''instructions'', ''verify_add.sby''])
     (generator_main ex_world [''formal''] ex_fs) = Inr (Some (instruction_config_content ''add''))"
proof -
  let ?fs3 = "ex_fs\<lparr>dirs := dirs ex_fs @ [[''formal'', ''integration'']]\<rparr>"
  let ?add = "[''formal'', ''instructions'', ''verify_add.sby'']"
  have d: "dirs ?fs3 = dirs ex_fs @ [[''formal'', ''integration'']]" by simp
  from generator_main_on_Inr[OF ex_make_directories(2),
         of RV32I_INSTRUCTIONS SYSTEM_CHECKS INTEGRATION_CHECKS]
  obtain tail where
    g: "generator_main ex_world_denied [''formal''] ex_fs =
          Inr \<lparr> gen_returned = True,
                gen_fs = ?fs3\<lparr>files := generated_files RV32I_INSTRUCTIONS SYSTEM_CHECKS
                                         INTEGRATION_CHECKS ex_world_denied [''formal''] ?fs3\<rparr>,
                gen_printed = progress_lines RV32I_INSTRUCTIONS SYSTEM_CHECKS INTEGRATION_CHECKS
                                ex_world_denied [''formal''] ?fs3 @ tail \<rparr>"
    unfolding generator_main_def by blast
  from generator_main_on_Inr[OF ex_make_directories(1),
         of RV32I_INSTRUCTIONS SYSTEM_CHECKS INTEGRATION_CHECKS]
  obtain tail' where
    g': "generator_main ex_world [''formal''] ex_fs =
          Inr \<lparr> gen_returned = True,
                gen_fs = ?fs3\<lparr>files := generated_files RV32I_INSTRUCTIONS SYSTEM_CHECKS
                                         INTEGRATION_CHECKS ex_world [''formal''] ?fs3\<rparr>,
                gen_printed = progress_lines RV32I_INSTRUCTIONS SYSTEM_CHECKS INTEGRATION_CHECKS
                                ex_world [''formal''] ?fs3 @ tail' \<rparr>"
    unfolding generator_main_def by blast
  have no: "?add \<notin> fst ` set (artifacts RV32I_INSTRUCTIONS SYSTEM_CHECKS INTEGRATION_CHECKS
                                  ex_world_denied [''formal''] ?fs3)"
  proof
    assume "?add \<in> fst ` set (artifacts RV32I_INSTRUCTIONS SYSTEM_CHECKS INTEGRATION_CHECKS
                                  ex_world_denied [''formal''] ?fs3)"
    then obtain s where "(?add, s) \<in> set (artifacts RV32I_INSTRUCTIONS SYSTEM_CHECKS
                                  INTEGRATION_CHECKS ex_world_denied [''formal''] ?fs3)"
      by force
    then have "open_w_error ex_world_denied ?fs3 ?add = None"
      by (auto simp: artifacts_def artifacts_in_member)
    with ex_open_add(2)[OF d] show False by simp
  qed
  then have "map_of (artifacts RV32I_INSTRUCTIONS SYSTEM_CHECKS INTEGRATION_CHECKS
                                  ex_world_denied [''formal''] ?fs3) ?add = None"
    by (simp add: map_of_eq_None_iff)
  then have stale: "map_of (generated_files RV32I_INSTRUCTIONS SYSTEM_CHECKS INTEGRATION_CHECKS
                              ex_world_denied [''formal''] ?fs3) ?add = Some ''''"
    by (simp add: generated_files_map_of) (simp add: ex_fs_def)
  have "map_of (artifacts RV32I_INSTRUCTIONS SYSTEM_CHECKS INTEGRATION_CHECKS
                                  ex_world [''formal''] ?fs3) ?add
          = Some (instruction_config_content ''add'')"
    using ex_add_artifact[OF d] by (simp add: artifacts_map_of)
  then have fresh: "map_of (generated_files RV32I_INSTRUCTIONS SYSTEM_CHECKS INTEGRATION_CHECKS
                              ex_world [''formal''] ?fs3) ?add
                      = Some (instruction_config_content ''add'')"
    by (simp add: generated_files_map_of)
  show ?thesis
    by (simp add: g g' stale fresh)
qed

subsection \<open>The exit code of the runner\<close>

text \<open>
  Claim C1, as amended.  When \<^verbatim>\<open>argparse\<close> ends the process itself (a command line that
  it rejects, or \<^verbatim>\<open>--help\<close>), the exit code is the status it chose and no job is run.
  When it returns a namespace, the exit code is 0 or 1, and:
  \<^item> with \<^verbatim>\<open>--generate-only\<close> no job is run, and the exit code is 0 exactly when the
    formal directory exists, the generator can be imported and it returns;
  \<^item> without \<^verbatim>\<open>--generate-only\<close> the exit code is 0 exactly when \<^verbatim>\<open>main\<close> reached the
    suite, the suite ran to its end (it returned, with the summary printed and the
    report saved), at least one job was executed (as many jobs as test files were
    discovered) and the status of every executed job is \<^verbatim>\<open>PASS\<close>;
  \<^item> when \<^verbatim>\<open>main\<close> reaches the suite and no test file is discovered across the selected
    categories, the exit code is 1 and the suite produces neither a summary nor a
    report.
\<close>

theorem exit_code_characterisation:
  "(\<forall>code. parse_args w argv = Inl code \<longrightarrow>
      exit_code (runner_main w fs argv) = code \<and> executed_jobs w fs argv = []) \<and>
   (\<forall>a. parse_args w argv = Inr a \<longrightarrow>
      exit_code (runner_main w fs argv) \<in> {0, 1} \<and>
      (args_generate_only a \<longrightarrow>
         executed_jobs w fs argv = [] \<and>
         (exit_code (runner_main w fs argv) = 0) =
           (path_exists fs (args_formal_dir a) \<and>
            (\<exists>d g. import_generator w = Some d \<and> generator_main w d fs = Inr g))) \<and>
      (\<not> args_generate_only a \<longrightarrow>
         (exit_code (runner_main w fs argv) = 0) =
           (\<exists>fs' out.
              prepare w fs a = Inr fs' \<and>
              run_verification_suite w fs' (init_runner w (args_workers a) (args_timeout a))
                (args_formal_dir a) (args_categories a) = Inr out \<and>
              printed_summary out \<noteq> None \<and> saved_report out \<noteq> None \<and>
              final_results out = executed_jobs w fs argv \<and>
              length (executed_jobs w fs argv)
                = length (collect_test_files fs' (args_formal_dir a)
                            (select_categories (args_categories a))) \<and>
              executed_jobs w fs argv \<noteq> [] \<and>
              (\<forall>res\<in>set (executed_jobs w fs argv). status res = ''PASS''))) \<and>
      (\<forall>fs'. prepare w fs a = Inr fs' \<and>
             collect_test_files fs' (args_formal_dir a) (select_categories (args_categories a)) = [] \<longrightarrow>
             exit_code (runner_main w fs argv) = 1 \<and>
             run_verification_suite w fs' (init_runner w (args_workers a) (args_timeout a))
               (args_formal_dir a) (args_categories a)
               = Inr \<lparr> success = False, final_results = [],
                       printed_summary = None, saved_report = None \<rparr>))"
proof -
  have A: "\<forall>code. parse_args w argv = Inl code \<longrightarrow>
      exit_code (runner_main w fs argv) = code \<and> executed_jobs w fs argv = []"
    by (simp add: runner_main_def exit_code_def executed_jobs_def)
  have B: "exit_code (runner_main w fs argv) \<in> {0, 1} \<and>
      (args_generate_only a \<longrightarrow>
         executed_jobs w fs argv = [] \<and>
         (exit_code (runner_main w fs argv) = 0) =
           (path_exists fs (args_formal_dir a) \<and>
            (\<exists>d g. import_generator w = Some d \<and> generator_main w d fs = Inr g))) \<and>
      (\<not> args_generate_only a \<longrightarrow>
         (exit_code (runner_main w fs argv) = 0) =
           (\<exists>fs' out.
              prepare w fs a = Inr fs' \<and>
              run_verification_suite w fs' (init_runner w (args_workers a) (args_timeout a))
                (args_formal_dir a) (args_categories a) = Inr out \<and>
              printed_summary out \<noteq> None \<and> saved_report out \<noteq> None \<and>
              final_results out = executed_jobs w fs argv \<and>
              length (executed_jobs w fs argv)
                = length (collect_test_files fs' (args_formal_dir a)
                            (select_categories (args_categories a))) \<and>
              executed_jobs w fs argv \<noteq> [] \<and>
              (\<forall>res\<in>set (executed_jobs w fs argv). status res = ''PASS''))) \<and>
      (\<forall>fs'. prepare w fs a = Inr fs' \<and>
             collect_test_files fs' (args_formal_dir a) (select_categories (args_categories a)) = [] \<longrightarrow>
             exit_code (runner_main w fs argv) = 1 \<and>
             run_verification_suite w fs' (init_runner w (args_workers a) (args_timeout a))
               (args_formal_dir a) (args_categories a)
               = Inr \<lparr> success = False, final_results = [],
                       printed_summary = None, saved_report = None \<rparr>)"
    if pa: "parse_args w argv = Inr a" for a
  proof (intro conjI impI allI)
    let ?r = "init_runner w (args_workers a) (args_timeout a)"
    let ?suite = "\<lambda>fs'. run_verification_suite w fs' ?r (args_formal_dir a) (args_categories a)"
    let ?jobs = "\<lambda>fs'. collect_test_files fs' (args_formal_dir a) (select_categories (args_categories a))"
    let ?good = "\<lambda>fs' out. prepare w fs a = Inr fs' \<and> ?suite fs' = Inr out \<and>
            printed_summary out \<noteq> None \<and> saved_report out \<noteq> None \<and>
            final_results out = executed_jobs w fs argv \<and>
            length (executed_jobs w fs argv) = length (?jobs fs') \<and>
            executed_jobs w fs argv \<noteq> [] \<and>
            (\<forall>res\<in>set (executed_jobs w fs argv). status res = ''PASS'')"
    have main: "runner_main w fs argv = main_after_parse w fs a"
      by (simp add: runner_main_def pa)
    show "exit_code (runner_main w fs argv) \<in> {0, 1}"
      using prepare_Inl[of w fs a]
      by (auto simp: main main_after_parse_def exit_code_def split: sum.splits)
    show "executed_jobs w fs argv = []" if go: "args_generate_only a"
    proof -
      from generate_only_prepare[OF go, of w fs] obtain code where c: "prepare w fs a = Inl code"
        by blast
      show ?thesis by (simp add: executed_jobs_def pa c)
    qed
    show "(exit_code (runner_main w fs argv) = 0) =
           (path_exists fs (args_formal_dir a) \<and>
            (\<exists>d g. import_generator w = Some d \<and> generator_main w d fs = Inr g))"
      if go: "args_generate_only a"
    proof -
      from generate_only_prepare[OF go, of w fs] obtain code where c: "prepare w fs a = Inl code"
        by blast
      have "(exit_code (runner_main w fs argv) = 0) = (prepare w fs a = Inl 0)"
        by (simp add: main main_after_parse_def exit_code_def c)
      also have "\<dots> = (path_exists fs (args_formal_dir a) \<and>
              (\<exists>d g. import_generator w = Some d \<and> generator_main w d fs = Inr g))"
        using go by (simp add: prepare_Inl_0)
      finally show ?thesis .
    qed
    show "(exit_code (runner_main w fs argv) = 0) = (\<exists>fs' out. ?good fs' out)"
      if ngo: "\<not> args_generate_only a"
    proof -
      from ngo have no0: "prepare w fs a \<noteq> Inl 0"
        by (simp add: prepare_Inl_0)
      show ?thesis
      proof (cases "prepare w fs a")
        case (Inl code)
        with no0 have "code \<noteq> 0" by auto
        with Inl show ?thesis by (simp add: main main_after_parse_def exit_code_def)
      next
        case (Inr fs')
        show ?thesis
        proof (cases "?suite fs'")
          case (Inl e)
          with Inr show ?thesis by (simp add: main main_after_parse_def exit_code_def)
        next
          case out: (Inr out)
          have e: "final_results out = executed_jobs w fs argv"
            using pa Inr out by (rule suite_executed)
          from run_verification_suite_Inr(1,2)[OF out]
          have l: "length (executed_jobs w fs argv) = length (?jobs fs')"
            and s: "success out = (executed_jobs w fs argv \<noteq> [] \<and>
                                   (\<forall>res\<in>set (executed_jobs w fs argv). status res = ''PASS''))"
            by (simp_all add: e)
          have pr: "printed_summary out \<noteq> None \<and> saved_report out \<noteq> None"
            if ne: "executed_jobs w fs argv \<noteq> []"
          proof -
            from ne l have "?jobs fs' \<noteq> []" by auto
            with run_verification_suite_Inr(5)[OF out] show ?thesis by simp
          qed
          have "(exit_code (runner_main w fs argv) = 0) = success out"
            using Inr out by (simp add: main main_after_parse_def exit_code_def)
          also have "\<dots> = ?good fs' out"
            using Inr out e l s pr by auto
          also have "\<dots> = (\<exists>fs' out. ?good fs' out)"
            using Inr out by auto
          finally show ?thesis .
        qed
      qed
    qed
    show "exit_code (runner_main w fs argv) = 1"
      if "prepare w fs a = Inr fs' \<and> ?jobs fs' = []" for fs'
      using that by (simp add: main main_after_parse_def exit_code_def run_verification_suite_def)
    show "?suite fs' = Inr \<lparr> success = False, final_results = [],
                    printed_summary = None, saved_report = None \<rparr>"
      if "prepare w fs a = Inr fs' \<and> ?jobs fs' = []" for fs'
      using that by (simp add: run_verification_suite_def)
  qed
  from A B show ?thesis by blast
qed

theorem exit_code_characterisation_witness:
  "parse_args ex_world [''--bogus''] = Inl 2 \<and>
   exit_code (runner_main ex_world ex_fs [''--bogus'']) = 2 \<and>
   executed_jobs ex_world ex_fs [''--bogus''] = [] \<and>
   parse_args ex_world [] = Inr ex_args \<and>
   \<not> args_generate_only ex_args \<and>
   prepare ex_world ex_fs_empty ex_args = Inr ex_fs_empty \<and>
   collect_test_files ex_fs_empty (args_formal_dir ex_args)
     (select_categories (args_categories ex_args)) = [] \<and>
   exit_code (runner_main ex_world ex_fs_empty []) = 1 \<and>
   parse_args ex_world [''--generate-only''] = Inr (ex_args\<lparr>args_generate_only := True\<rparr>) \<and>
   args_generate_only (ex_args\<lparr>args_generate_only := True\<rparr>) \<and>
   executed_jobs ex_world ex_fs [''--generate-only''] = []"
proof -
  have b: "parse_args ex_world [''--bogus''] = Inl 2"
    by (simp add: ex_parse_args_world ex_parse_args_def)
  have n: "parse_args ex_world [] = Inr ex_args"
    by (simp add: ex_parse_args_world ex_parse_args_def)
  have o: "parse_args ex_world [''--generate-only''] = Inr (ex_args\<lparr>args_generate_only := True\<rparr>)"
    by (simp add: ex_parse_args_world ex_parse_args_def)
  have p: "prepare ex_world ex_fs_empty ex_args = Inr ex_fs_empty"
    by (simp add: prepare_def ex_args_def ex_fs_empty_def path_exists_def)
  have c: "collect_test_files ex_fs_empty (args_formal_dir ex_args)
             (select_categories (args_categories ex_args)) = []"
    by code_simp
  have g: "\<not> args_generate_only ex_args" by (simp add: ex_args_def)
  have g': "args_generate_only (ex_args\<lparr>args_generate_only := True\<rparr>)" by simp
  from exit_code_characterisation[of ex_world "[''--bogus'']" ex_fs] b
  have 1: "exit_code (runner_main ex_world ex_fs [''--bogus'']) = 2 \<and>
           executed_jobs ex_world ex_fs [''--bogus''] = []"
    by blast
  from exit_code_characterisation[of ex_world "[]" ex_fs_empty] n p c
  have 2: "exit_code (runner_main ex_world ex_fs_empty []) = 1" by blast
  from exit_code_characterisation[of ex_world "[''--generate-only'']" ex_fs] o g'
  have 3: "executed_jobs ex_world ex_fs [''--generate-only''] = []" by blast
  from b n o p c g g' 1 2 3 show ?thesis by blast
qed

text \<open>
  Claim C1 as stated fails: the exit code is not a function of the statuses of the
  executed jobs.  With \<^verbatim>\<open>--generate-only\<close> the example invocation executes no job and
  exits with 0; with a formal directory that does not exist it executes no job either
  and exits with 1.
\<close>

theorem exit_code_not_determined_by_jobs:
  "exit_code (runner_main ex_world ex_fs [''--generate-only'']) = 0 \<and>
   executed_jobs ex_world ex_fs [''--generate-only''] = [] \<and>
   exit_code (runner_main ex_world ex_fs [''--formal-dir'', ''nowhere'']) = 1 \<and>
   executed_jobs ex_world ex_fs [''--formal-dir'', ''nowhere''] = []"
proof -
  from ex_generator_returns obtain g where g: "generator_main ex_world [''formal''] ex_fs = Inr g"
    by blast
  have ex: "path_exists ex_fs [''formal'']" "\<not> path_exists ex_fs [''nowhere'']"
    by (simp_all add: path_exists_def ex_fs_def)
  have imp: "import_generator ex_world = Some [''formal'']"
    by (simp add: ex_world_def)
  have a1: "parse_args ex_world [''--generate-only''] = Inr (ex_args\<lparr>args_generate_only := True\<rparr>)"
    and a2: "parse_args ex_world [''--formal-dir'', ''nowhere'']
               = Inr (ex_args\<lparr>args_formal_dir := [''nowhere'']\<rparr>)"
    by (simp_all add: ex_parse_args_world ex_parse_args_def)
  have p1: "prepare ex_world ex_fs (ex_args\<lparr>args_generate_only := True\<rparr>) = Inl 0"
    by (simp add: prepare_def ex_args_def ex imp g)
  have p2: "prepare ex_world ex_fs (ex_args\<lparr>args_formal_dir := [''nowhere'']\<rparr>) = Inl 1"
    by (simp add: prepare_def ex_args_def ex)
  show ?thesis
    by (simp add: runner_main_def main_after_parse_def exit_code_def executed_jobs_def a1 a2 p1 p2)
qed

end
